theory Spec2Isabelle
  imports Complex_Main "HOL-Library.AList"
begin

section \<open>JavaScript numbers and typed arrays\<close>

text \<open>
  A JavaScript number is modelled as an exact real, or one of the three special values
  of IEEE arithmetic. Rounding, overflow to infinity and the sign of zero are not
  modelled: a finite result is the exact one (but for the welding test of
  \<open>computeIndices\<close>, which the rounding decides). Reading past the end of an array
  gives \<open>undefined\<close>, which every arithmetic use in \<open>mesh.js\<close> turns into \<open>NaN\<close>.
\<close>

datatype jsnum = Fin real | PInf | NInf | NaN

fun js_neg :: "jsnum \<Rightarrow> jsnum" where
  "js_neg (Fin a) = Fin (- a)"
| "js_neg PInf = NInf"
| "js_neg NInf = PInf"
| "js_neg NaN = NaN"

fun js_add :: "jsnum \<Rightarrow> jsnum \<Rightarrow> jsnum" where
  "js_add (Fin a) (Fin b) = Fin (a + b)"
| "js_add NaN y = NaN"
| "js_add x NaN = NaN"
| "js_add PInf NInf = NaN"
| "js_add NInf PInf = NaN"
| "js_add PInf y = PInf"
| "js_add x PInf = PInf"
| "js_add NInf y = NInf"
| "js_add x NInf = NInf"

definition js_sub :: "jsnum \<Rightarrow> jsnum \<Rightarrow> jsnum" where
  "js_sub x y = js_add x (js_neg y)"

fun js_mul :: "jsnum \<Rightarrow> jsnum \<Rightarrow> jsnum" where
  "js_mul (Fin a) (Fin b) = Fin (a * b)"
| "js_mul NaN y = NaN"
| "js_mul x NaN = NaN"
| "js_mul (Fin a) PInf = (if a = 0 then NaN else if 0 < a then PInf else NInf)"
| "js_mul (Fin a) NInf = (if a = 0 then NaN else if 0 < a then NInf else PInf)"
| "js_mul PInf (Fin b) = (if b = 0 then NaN else if 0 < b then PInf else NInf)"
| "js_mul NInf (Fin b) = (if b = 0 then NaN else if 0 < b then NInf else PInf)"
| "js_mul PInf PInf = PInf"
| "js_mul PInf NInf = NInf"
| "js_mul NInf PInf = NInf"
| "js_mul NInf NInf = PInf"

fun js_div :: "jsnum \<Rightarrow> jsnum \<Rightarrow> jsnum" where
  "js_div (Fin a) (Fin b) =
     (if b \<noteq> 0 then Fin (a / b)
      else if a = 0 then NaN else if 0 < a then PInf else NInf)"
| "js_div NaN y = NaN"
| "js_div x NaN = NaN"
| "js_div (Fin a) y = Fin 0"
| "js_div PInf (Fin b) = (if 0 \<le> b then PInf else NInf)"
| "js_div NInf (Fin b) = (if 0 \<le> b then NInf else PInf)"
| "js_div x y = NaN"

fun js_sqrt :: "jsnum \<Rightarrow> jsnum" where
  "js_sqrt (Fin a) = (if a < 0 then NaN else Fin (sqrt a))"
| "js_sqrt PInf = PInf"
| "js_sqrt NInf = NaN"
| "js_sqrt NaN = NaN"


text \<open>\<open>a < b\<close>: false as soon as one side is \<open>NaN\<close>.\<close>

fun js_lt :: "jsnum \<Rightarrow> jsnum \<Rightarrow> bool" where
  "js_lt (Fin a) (Fin b) = (a < b)"
| "js_lt NaN y = False"
| "js_lt x NaN = False"
| "js_lt x NInf = False"
| "js_lt PInf y = False"
| "js_lt x y = True"

definition js_gt :: "jsnum \<Rightarrow> jsnum \<Rightarrow> bool" where
  "js_gt x y = js_lt y x"

text \<open>\<open>Math.min\<close> and \<open>Math.max\<close> return \<open>NaN\<close> when an argument is \<open>NaN\<close>.\<close>

definition js_min :: "jsnum \<Rightarrow> jsnum \<Rightarrow> jsnum" where
  "js_min x y = (if x = NaN \<or> y = NaN then NaN else if js_lt y x then y else x)"

definition js_max :: "jsnum \<Rightarrow> jsnum \<Rightarrow> jsnum" where
  "js_max x y = (if x = NaN \<or> y = NaN then NaN else if js_lt x y then y else x)"

definition isNaN :: "jsnum \<Rightarrow> bool" where
  "isNaN x = (x = NaN)"

text \<open>Truthiness of a number, as \<open>x || d\<close> and \<open>!x\<close> test it.\<close>

definition truthy :: "jsnum \<Rightarrow> bool" where
  "truthy x = (x \<noteq> Fin 0 \<and> x \<noteq> NaN)"

definition js_or :: "jsnum \<Rightarrow> jsnum \<Rightarrow> jsnum" where
  "js_or x d = (if truthy x then x else d)"

text \<open>Truncation towards zero, the first step of every conversion to an integer.\<close>

definition trunc :: "real \<Rightarrow> int" where
  "trunc r = (if 0 \<le> r then \<lfloor>r\<rfloor> else \<lceil>r\<rceil>)"

text \<open>Wrap-around of an integer into \<open>w\<close> bits, unsigned and two's complement.\<close>

definition wrap_unsigned :: "nat \<Rightarrow> int \<Rightarrow> int" where
  "wrap_unsigned w n = n mod 2 ^ w"

definition wrap_signed :: "nat \<Rightarrow> int \<Rightarrow> int" where
  "wrap_signed w n = (n + 2 ^ (w - 1)) mod 2 ^ w - 2 ^ (w - 1)"

text \<open>\<open>x | 0\<close>: the ToInt32 conversion.\<close>

fun to_int32 :: "jsnum \<Rightarrow> int" where
  "to_int32 (Fin r) = wrap_signed 32 (trunc r)"
| "to_int32 x = 0"

datatype elem_kind =
  Int8Array | Uint8Array | Uint8ClampedArray | Int16Array | Uint16Array
  | Int32Array | Uint32Array | Float32Array | Float64Array

text \<open>
  What a typed array of each kind keeps of a number written into it. Floating-point
  kinds keep the number: the rounding of a fraction to the nearest float is not
  modelled. The rounding of a 32-bit integer to a 32-bit float, which \<open>upload\<close> does
  when it widens an array of integers, is \<open>to_float32\<close> below.
\<close>

definition int_elem :: "(int \<Rightarrow> int) \<Rightarrow> jsnum \<Rightarrow> jsnum" where
  "int_elem f x = (case x of Fin r \<Rightarrow> Fin (of_int (f (trunc r))) | _ \<Rightarrow> Fin 0)"

fun clamp_elem :: "jsnum \<Rightarrow> jsnum" where
  "clamp_elem (Fin r) =
     (if r \<le> 0 then Fin 0 else if 255 \<le> r then Fin 255
      else let f = \<lfloor>r\<rfloor>; d = r - of_int f in
        Fin (of_int (if d < 1 / 2 then f else if 1 / 2 < d then f + 1
                     else if even f then f else f + 1)))"
| "clamp_elem PInf = Fin 255"
| "clamp_elem x = Fin 0"

fun to_kind :: "elem_kind \<Rightarrow> jsnum \<Rightarrow> jsnum" where
  "to_kind Int8Array x = int_elem (wrap_signed 8) x"
| "to_kind Uint8Array x = int_elem (wrap_unsigned 8) x"
| "to_kind Uint8ClampedArray x = clamp_elem x"
| "to_kind Int16Array x = int_elem (wrap_signed 16) x"
| "to_kind Uint16Array x = int_elem (wrap_unsigned 16) x"
| "to_kind Int32Array x = int_elem (wrap_signed 32) x"
| "to_kind Uint32Array x = int_elem (wrap_unsigned 32) x"
| "to_kind Float32Array x = x"
| "to_kind Float64Array x = x"

text \<open>
  The value of a \<open>data\<close> field or of a payload: a typed array of some kind, or a
  plain JavaScript array of numbers (which has no \<open>.buffer\<close>).
\<close>

datatype jsdata = Typed elem_kind "jsnum list" | Plain "jsnum list"

fun elems :: "jsdata \<Rightarrow> jsnum list" where
  "elems (Typed k xs) = xs"
| "elems (Plain xs) = xs"

definition len :: "jsdata \<Rightarrow> nat" where
  "len d = length (elems d)"

fun is_plain :: "jsdata \<Rightarrow> bool" where
  "is_plain (Plain xs) = True"
| "is_plain (Typed k xs) = False"

text \<open>\<open>new K(xs)\<close>: a fresh typed array of kind \<open>K\<close> holding the converted numbers.\<close>

definition new_typed :: "elem_kind \<Rightarrow> jsnum list \<Rightarrow> jsdata" where
  "new_typed k xs = Typed k (map (to_kind k) xs)"

text \<open>A typed array is well formed when every element is a value its kind can hold.\<close>

definition wf_data :: "jsdata \<Rightarrow> bool" where
  "wf_data d = (case d of Typed k xs \<Rightarrow> list_all (\<lambda>x. to_kind k x = x) xs | Plain xs \<Rightarrow> True)"

text \<open>
  \<open>new Float32Array(data)\<close> for an array of 32-bit integers, as \<open>upload\<close> calls it: a
  32-bit float has 24 significant bits, so an integer below \<open>2 ^ 24\<close> in absolute value
  is kept, and a larger one is rounded to the nearest multiple of the spacing
  \<open>float32_ulp\<close> of the floats around it, the one with the even quotient when two are
  as near. (No 32-bit integer is large enough to become infinite.) The elements of an
  \<open>Int32Array\<close> or a \<open>Uint32Array\<close> are integers, which \<open>trunc\<close> leaves as they are.
\<close>

function float32_ulp :: "nat \<Rightarrow> nat" where
  "float32_ulp n = (if n < 2 ^ 24 then 1 else 2 * float32_ulp (n div 2))"
  by pat_completeness auto
termination
  by (relation "measure id") auto

declare float32_ulp.simps [simp del]

definition float32_of_int :: "int \<Rightarrow> int" where
  "float32_of_int n =
     (let a = nat \<bar>n\<bar>;
          q = float32_ulp a;
          m = a div q;
          r = a mod q;
          m' = (if 2 * r < q then m else if q < 2 * r then m + 1
                else if even m then m else m + 1)
      in sgn n * int (m' * q))"

fun to_float32 :: "jsnum \<Rightarrow> jsnum" where
  "to_float32 (Fin r) = Fin (of_int (float32_of_int (trunc r)))"
| "to_float32 x = x"

section \<open>The device and the console\<close>

datatype gl_target = ARRAY_BUFFER | ELEMENT_ARRAY_BUFFER
datatype gl_usage = STATIC_DRAW | DYNAMIC_DRAW | STREAM_DRAW
datatype gl_type =
  GL_BYTE | GL_UNSIGNED_BYTE | GL_SHORT | GL_UNSIGNED_SHORT | GL_INT | GL_UNSIGNED_INT | GL_FLOAT

text \<open>
  The calls issued to the graphics device and the lines written to the console are
  recorded in the order the code makes them.
\<close>

datatype gl_call =
  BindBuffer "gl_target option"
  | BufferData "gl_target option" jsdata gl_usage
  | BufferSubData "gl_target option" nat "nat list"

datatype diag = Log string | Warn string | Error string

text \<open>A rendering context; \<open>createBuffer\<close> returns \<open>null\<close> once the context is lost.\<close>

record glctx =
  context_lost :: bool

text \<open>
  The world outside the objects: the console, the device, and the ambient context
  \<open>global.gl\<close> that constructors fall back to.
\<close>

record world =
  console :: "diag list"
  gl_calls :: "gl_call list"
  global_gl :: "glctx option"

text \<open>The WebGL buffer object, with the fields \<open>upload\<close> stores inside it.\<close>

record webgl_buffer =
  glb_length :: "nat option"
  glb_spacing :: "jsnum option"
  gl_type :: "gl_type option"

definition createBuffer :: "glctx \<Rightarrow> webgl_buffer option" where
  "createBuffer ctx =
     (if context_lost ctx then None
      else Some \<lparr>glb_length = None, glb_spacing = None, gl_type = None\<rparr>)"

datatype error = Thrown string | TypeError | RangeError

datatype 'a outcome = Throws error | Returns 'a

section \<open>GL.Buffer\<close>

record gl_buffer =
  gl :: "glctx option"
  buffer :: "webgl_buffer option"
  target :: "gl_target option"
  attribute :: "string option"
  normalize :: bool
  data :: "jsdata option"
  spacing :: jsnum
  name :: "string option"
  stream_type :: "gl_usage option"

fun gl_type_of :: "elem_kind \<Rightarrow> gl_type option" where
  "gl_type_of Int8Array = Some GL_BYTE"
| "gl_type_of Uint8ClampedArray = Some GL_UNSIGNED_BYTE"
| "gl_type_of Uint8Array = Some GL_UNSIGNED_BYTE"
| "gl_type_of Int16Array = Some GL_SHORT"
| "gl_type_of Uint16Array = Some GL_UNSIGNED_SHORT"
| "gl_type_of Int32Array = Some GL_INT"
| "gl_type_of Uint32Array = Some GL_UNSIGNED_INT"
| "gl_type_of Float32Array = Some GL_FLOAT"
| "gl_type_of Float64Array = None"

definition usage_or :: "gl_usage option \<Rightarrow> gl_usage option \<Rightarrow> gl_usage" where
  "usage_or a b = (case a of Some u \<Rightarrow> u | None \<Rightarrow> (case b of Some u \<Rightarrow> u | None \<Rightarrow> STATIC_DRAW))"

text \<open>
  \<open>GL.Buffer.prototype.upload\<close>. The result is the outcome of the call together with
  the buffer and the world as the call leaves them, also when it throws.
\<close>

definition upload ::
  "gl_usage option \<Rightarrow> gl_buffer \<Rightarrow> world \<Rightarrow> unit outcome \<times> gl_buffer \<times> world" where
  "upload stream_type_arg this w =
     (let spacing' = js_or (spacing this) (Fin 3) in
      case gl this of
        None \<Rightarrow> (Returns (), this, w)
      | Some ctx \<Rightarrow>
        (case data this of
           None \<Rightarrow> (Throws (Thrown ''No data supplied''), this, w)
         | Some (Plain xs) \<Rightarrow> (Throws (Thrown ''Buffers must be typed arrays''), this, w)
         | Some (Typed k xs) \<Rightarrow>
           (case (case buffer this of Some b \<Rightarrow> Some b | None \<Rightarrow> createBuffer ctx) of
              None \<Rightarrow> (Returns (), this, w)
            | Some b0 \<Rightarrow>
              (let b1 = b0\<lparr>glb_length := Some (length xs), glb_spacing := Some spacing'\<rparr> in
               case gl_type_of k of
                 None \<Rightarrow> (Throws (Thrown ''unsupported buffer type''), this\<lparr>buffer := Some b1\<rparr>, w)
               | Some t \<Rightarrow>
                 (let usage = usage_or stream_type_arg (stream_type this) in
                  if target this = Some ARRAY_BUFFER \<and> (t = GL_INT \<or> t = GL_UNSIGNED_INT) then
                    (Returns (),
                     this\<lparr>buffer := Some (b1\<lparr>gl_type := Some GL_FLOAT\<rparr>)\<rparr>,
                     w\<lparr>console := console w @
                          [Warn ''WebGL does not support UINT32 or INT32 as vertex buffer types, converting to FLOAT''],
                        gl_calls := gl_calls w @
                          [BindBuffer (target this),
                           BufferData (target this) (Typed Float32Array (map to_float32 xs)) usage]\<rparr>)
                  else
                    (Returns (),
                     this\<lparr>buffer := Some (b1\<lparr>gl_type := Some t\<rparr>)\<rparr>,
                     w\<lparr>gl_calls := gl_calls w @
                          [BindBuffer (target this), BufferData (target this) (Typed k xs) usage]\<rparr>))))))"

text \<open>
  The constructor. Its \<open>gl\<close> argument is \<open>null\<close> (no context wanted), omitted
  (the ambient \<open>global.gl\<close> is taken) or a context. An omitted \<open>data\<close> is \<open>None\<close>;
  an omitted \<open>spacing\<close> is any falsy number.
\<close>

datatype gl_arg = GlNull | GlUndefined | GlGiven glctx

definition resolve_gl :: "gl_arg \<Rightarrow> world \<Rightarrow> glctx option" where
  "resolve_gl g w = (case g of GlNull \<Rightarrow> None | GlUndefined \<Rightarrow> global_gl w | GlGiven c \<Rightarrow> Some c)"

definition Buffer ::
  "gl_target option \<Rightarrow> jsdata option \<Rightarrow> jsnum \<Rightarrow> gl_usage option \<Rightarrow> gl_arg \<Rightarrow> world
     \<Rightarrow> unit outcome \<times> gl_buffer \<times> world" where
  "Buffer target_arg data_arg spacing_arg stream_type_arg g w =
     (let this = \<lparr>gl = resolve_gl g w, buffer = None, target = target_arg, attribute = None,
                   normalize = False, data = data_arg, spacing = js_or spacing_arg (Fin 3),
                   name = None, stream_type = None\<rparr>
      in if data this \<noteq> None \<and> gl this \<noteq> None then upload stream_type_arg this w
         else (Returns (), this, w))"

text \<open>
  \<open>uploadRange\<close> and the partial path of \<open>setData\<close> work on the bytes of the
  storage. The byte layout of a typed array is not modelled: \<open>to_bytes\<close> and
  \<open>of_bytes\<close> are parameters.
\<close>

definition uploadRange ::
  "(jsdata \<Rightarrow> nat list) \<Rightarrow> nat \<Rightarrow> nat \<Rightarrow> gl_buffer \<Rightarrow> world
     \<Rightarrow> unit outcome \<times> gl_buffer \<times> world" where
  "uploadRange to_bytes start n this w =
     (case data this of
        None \<Rightarrow> (Throws (Thrown ''No data stored in this buffer''), this, w)
      | Some (Plain xs) \<Rightarrow> (Throws (Thrown ''Buffers must be typed arrays''), this, w)
      | Some (Typed k xs) \<Rightarrow>
        (let bytes = to_bytes (Typed k xs) in
         if length bytes < start + n then (Throws RangeError, this, w)
         else case gl this of
           None \<Rightarrow> (Throws TypeError, this, w)
         | Some ctx \<Rightarrow>
           (Returns (), this,
            w\<lparr>gl_calls := gl_calls w @
                 [BindBuffer (target this),
                  BufferSubData (target this) start (take n (drop start bytes))]\<rparr>)))"

definition patch :: "'a list \<Rightarrow> nat \<Rightarrow> 'a list \<Rightarrow> 'a list" where
  "patch dst off src = take off dst @ src @ drop (off + length src) dst"

text \<open>
  \<open>GL.Buffer.prototype.setData\<close>. \<open>same_object\<close> says whether the payload is the
  very array the buffer already holds (\<open>this.data != data\<close> compares identities).
\<close>

definition setData ::
  "(jsdata \<Rightarrow> nat list) \<Rightarrow> (elem_kind \<Rightarrow> nat list \<Rightarrow> jsnum list) \<Rightarrow> bool \<Rightarrow> jsdata \<Rightarrow> nat
     \<Rightarrow> gl_buffer \<Rightarrow> world \<Rightarrow> unit outcome \<times> gl_buffer \<times> world" where
  "setData to_bytes of_bytes same_object d offset this w =
     (case d of
        Plain ys \<Rightarrow> (Throws (Thrown ''Data must be typed array''), this, w)
      | Typed kd ys \<Rightarrow>
        (case data this of
           None \<Rightarrow> upload None (this\<lparr>data := Some d\<rparr>) w
         | Some cur \<Rightarrow>
           if len cur < len d then
             (Throws (Thrown ''buffer is not big enough, you cannot set data to a smaller buffer''),
              this, w)
           else if same_object then (Returns (), this, w)
           else if len cur = len d then
             (case cur of
                Plain xs \<Rightarrow> (Throws TypeError, this, w)
              | Typed k xs \<Rightarrow> upload None (this\<lparr>data := Some (new_typed k ys)\<rparr>) w)
           else
             (let src = to_bytes d in
              case cur of
                Plain xs \<Rightarrow>
                  if 0 < offset + length src then (Throws RangeError, this, w)
                  else uploadRange to_bytes offset (length src) this w
              | Typed k xs \<Rightarrow>
                  (let dst = to_bytes cur in
                   if length dst < offset + length src then (Throws RangeError, this, w)
                   else uploadRange to_bytes offset (length src)
                          (this\<lparr>data := Some (Typed k (of_bytes k (patch dst offset src)))\<rparr>) w))))"

subsection \<open>Serialisation\<close>

text \<open>The object \<open>toJSON\<close> builds and \<open>fromJSON\<close> reads.\<close>

record buffer_json =
  j_data_type :: string
  j_data :: "jsnum list"
  j_target :: "gl_target option"
  j_attribute :: "string option"
  j_spacing :: jsnum

text \<open>
  Modelled from the spec: \<open>getClassName\<close> is not in \<open>mesh.js\<close>; serialisation
  "encodes numeric kind tag", the name of the array's constructor.
\<close>

fun getClassName :: "jsdata \<Rightarrow> string" where
  "getClassName (Typed Int8Array xs) = ''Int8Array''"
| "getClassName (Typed Uint8Array xs) = ''Uint8Array''"
| "getClassName (Typed Uint8ClampedArray xs) = ''Uint8ClampedArray''"
| "getClassName (Typed Int16Array xs) = ''Int16Array''"
| "getClassName (Typed Uint16Array xs) = ''Uint16Array''"
| "getClassName (Typed Int32Array xs) = ''Int32Array''"
| "getClassName (Typed Uint32Array xs) = ''Uint32Array''"
| "getClassName (Typed Float32Array xs) = ''Float32Array''"
| "getClassName (Typed Float64Array xs) = ''Float64Array''"
| "getClassName (Plain xs) = ''Array''"

text \<open>
  \<open>global[name]\<close> for the names of the typed-array constructors. Any other name is
  taken to be absent from the global object, so that \<open>fromJSON\<close> falls back to
  \<open>Float32Array\<close>.
\<close>

definition global_typed :: "string \<Rightarrow> elem_kind option" where
  "global_typed n =
     (if n = ''Int8Array'' then Some Int8Array
      else if n = ''Uint8Array'' then Some Uint8Array
      else if n = ''Uint8ClampedArray'' then Some Uint8ClampedArray
      else if n = ''Int16Array'' then Some Int16Array
      else if n = ''Uint16Array'' then Some Uint16Array
      else if n = ''Int32Array'' then Some Int32Array
      else if n = ''Uint32Array'' then Some Uint32Array
      else if n = ''Float32Array'' then Some Float32Array
      else if n = ''Float64Array'' then Some Float64Array
      else None)"

text \<open>
  \<open>GL.Buffer.prototype.toJSON\<close>. Modelled from the spec: the \<open>toJSON\<close> method of a
  typed array is not in \<open>mesh.js\<close>; it gives the "storage contents" as a plain
  array. A plain array has no such method.
\<close>

definition toJSON :: "gl_buffer \<Rightarrow> world \<Rightarrow> buffer_json option outcome \<times> gl_buffer \<times> world" where
  "toJSON this w =
     (case data this of
        None \<Rightarrow>
          (Returns None, this,
           w\<lparr>console := console w @ [Error ''cannot serialize a mesh without data'']\<rparr>)
      | Some (Plain xs) \<Rightarrow> (Throws TypeError, this, w)
      | Some (Typed k xs) \<Rightarrow>
          (Returns (Some \<lparr>j_data_type = getClassName (Typed k xs), j_data = xs,
                            j_target = target this, j_attribute = attribute this,
                            j_spacing = spacing this\<rparr>),
           this, w))"

definition fromJSON :: "buffer_json \<Rightarrow> gl_buffer \<Rightarrow> world \<Rightarrow> unit outcome \<times> gl_buffer \<times> world" where
  "fromJSON o_json this w =
     (let data_type = (case global_typed (j_data_type o_json) of Some k \<Rightarrow> k | None \<Rightarrow> Float32Array)
      in upload (Some STATIC_DRAW)
           (this\<lparr>data := Some (new_typed data_type (j_data o_json)),
                 target := j_target o_json,
                 spacing := js_or (j_spacing o_json) (Fin 3),
                 attribute := j_attribute o_json\<rparr>) w)"


section \<open>Vectors and views\<close>

text \<open>
  \<open>a[i]\<close> in arithmetic: the element, or \<open>NaN\<close> (from \<open>undefined\<close>) past the end.
\<close>

definition elem_at :: "jsnum list \<Rightarrow> nat \<Rightarrow> jsnum" where
  "elem_at xs i = (if i < length xs then xs ! i else NaN)"

text \<open>
  \<open>subarray(begin, end)\<close> gives a view on the same storage: the model keeps its first
  position and its length. The bounds are converted to integers, counted from the end
  when negative, and clamped to the array.
\<close>

fun rel_index :: "nat \<Rightarrow> jsnum \<Rightarrow> nat" where
  "rel_index n (Fin r) =
     (if trunc r < 0 then nat (max (int n + trunc r) 0) else min (nat (trunc r)) n)"
| "rel_index n PInf = n"
| "rel_index n x = 0"

type_synonym view = "nat \<times> nat"

definition subarray :: "jsnum list \<Rightarrow> jsnum \<Rightarrow> jsnum \<Rightarrow> view" where
  "subarray xs b e = (rel_index (length xs) b, rel_index (length xs) e - rel_index (length xs) b)"

definition vread :: "jsnum list \<Rightarrow> view \<Rightarrow> nat \<Rightarrow> jsnum" where
  "vread xs v i = (if i < snd v then elem_at xs (fst v + i) else NaN)"

text \<open>A write through a view of a typed array of kind \<open>k\<close>; past the view it does nothing.\<close>

definition vwrite :: "elem_kind \<Rightarrow> jsnum list \<Rightarrow> view \<Rightarrow> nat \<Rightarrow> jsnum \<Rightarrow> jsnum list" where
  "vwrite k xs v i x = (if i < snd v then xs[fst v + i := to_kind k x] else xs)"

type_synonym vec3 = "jsnum \<times> jsnum \<times> jsnum"

definition vread3 :: "jsnum list \<Rightarrow> view \<Rightarrow> vec3" where
  "vread3 xs v = (vread xs v 0, vread xs v 1, vread xs v 2)"

definition vwrite3 :: "elem_kind \<Rightarrow> jsnum list \<Rightarrow> view \<Rightarrow> vec3 \<Rightarrow> jsnum list" where
  "vwrite3 k xs v a =
     (case a of (x, y, z) \<Rightarrow> vwrite k (vwrite k (vwrite k xs v 0 x) v 1 y) v 2 z)"

text \<open>
  Modelled from the spec: the \<open>vec3\<close> functions belong to the gl-matrix library, which
  is not in \<open>mesh.js\<close>. They are the componentwise difference, sum, minimum and
  maximum, the scaling, the dot and "cross product", and
  \<open>normalize\<close>, which scales a vector to unit length and leaves it as it is when its
  squared length is not positive.
\<close>

definition vec3_sub :: "vec3 \<Rightarrow> vec3 \<Rightarrow> vec3" where
  "vec3_sub a b = (case a of (ax, ay, az) \<Rightarrow> case b of (bx, by, bz) \<Rightarrow>
     (js_sub ax bx, js_sub ay by, js_sub az bz))"

definition vec3_add :: "vec3 \<Rightarrow> vec3 \<Rightarrow> vec3" where
  "vec3_add a b = (case a of (ax, ay, az) \<Rightarrow> case b of (bx, by, bz) \<Rightarrow>
     (js_add ax bx, js_add ay by, js_add az bz))"

definition vec3_scale :: "vec3 \<Rightarrow> jsnum \<Rightarrow> vec3" where
  "vec3_scale a c = (case a of (ax, ay, az) \<Rightarrow> (js_mul ax c, js_mul ay c, js_mul az c))"

definition vec3_dot :: "vec3 \<Rightarrow> vec3 \<Rightarrow> jsnum" where
  "vec3_dot a b = (case a of (ax, ay, az) \<Rightarrow> case b of (bx, by, bz) \<Rightarrow>
     js_add (js_add (js_mul ax bx) (js_mul ay by)) (js_mul az bz))"

definition vec3_cross :: "vec3 \<Rightarrow> vec3 \<Rightarrow> vec3" where
  "vec3_cross a b = (case a of (ax, ay, az) \<Rightarrow> case b of (bx, by, bz) \<Rightarrow>
     (js_sub (js_mul ay bz) (js_mul az by),
      js_sub (js_mul az bx) (js_mul ax bz),
      js_sub (js_mul ax by) (js_mul ay bx)))"

definition vec3_normalize :: "vec3 \<Rightarrow> vec3" where
  "vec3_normalize a =
     (let l = vec3_dot a a in
      if js_gt l (Fin 0) then vec3_scale a (js_div (Fin 1) (js_sqrt l)) else a)"

definition vec3_min :: "vec3 \<Rightarrow> vec3 \<Rightarrow> vec3" where
  "vec3_min a b = (case a of (ax, ay, az) \<Rightarrow> case b of (bx, by, bz) \<Rightarrow>
     (js_min ax bx, js_min ay by, js_min az bz))"

definition vec3_max :: "vec3 \<Rightarrow> vec3 \<Rightarrow> vec3" where
  "vec3_max a b = (case a of (ax, ay, az) \<Rightarrow> case b of (bx, by, bz) \<Rightarrow>
     (js_max ax bx, js_max ay by, js_max az bz))"

section \<open>Bounding boxes\<close>

record bbox =
  center :: vec3
  halfsize :: vec3
  bb_min :: vec3
  bb_max :: vec3
  radius :: jsnum

text \<open>
  Modelled from the spec: \<open>BBox.setCenterHalfsize\<close> is not in \<open>mesh.js\<close>. A bounding
  volume is "center, half-size, min, max, radius -- 13 scalars"; from a center and a
  half-size the corners are center minus and plus half-size, and the radius is the
  length of the half-size.
\<close>

definition setCenterHalfsize :: "vec3 \<Rightarrow> vec3 \<Rightarrow> bbox" where
  "setCenterHalfsize c h =
     \<lparr>center = c, halfsize = h, bb_min = vec3_sub c h, bb_max = vec3_add c h,
      radius = js_sqrt (vec3_dot h h)\<rparr>"

text \<open>
  The reduction loop of \<open>Mesh.computeBoundingBox\<close>, from position \<open>i\<close> in steps of 3.
  A mask is a list of flags; past its end \<open>mask[i/3]\<close> is \<open>undefined\<close>, which is falsy.
\<close>

definition masked_out :: "bool list option \<Rightarrow> nat \<Rightarrow> bool" where
  "masked_out msk j = (case msk of None \<Rightarrow> False | Some m \<Rightarrow> \<not> (j < length m \<and> m ! j))"

function bbox_loop :: "jsnum list \<Rightarrow> bool list option \<Rightarrow> nat \<Rightarrow> vec3 \<times> vec3 \<Rightarrow> vec3 \<times> vec3" where
  "bbox_loop vs msk i mm =
     (if i < length vs then
        (if masked_out msk (i div 3) then bbox_loop vs msk (i + 3) mm
         else let v = vread3 vs (subarray vs (Fin (real i)) (Fin (real (i + 3))))
              in bbox_loop vs msk (i + 3) (vec3_min v (fst mm), vec3_max v (snd mm)))
      else mm)"
  by pat_completeness auto
termination
  by (relation "measure (\<lambda>(vs, msk, i, mm). length vs - i)") auto

declare bbox_loop.simps [simp del]

text \<open>The first marked position of a msk, \<open>0\<close> when there is none.\<close>

fun first_marked :: "bool list \<Rightarrow> nat \<Rightarrow> nat" where
  "first_marked [] i = 0"
| "first_marked (b # bs) i = (if b then i else first_marked bs (Suc i))"

definition mask_start :: "bool list option \<Rightarrow> nat" where
  "mask_start msk = (case msk of None \<Rightarrow> 0 | Some m \<Rightarrow> first_marked m 0)"

definition has_NaN :: "vec3 \<Rightarrow> bool" where
  "has_NaN a = (case a of (x, y, z) \<Rightarrow> isNaN x \<or> isNaN y \<or> isNaN z)"

definition bbox_reduce :: "jsnum list \<Rightarrow> bool list option \<Rightarrow> nat \<Rightarrow> vec3 \<times> vec3" where
  "bbox_reduce vs msk start =
     (let v0 = vread3 vs (subarray vs (Fin (real (start * 3))) (Fin (real (start * 3 + 3))))
      in bbox_loop vs msk (start * 3) (v0, v0))"

text \<open>
  \<open>Mesh.computeBoundingBox\<close>. The value returned is \<open>None\<close> for \<open>undefined\<close>. The box
  passed as \<open>bb\<close> is overwritten as a whole, so it is not an argument of the model.
\<close>

definition computeBoundingBox ::
  "jsdata option \<Rightarrow> bool list option \<Rightarrow> world \<Rightarrow> bbox option outcome \<times> world" where
  "computeBoundingBox vertices msk w =
     (case vertices of
        None \<Rightarrow> (Returns None, w)
      | Some d \<Rightarrow>
          (let start = mask_start msk in
           if (case msk of None \<Rightarrow> False | Some m \<Rightarrow> start = length m) then
             (Returns None,
              w\<lparr>console := console w @ [Warn ''mask contains only zeros, no vertices marked'']\<rparr>)
           else
             (case d of
                Plain xs \<Rightarrow> (Throws TypeError, w)
              | Typed k vs \<Rightarrow>
                 (let mm = bbox_reduce vs msk start;
                      bad = has_NaN (fst mm) \<or> has_NaN (snd mm);
                      mn = (if bad then (Fin 0, Fin 0, Fin 0) else fst mm);
                      mx = (if bad then (Fin 0, Fin 0, Fin 0) else snd mm);
                      w' = (if bad
                            then w\<lparr>console := console w @
                                   [Warn ''Warning: GL.Mesh has NaN values in vertices'']\<rparr>
                            else w);
                      c = vec3_scale (vec3_add mn mx) (Fin (1 / 2));
                      h = vec3_sub mx c
                  in (Returns (Some (setCenterHalfsize c h)), w')))))"

section \<open>GL.Mesh: the container\<close>

text \<open>A group; its start and its length are finite numbers.\<close>

record group =
  g_name :: string
  g_start :: real
  g_length :: real
  g_material :: string
  g_bounding :: "bbox option"

text \<open>
  A mesh. The two buffer tables are JavaScript objects: association lists in the order
  the keys were added. Each name holds a buffer object of its own. A bone is a pair of
  a name (\<open>b[0]\<close>) and a matrix.
\<close>

record mesh =
  mesh_gl :: "glctx option"
  vertexBuffers :: "(string \<times> gl_buffer) list"
  indexBuffers :: "(string \<times> gl_buffer) list"
  info_groups :: "group list"
  bounding :: bbox
  bones :: "(string \<times> jsnum list) list option"

record common_info =
  c_spacing :: nat
  c_attribute :: string
  c_normalize :: bool
  c_type :: "elem_kind option"

definition common_buffers :: "string \<Rightarrow> common_info option" where
  "common_buffers n =
     (if n = ''vertices'' then Some \<lparr>c_spacing = 3, c_attribute = ''a_vertex'', c_normalize = False, c_type = None\<rparr>
      else if n = ''vertices2D'' then Some \<lparr>c_spacing = 2, c_attribute = ''a_vertex2D'', c_normalize = False, c_type = None\<rparr>
      else if n = ''normals'' then Some \<lparr>c_spacing = 3, c_attribute = ''a_normal'', c_normalize = True, c_type = None\<rparr>
      else if n = ''coords'' then Some \<lparr>c_spacing = 2, c_attribute = ''a_coord'', c_normalize = False, c_type = None\<rparr>
      else if n = ''coords1'' then Some \<lparr>c_spacing = 2, c_attribute = ''a_coord1'', c_normalize = False, c_type = None\<rparr>
      else if n = ''coords2'' then Some \<lparr>c_spacing = 2, c_attribute = ''a_coord2'', c_normalize = False, c_type = None\<rparr>
      else if n = ''colors'' then Some \<lparr>c_spacing = 4, c_attribute = ''a_color'', c_normalize = True, c_type = None\<rparr>
      else if n = ''tangents'' then Some \<lparr>c_spacing = 3, c_attribute = ''a_tangent'', c_normalize = False, c_type = None\<rparr>
      else if n = ''bone_indices'' then Some \<lparr>c_spacing = 4, c_attribute = ''a_bone_indices'', c_normalize = False, c_type = Some Uint8Array\<rparr>
      else if n = ''weights'' then Some \<lparr>c_spacing = 4, c_attribute = ''a_weights'', c_normalize = True, c_type = None\<rparr>
      else if n = ''extra'' then Some \<lparr>c_spacing = 1, c_attribute = ''a_extra'', c_normalize = False, c_type = None\<rparr>
      else if n = ''extra2'' then Some \<lparr>c_spacing = 2, c_attribute = ''a_extra2'', c_normalize = False, c_type = None\<rparr>
      else if n = ''extra3'' then Some \<lparr>c_spacing = 3, c_attribute = ''a_extra3'', c_normalize = False, c_type = None\<rparr>
      else if n = ''extra4'' then Some \<lparr>c_spacing = 4, c_attribute = ''a_extra4'', c_normalize = False, c_type = None\<rparr>
      else None)"

definition default_datatype :: elem_kind where
  "default_datatype = Float32Array"

definition this_gl :: "mesh \<Rightarrow> gl_arg" where
  "this_gl m = (case mesh_gl m of None \<Rightarrow> GlUndefined | Some c \<Rightarrow> GlGiven c)"

definition getNumVertices :: "mesh \<Rightarrow> jsnum outcome" where
  "getNumVertices this =
     (case map_of (vertexBuffers this) ''vertices'' of
        None \<Rightarrow> Returns (Fin 0)
      | Some b \<Rightarrow>
        (case data b of
           None \<Rightarrow> Throws TypeError
         | Some d \<Rightarrow> Returns (js_div (Fin (real (len d))) (spacing b))))"

text \<open>
  \<open>new K(n)\<close> for a number \<open>n\<close>: \<open>n\<close> zeros, after truncation; a negative or infinite
  length is a RangeError.
\<close>

fun new_zeroed :: "elem_kind \<Rightarrow> jsnum \<Rightarrow> jsdata outcome" where
  "new_zeroed k (Fin r) =
     (if trunc r < 0 then Throws RangeError else Returns (Typed k (replicate (nat (trunc r)) (Fin 0))))"
| "new_zeroed k NaN = Returns (Typed k [])"
| "new_zeroed k x = Throws RangeError"

definition falsy_str :: "string option \<Rightarrow> bool" where
  "falsy_str a = (a = None \<or> a = Some [])"

definition int_kind :: "elem_kind \<Rightarrow> bool" where
  "int_kind k = (k = Uint8Array \<or> k = Int8Array \<or> k = Uint16Array \<or> k = Int16Array
                 \<or> k = Uint32Array \<or> k = Int32Array)"

definition createVertexBuffer ::
  "string \<Rightarrow> string option \<Rightarrow> jsnum \<Rightarrow> jsdata option \<Rightarrow> gl_usage option \<Rightarrow> mesh \<Rightarrow> world
     \<Rightarrow> gl_buffer outcome \<times> mesh \<times> world" where
  "createVertexBuffer nm attribute_arg spacing_arg data_arg stream_type_arg this w =
     (let common = common_buffers nm;
          attr = (if falsy_str attribute_arg
                  then (case common of Some c \<Rightarrow> Some (c_attribute c) | None \<Rightarrow> attribute_arg)
                  else attribute_arg)
      in if falsy_str attr then
           (Throws (Thrown ''Buffer added to mesh without attribute name''), this, w)
         else
           (let buffer_spacing =
                  (case common of
                     Some c \<Rightarrow>
                       if \<not> truthy spacing_arg
                       then (if c_spacing c \<noteq> 0 then Fin (real (c_spacing c)) else Fin 3)
                       else spacing_arg
                   | None \<Rightarrow> spacing_arg);
                buffer_data =
                  (case data_arg of
                     Some d \<Rightarrow> Returns d
                   | None \<Rightarrow>
                     (case getNumVertices this of
                        Throws e \<Rightarrow> Throws e
                      | Returns num \<Rightarrow>
                          if \<not> truthy num then
                            Throws (Thrown ''Cannot create an empty buffer in a mesh without vertices (vertices are needed to know the size)'')
                          else new_zeroed default_datatype (js_mul num buffer_spacing)))
            in case buffer_data of
                 Throws e \<Rightarrow> (Throws e, this, w)
               | Returns (Plain xs) \<Rightarrow> (Throws (Thrown ''Buffer data MUST be typed array''), this, w)
               | Returns (Typed k xs) \<Rightarrow>
                 (case Buffer (Some ARRAY_BUFFER) (Some (Typed k xs)) buffer_spacing stream_type_arg
                         (this_gl this) w of
                    (Throws e, b, w') \<Rightarrow> (Throws e, this, w')
                  | (Returns u, b, w') \<Rightarrow>
                    (let b1 = b\<lparr>name := Some nm, attribute := attr\<rparr>;
                         b2 = (if int_kind k \<and> (case common of Some c \<Rightarrow> c_normalize c | None \<Rightarrow> False)
                               then b1\<lparr>normalize := True\<rparr> else b1)
                     in (Returns b2,
                         this\<lparr>vertexBuffers := AList.update nm b2 (vertexBuffers this)\<rparr>, w')))))"

definition updateVertexBuffer ::
  "string \<Rightarrow> string option \<Rightarrow> jsnum \<Rightarrow> jsdata \<Rightarrow> gl_usage option \<Rightarrow> mesh \<Rightarrow> world
     \<Rightarrow> unit outcome \<times> mesh \<times> world" where
  "updateVertexBuffer nm attribute_arg spacing_arg buffer_data stream_type_arg this w =
     (case map_of (vertexBuffers this) nm of
        None \<Rightarrow> (Returns (), this, w\<lparr>console := console w @ [Log (''buffer not found:  '' @ nm)]\<rparr>)
      | Some b \<Rightarrow>
          if len buffer_data = 0 then (Returns (), this, w)
          else
            (case upload stream_type_arg
                    (b\<lparr>attribute := attribute_arg, spacing := spacing_arg, data := Some buffer_data\<rparr>) w of
               (r, b', w') \<Rightarrow>
                 (r, this\<lparr>vertexBuffers := AList.update nm b' (vertexBuffers this)\<rparr>, w')))"

text \<open>
  \<open>Mesh.prototype.createIndexBuffer\<close>. A plain array is cast only when the mesh has a
  "vertices" buffer; the width follows its vertex count.
\<close>

definition index_kind :: "jsnum \<Rightarrow> elem_kind" where
  "index_kind num_vertices = (if js_gt num_vertices (Fin (256 * 256)) then Uint32Array else Uint16Array)"

definition createIndexBuffer ::
  "string \<Rightarrow> jsdata \<Rightarrow> gl_usage option \<Rightarrow> mesh \<Rightarrow> world \<Rightarrow> gl_buffer outcome \<times> mesh \<times> world" where
  "createIndexBuffer nm buffer_data stream_type_arg this w =
     (let cast =
            (case buffer_data of
               Typed k xs \<Rightarrow> Returns buffer_data
             | Plain xs \<Rightarrow>
               (case map_of (vertexBuffers this) ''vertices'' of
                  None \<Rightarrow> Returns buffer_data
                | Some vertices \<Rightarrow>
                  (case data vertices of
                     None \<Rightarrow> Throws TypeError
                   | Some vd \<Rightarrow>
                       Returns (new_typed (index_kind (js_div (Fin (real (len vd))) (Fin 3))) xs))))
      in case cast of
           Throws e \<Rightarrow> (Throws e, this, w)
         | Returns d \<Rightarrow>
           (case Buffer (Some ELEMENT_ARRAY_BUFFER) (Some d) (Fin 0) stream_type_arg (this_gl this) w of
              (Throws e, b, w') \<Rightarrow> (Throws e, this, w')
            | (Returns u, b, w') \<Rightarrow>
                (Returns b, this\<lparr>indexBuffers := AList.update nm b (indexBuffers this)\<rparr>, w')))"

subsection \<open>addBuffers\<close>

text \<open>
  A payload of \<open>addBuffers\<close>: nothing, a \<open>GL.Buffer\<close> (its \<open>data\<close> is taken), a typed
  or plain array of numbers, or an array of arrays of numbers.
\<close>

datatype payload = PNull | PBuffer gl_buffer | PData jsdata | PNested "jsnum list list"

text \<open>
  \<open>typeof(data[0]) != "number"\<close>: true of an array of arrays and of any empty array.
  The chunked concatenation then gives a plain array.
\<close>

fun not_numbers :: "payload \<Rightarrow> bool" where
  "not_numbers (PData d) = (elems d = [])"
| "not_numbers (PNested xss) = True"
| "not_numbers p = False"

fun payload_length :: "payload \<Rightarrow> nat" where
  "payload_length (PData d) = len d"
| "payload_length (PNested xss) = length xss"
| "payload_length p = 0"

fun flat :: "payload \<Rightarrow> jsnum list" where
  "flat (PData d) = elems d"
| "flat (PNested xss) = concat xss"
| "flat p = []"

definition linearized :: "payload \<Rightarrow> jsdata" where
  "linearized p = (case p of PData d \<Rightarrow> if elems d = [] then Plain [] else d | _ \<Rightarrow> Plain (flat p))"

text \<open>The decimal numeral of a number, the property key a numeric \<open>i\<close> becomes.\<close>

fun dec_string :: "nat \<Rightarrow> string" where
  "dec_string n =
     (if n < 10 then [char_of (48 + n)] else dec_string (n div 10) @ [char_of (48 + n mod 10)])"

declare dec_string.simps [simp del]

text \<open>
  The value of the counter of \<open>for (var i = 0, chunk = 10000; i < n; i += chunk)\<close> when
  the loop ends.
\<close>

definition chunk_end :: "nat \<Rightarrow> nat" where
  "chunk_end n = 10000 * ((n + 9999) div 10000)"

text \<open>\<open>data.constructor === Array\<close>: a plain array is cast to a typed one of kind \<open>k\<close>.\<close>

definition cast_plain :: "elem_kind \<Rightarrow> jsdata \<Rightarrow> jsdata" where
  "cast_plain k d = (case d of Plain xs \<Rightarrow> new_typed k xs | Typed k' xs \<Rightarrow> d)"

text \<open>One round of the loop over the vertex payloads; \<open>num_vertices\<close> is threaded.\<close>

definition addBuffers_vertex ::
  "string \<Rightarrow> payload \<Rightarrow> gl_usage option \<Rightarrow> jsnum \<Rightarrow> mesh \<Rightarrow> world
     \<Rightarrow> jsnum outcome \<times> mesh \<times> world" where
  "addBuffers_vertex i p stream_type_arg num_vertices this w =
     (case p of
        PNull \<Rightarrow> (Returns num_vertices, this, w)
      | _ \<Rightarrow>
        (case (case p of PBuffer b \<Rightarrow> data b | _ \<Rightarrow> Some (linearized p)) of
           None \<Rightarrow> (Throws TypeError, this, w)
         | Some d0 \<Rightarrow>
           (let stream_info = common_buffers i;
                datatype =
                  (case stream_info of
                     Some c \<Rightarrow> (case c_type c of Some t \<Rightarrow> t | None \<Rightarrow> default_datatype)
                   | None \<Rightarrow> default_datatype);
                d = cast_plain datatype d0;
                nv = (if i = ''vertices'' then js_div (Fin (real (len d))) (Fin 3) else num_vertices);
                sp = (case stream_info of
                        Some c \<Rightarrow>
                          if c_spacing c \<noteq> 0 then Fin (real (c_spacing c))
                          else js_div (Fin (real (len d))) nv
                      | None \<Rightarrow> js_div (Fin (real (len d))) nv);
                attr = (case stream_info of
                          Some c \<Rightarrow> if c_attribute c \<noteq> [] then c_attribute c else ''a_'' @ i
                        | None \<Rightarrow> ''a_'' @ i)
            in if map_of (vertexBuffers this) i \<noteq> None then
                 (case updateVertexBuffer i (Some attr) sp d stream_type_arg this w of
                    (Throws e, m, w') \<Rightarrow> (Throws e, m, w')
                  | (Returns u, m, w') \<Rightarrow> (Returns nv, m, w'))
               else
                 (case createVertexBuffer i (Some attr) sp (Some d) stream_type_arg this w of
                    (Throws e, m, w') \<Rightarrow> (Throws e, m, w')
                  | (Returns b, m, w') \<Rightarrow> (Returns nv, m, w')))))"

fun addBuffers_vertices ::
  "(string \<times> payload) list \<Rightarrow> gl_usage option \<Rightarrow> jsnum \<Rightarrow> mesh \<Rightarrow> world
     \<Rightarrow> jsnum outcome \<times> mesh \<times> world" where
  "addBuffers_vertices [] st num_vertices this w = (Returns num_vertices, this, w)"
| "addBuffers_vertices ((i, p) # rest) st num_vertices this w =
     (case addBuffers_vertex i p st num_vertices this w of
        (Throws e, m, w') \<Rightarrow> (Throws e, m, w')
      | (Returns nv, m, w') \<Rightarrow> addBuffers_vertices rest st nv m w')"

text \<open>
  One round of the loop over the index payloads. The inner loop that flattens the array
  uses the same variable \<open>i\<close> as the loop over the names: after it, the buffer is stored
  under the numeral the counter ended at.
\<close>

definition addBuffers_index ::
  "string \<Rightarrow> payload \<Rightarrow> jsnum \<Rightarrow> mesh \<Rightarrow> world \<Rightarrow> unit outcome \<times> mesh \<times> world" where
  "addBuffers_index i p num_vertices this w =
     (case p of
        PNull \<Rightarrow> (Returns (), this, w)
      | _ \<Rightarrow>
        (case (case p of PBuffer b \<Rightarrow> map_option PData (data b) | _ \<Rightarrow> Some p) of
           None \<Rightarrow> (Throws TypeError, this, w)
         | Some q \<Rightarrow>
           (let i' = (if not_numbers q then dec_string (chunk_end (payload_length q)) else i);
                d = cast_plain (index_kind num_vertices) (linearized q)
            in case createIndexBuffer i' d None this w of
                 (Throws e, m, w') \<Rightarrow> (Throws e, m, w')
               | (Returns b, m, w') \<Rightarrow> (Returns (), m, w'))))"

fun addBuffers_indices ::
  "(string \<times> payload) list \<Rightarrow> jsnum \<Rightarrow> mesh \<Rightarrow> world \<Rightarrow> unit outcome \<times> mesh \<times> world" where
  "addBuffers_indices [] num_vertices this w = (Returns (), this, w)"
| "addBuffers_indices ((i, p) # rest) num_vertices this w =
     (case addBuffers_index i p num_vertices this w of
        (Throws e, m, w') \<Rightarrow> (Throws e, m, w')
      | (Returns u, m, w') \<Rightarrow> addBuffers_indices rest num_vertices m w')"

text \<open>
  \<open>Mesh.prototype.addBuffers\<close>. A table of payloads is the list of its entries; an
  omitted table is the empty list.
\<close>

definition addBuffers ::
  "(string \<times> payload) list \<Rightarrow> (string \<times> payload) list \<Rightarrow> gl_usage option \<Rightarrow> mesh \<Rightarrow> world
     \<Rightarrow> unit outcome \<times> mesh \<times> world" where
  "addBuffers vertexbuffers indexbuffers stream_type_arg this w =
     (case (case map_of (vertexBuffers this) ''vertices'' of
              None \<Rightarrow> Returns (Fin 0)
            | Some b \<Rightarrow>
              (case data b of
                 None \<Rightarrow> Throws TypeError
               | Some d \<Rightarrow> Returns (js_div (Fin (real (len d))) (Fin 3)))) of
        Throws e \<Rightarrow> (Throws e, this, w)
      | Returns nv0 \<Rightarrow>
        (case addBuffers_vertices vertexbuffers stream_type_arg nv0 this w of
           (Throws e, m, w') \<Rightarrow> (Throws e, m, w')
         | (Returns nv, m, w') \<Rightarrow> addBuffers_indices indexbuffers nv m w'))"

section \<open>Geometry processors\<close>

subsection \<open>computeNormals\<close>









definition triangles_data :: "mesh \<Rightarrow> jsdata option" where
  "triangles_data this =
     (case map_of (indexBuffers this) ''triangles'' of None \<Rightarrow> None | Some b \<Rightarrow> data b)"


subsection \<open>computeTangents\<close>


type_synonym vec2 = "jsnum \<times> jsnum"

definition vread2 :: "jsnum list \<Rightarrow> view \<Rightarrow> vec2" where
  "vread2 xs v = (vread xs v 0, vread xs v 1)"





text \<open>
  The second loop: one tangent of four numbers per vertex. \<open>tangents.set\<close> at an
  offset past the room left is a RangeError.
\<close>

definition tangent_of :: "vec3 \<Rightarrow> vec3 \<Rightarrow> vec3 \<Rightarrow> jsnum list" where
  "tangent_of n t t2 =
     (case vec3_normalize (vec3_sub t (vec3_scale n (vec3_dot n t))) of (x, y, z) \<Rightarrow>
        [x, y, z, if js_lt (vec3_dot (vec3_cross n t) t2) (Fin 0) then Fin (- 1) else Fin 1])"




subsection \<open>computeIndices\<close>

text \<open>The elements a view shows, and the vector read from an array of at most three.\<close>

definition view_elems :: "jsnum list \<Rightarrow> view \<Rightarrow> jsnum list" where
  "view_elems xs v = take (snd v) (drop (fst v) xs)"

definition vec_of :: "jsnum list \<Rightarrow> vec3" where
  "vec_of xs = (elem_at xs 0, elem_at xs 1, elem_at xs 2)"

text \<open>
  The state of the welding loop. \<open>indexer\<close> maps a key to the list of positions
  stored for it.
\<close>

record weld_state =
  new_vertices :: "jsnum list list"
  new_normals :: "jsnum list list"
  new_coords :: "jsnum list list"
  indices :: "nat list"
  indexer :: "int \<Rightarrow> nat list option"

text \<open>
  The arithmetic of the welding test is the one of 64-bit floats: every difference,
  product and sum is the exact result rounded to a double, and the literal \<open>0.01\<close> is
  the double nearest to 1/100. The rounding is the parameter \<open>fl\<close>, from a real to the
  double it is rounded to (an infinity when it is too large); \<open>rounded fl\<close> applies
  it to a finite result. The code runs with \<open>fl = to_double\<close>.

  Modelled from the spec: \<open>vec3.sqrDist\<close> belongs to gl-matrix, not to \<open>mesh.js\<close>; the
  "squared-distance" of \<open>a\<close> and \<open>b\<close> is \<open>x*x + y*y + z*z\<close> for the differences \<open>x\<close>,
  \<open>y\<close>, \<open>z\<close> of their coordinates.
\<close>

type_synonym rounding = "real \<Rightarrow> jsnum"

definition rounded :: "rounding \<Rightarrow> jsnum \<Rightarrow> jsnum" where
  "rounded fl x = (case x of Fin r \<Rightarrow> fl r | _ \<Rightarrow> x)"

text \<open>
  The rounding of the code: a real is rounded to the nearest double, to the one of even
  significand when two are as near. \<open>binade x\<close> is the exponent \<open>e\<close> with
  \<open>2 ^ e \<le> x < 2 ^ (e + 1)\<close>; a double has 53 significant bits, so the doubles around
  \<open>x\<close> are the multiples of \<open>2 ^ (binade \<bar>x\<bar> - 52)\<close>, and of \<open>2 ^ - 1074\<close> below the
  normal range. A result of \<open>2 ^ 1024\<close> or more is an infinity. (The sign of zero is not
  modelled.)
\<close>

definition round_even :: "real \<Rightarrow> int" where
  "round_even y =
     (let f = \<lfloor>y\<rfloor>; d = y - of_int f
      in if d < 1 / 2 then f else if 1 / 2 < d then f + 1 else if even f then f else f + 1)"

function binade :: "real \<Rightarrow> int" where
  "binade x = (if 2 \<le> x then binade (x / 2) + 1
               else if 0 < x \<and> x < 1 then binade (2 * x) - 1 else 0)"
  by pat_completeness auto
termination
proof (relation "measure (\<lambda>x. if 2 \<le> x then nat \<lfloor>x\<rfloor>
                                else if 0 < x \<and> x < 1 then nat \<lceil>1 / x\<rceil> else 0)")
  show "wf (measure (\<lambda>x. if 2 \<le> x then nat \<lfloor>x\<rfloor>
                            else if 0 < x \<and> x < 1 then nat \<lceil>1 / x\<rceil> else 0))"
    by simp
next
  fix x :: real
  assume x: "2 \<le> x"
  then have "\<lfloor>x / 2\<rfloor> < \<lfloor>x\<rfloor>" by (simp add: floor_less_iff) linarith
  moreover from x have "0 < \<lfloor>x\<rfloor>" by simp
  ultimately show "(x / 2, x) \<in> measure (\<lambda>x. if 2 \<le> x then nat \<lfloor>x\<rfloor>
                            else if 0 < x \<and> x < 1 then nat \<lceil>1 / x\<rceil> else 0)"
    using x by auto
next
  fix x :: real
  assume "\<not> 2 \<le> x" and x: "0 < x \<and> x < 1"
  then have y: "1 < 1 / x" by simp
  then have c: "1 < \<lceil>1 / x\<rceil>" by (simp add: less_ceiling_iff)
  have "1 / (2 * x) \<le> of_int (\<lceil>1 / x\<rceil> - 1)"
  proof -
    have "1 / x \<le> of_int \<lceil>1 / x\<rceil>" by (rule le_of_int_ceiling)
    then have "1 / (2 * x) \<le> of_int \<lceil>1 / x\<rceil> / 2" by simp
    also have "\<dots> \<le> of_int (\<lceil>1 / x\<rceil> - 1)" using c by simp
    finally show ?thesis .
  qed
  then have "\<lceil>1 / (2 * x)\<rceil> \<le> \<lceil>1 / x\<rceil> - 1" by (simp only: ceiling_le_iff)
  with c x show "(2 * x, x) \<in> measure (\<lambda>x. if 2 \<le> x then nat \<lfloor>x\<rfloor>
                            else if 0 < x \<and> x < 1 then nat \<lceil>1 / x\<rceil> else 0)"
    by auto
qed

declare binade.simps [simp del]

definition double_exp :: "real \<Rightarrow> int" where
  "double_exp x = max (binade \<bar>x\<bar> - 52) (- 1074)"

definition double_near :: "real \<Rightarrow> real" where
  "double_near x =
     (if x = 0 then 0
      else of_int (round_even (x / 2 powi double_exp x)) * 2 powi double_exp x)"

definition to_double :: "real \<Rightarrow> jsnum" where
  "to_double x =
     (if 2 ^ 1024 \<le> \<bar>double_near x\<bar> then (if 0 < x then PInf else NInf)
      else Fin (double_near x))"

definition vec3_sqrDist :: "rounding \<Rightarrow> vec3 \<Rightarrow> vec3 \<Rightarrow> jsnum" where
  "vec3_sqrDist fl a b =
     (case a of (ax, ay, az) \<Rightarrow> case b of (bx, by, bz) \<Rightarrow>
       (let x = rounded fl (js_sub bx ax);
            y = rounded fl (js_sub by ay);
            z = rounded fl (js_sub bz az)
        in rounded fl (js_add (rounded fl (js_add (rounded fl (js_mul x x)) (rounded fl (js_mul y y))))
                              (rounded fl (js_mul z z)))))"

text \<open>
  The search among the candidates of a bucket: the value of \<open>j\<close> when the inner loop
  stops, which is the length of the list when no candidate is close enough.
\<close>

fun search_candidates ::
  "rounding \<Rightarrow> vec3 \<Rightarrow> jsnum list list \<Rightarrow> nat list \<Rightarrow> nat \<Rightarrow> nat outcome" where
  "search_candidates fl v nvs [] j = Returns j"
| "search_candidates fl v nvs (c # cs) j =
     (if length nvs \<le> c then Throws TypeError
      else if js_lt (vec3_sqrDist fl v (vec_of (nvs ! c))) (fl (1 / 100)) then Returns j
      else search_candidates fl v nvs cs (Suc j))"

definition weld_step ::
  "rounding \<Rightarrow> jsnum list \<Rightarrow> jsdata option \<Rightarrow> jsdata option \<Rightarrow> nat \<Rightarrow> weld_state
     \<Rightarrow> weld_state outcome" where
  "weld_step fl vs old_normals_data old_coords_data i st =
     (let v = view_elems vs (subarray vs (Fin (real (i * 3))) (Fin (real ((i + 1) * 3))));
          key = to_int32 (rounded fl (js_mul (elem_at v 0) (Fin 1000)));
          candidates = indexer st key
      in case (case candidates of
                 None \<Rightarrow> Returns 0
               | Some cs \<Rightarrow> search_candidates fl (vec_of v) (new_vertices st) cs 0) of
           Throws e \<Rightarrow> Throws e
         | Returns j \<Rightarrow>
             if (case candidates of None \<Rightarrow> False | Some cs \<Rightarrow> j \<noteq> length cs)
             then Returns (st\<lparr>indices := indices st @ [j]\<rparr>)
             else if (case old_normals_data of Some d \<Rightarrow> is_plain d | None \<Rightarrow> False)
                   \<or> (case old_coords_data of Some d \<Rightarrow> is_plain d | None \<Rightarrow> False)
             then Throws TypeError
             else Returns
               (st\<lparr>new_vertices := new_vertices st @ [v],
                   indexer := (indexer st)(key \<mapsto> (case candidates of None \<Rightarrow> [j] | Some cs \<Rightarrow> cs @ [j])),
                   new_normals :=
                     (case old_normals_data of
                        None \<Rightarrow> new_normals st
                      | Some d \<Rightarrow> new_normals st @
                          [view_elems (elems d)
                             (subarray (elems d) (Fin (real (i * 3))) (Fin (real ((i + 1) * 3))))]),
                   new_coords :=
                     (case old_coords_data of
                        None \<Rightarrow> new_coords st
                      | Some d \<Rightarrow> new_coords st @
                          [view_elems (elems d)
                             (subarray (elems d) (Fin (real (i * 2))) (Fin (real ((i + 1) * 2))))]),
                   indices := indices st @ [j]\<rparr>))"

function weld_loop ::
  "rounding \<Rightarrow> jsnum list \<Rightarrow> jsdata option \<Rightarrow> jsdata option \<Rightarrow> nat \<Rightarrow> weld_state
     \<Rightarrow> weld_state outcome" where
  "weld_loop fl vs old_normals_data old_coords_data i st =
     (if real i < real (length vs) / 3 then
        (case weld_step fl vs old_normals_data old_coords_data i st of
           Throws e \<Rightarrow> Throws e
         | Returns st' \<Rightarrow> weld_loop fl vs old_normals_data old_coords_data (i + 1) st')
      else Returns st)"
  by pat_completeness auto
termination
  by (relation "measure (\<lambda>(fl, vs, nd, cd, i, st). length vs - i)") auto

declare weld_loop.simps [simp del]

text \<open>
  \<open>linearizeArray\<close> on an array of arrays (here, of views) and no class: a
  \<open>Float32Array\<close> of \<open>array.length * array[0].length\<close> numbers, filled row by row from
  the first \<open>array[0].length\<close> elements of every row. Where a row is shorter the
  element is \<open>undefined\<close>, stored as \<open>NaN\<close>. An empty array has no \<open>array[0]\<close>: a
  TypeError.
\<close>

definition linearizeArray :: "jsnum list list \<Rightarrow> jsdata outcome" where
  "linearizeArray array =
     (case array of
        [] \<Rightarrow> Throws TypeError
      | first # rest \<Rightarrow>
          Returns (new_typed Float32Array
                     (concat (map (\<lambda>row. map (elem_at row) [0..<length first]) array))))"

definition buffer_data :: "(string \<times> gl_buffer) list \<Rightarrow> string \<Rightarrow> jsdata option" where
  "buffer_data bs n = (case map_of bs n of None \<Rightarrow> None | Some b \<Rightarrow> data b)"

text \<open>
  \<open>Mesh.prototype.computeIndices\<close>. The vertex buffers are erased before the new ones
  are made, so the mesh has none when \<open>linearizeArray\<close> or \<open>createVertexBuffer\<close>
  throws.
\<close>

definition computeIndices :: "rounding \<Rightarrow> mesh \<Rightarrow> world \<Rightarrow> unit outcome \<times> mesh \<times> world" where
  "computeIndices fl this w =
     (case buffer_data (vertexBuffers this) ''vertices'' of
        None \<Rightarrow> (Throws TypeError, this, w)
      | Some old_vertices_data \<Rightarrow>
        (let old_normals_data = buffer_data (vertexBuffers this) ''normals'';
             old_coords_data = buffer_data (vertexBuffers this) ''coords''
         in if is_plain old_vertices_data \<and> 0 < len old_vertices_data then (Throws TypeError, this, w)
            else
              (case weld_loop fl (elems old_vertices_data) old_normals_data old_coords_data 0
                      \<lparr>new_vertices = [], new_normals = [], new_coords = [], indices = [],
                       indexer = Map.empty\<rparr> of
                 Throws e \<Rightarrow> (Throws e, this, w)
               | Returns st \<Rightarrow>
                 (case linearizeArray (new_vertices st) of
                    Throws e \<Rightarrow> (Throws e, this\<lparr>vertexBuffers := []\<rparr>, w)
                  | Returns vertices \<Rightarrow>
                 (case createVertexBuffer ''vertices'' (Some ''a_vertex'') (Fin 3)
                         (Some vertices) None (this\<lparr>vertexBuffers := []\<rparr>) w of
                    (Throws e, m1, w1) \<Rightarrow> (Throws e, m1, w1)
                  | (Returns b1, m1, w1) \<Rightarrow>
                 (case (if old_normals_data \<noteq> None
                        then (case linearizeArray (new_normals st) of
                                Throws e \<Rightarrow> (Throws e, m1, w1)
                              | Returns normals \<Rightarrow>
                                  createVertexBuffer ''normals'' (Some ''a_normal'') (Fin 3)
                                    (Some normals) None m1 w1)
                        else (Returns b1, m1, w1)) of
                    (Throws e, m2, w2) \<Rightarrow> (Throws e, m2, w2)
                  | (Returns b2, m2, w2) \<Rightarrow>
                 (case (if old_coords_data \<noteq> None
                        then (case linearizeArray (new_coords st) of
                                Throws e \<Rightarrow> (Throws e, m2, w2)
                              | Returns coords \<Rightarrow>
                                  createVertexBuffer ''coords'' (Some ''a_coord'') (Fin 2)
                                    (Some coords) None m2 w2)
                        else (Returns b2, m2, w2)) of
                    (Throws e, m3, w3) \<Rightarrow> (Throws e, m3, w3)
                  | (Returns b3, m3, w3) \<Rightarrow>
                 (case createIndexBuffer ''triangles'' (Plain (map (\<lambda>j. Fin (real j)) (indices st)))
                         None m3 w3 of
                    (Throws e, m4, w4) \<Rightarrow> (Throws e, m4, w4)
                  | (Returns b4, m4, w4) \<Rightarrow> (Returns (), m4, w4)))))))))"

subsection \<open>Bounding boxes of a mesh\<close>

definition zero_bbox :: bbox where
  "zero_bbox = \<lparr>center = (Fin 0, Fin 0, Fin 0), halfsize = (Fin 0, Fin 0, Fin 0),
                bb_min = (Fin 0, Fin 0, Fin 0), bb_max = (Fin 0, Fin 0, Fin 0), radius = Fin 0\<rparr>"

text \<open>\<open>a[x]\<close> for a number \<open>x\<close>: an element only when \<open>x\<close> is a position of the array.\<close>

definition elem_at_num :: "jsnum list \<Rightarrow> jsnum \<Rightarrow> jsnum" where
  "elem_at_num xs x =
     (case x of Fin r \<Rightarrow> if 0 \<le> r \<and> r = real (nat \<lfloor>r\<rfloor>) then elem_at xs (nat \<lfloor>r\<rfloor>) else NaN
      | _ \<Rightarrow> NaN)"

definition mark :: "bool list \<Rightarrow> jsnum \<Rightarrow> bool list" where
  "mark m x =
     (case x of Fin r \<Rightarrow> if 0 \<le> r \<and> r = real (nat \<lfloor>r\<rfloor>) then m[nat \<lfloor>r\<rfloor> := True] else m
      | _ \<Rightarrow> m)"

text \<open>
  The mask of a group when the mesh is indexed: \<open>j\<close> runs from 0 in steps of 3 while
  it is below the group's length.
\<close>

function group_mask :: "jsnum list \<Rightarrow> real \<Rightarrow> real \<Rightarrow> nat \<Rightarrow> bool list \<Rightarrow> bool list" where
  "group_mask ixs s l j m =
     (if real j < l then
        group_mask ixs s l (j + 3)
          (mark (mark (mark m (elem_at_num ixs (Fin (s + real j))))
                      (elem_at_num ixs (Fin (s + real (j + 1)))))
                (elem_at_num ixs (Fin (s + real (j + 2)))))
      else m)"
  by pat_completeness auto
termination
  by (relation "measure (\<lambda>(ixs, s, l, j, m). nat \<lceil>l\<rceil> - j)") (auto, linarith)

declare group_mask.simps [simp del]

text \<open>
  One round of the loop of \<open>computeGroupsBoundingBoxes\<close>: the group gets a box if it
  has none, and \<open>computeBoundingBox\<close> overwrites it unless it returns early.
\<close>

definition group_bounding ::
  "jsdata \<Rightarrow> jsdata option \<Rightarrow> group \<Rightarrow> world \<Rightarrow> unit outcome \<times> group \<times> world" where
  "group_bounding vd ixs g w =
     (let g0 = g\<lparr>g_bounding := Some (case g_bounding g of Some bb \<Rightarrow> bb | None \<Rightarrow> zero_bbox)\<rparr> in
      case (case ixs of
              Some ixd \<Rightarrow>
                computeBoundingBox (Some vd)
                  (Some (group_mask (elems ixd) (g_start g) (g_length g) 0
                           (replicate (nat (trunc (real (len vd) / 3))) False))) w
            | None \<Rightarrow>
                (case vd of
                   Plain xs \<Rightarrow> (Throws TypeError, w)
                 | Typed k vertices \<Rightarrow>
                     computeBoundingBox
                       (Some (Typed k (view_elems vertices
                          (subarray vertices (Fin (g_start g * 3))
                             (Fin ((g_start g + g_length g) * 3))))))
                       None w)) of
        (Throws e, w') \<Rightarrow> (Throws e, g0, w')
      | (Returns None, w') \<Rightarrow> (Returns (), g0, w')
      | (Returns (Some bb), w') \<Rightarrow> (Returns (), g\<lparr>g_bounding := Some bb\<rparr>, w'))"

fun groups_bounding ::
  "jsdata \<Rightarrow> jsdata option \<Rightarrow> group list \<Rightarrow> world \<Rightarrow> unit outcome \<times> group list \<times> world" where
  "groups_bounding vd ixs [] w = (Returns (), [], w)"
| "groups_bounding vd ixs (g # gs) w =
     (case group_bounding vd ixs g w of
        (Throws e, g', w') \<Rightarrow> (Throws e, g' # gs, w')
      | (Returns u, g', w') \<Rightarrow>
        (case groups_bounding vd ixs gs w' of
           (r, gs', w'') \<Rightarrow> (r, g' # gs', w'')))"

definition computeGroupsBoundingBoxes :: "mesh \<Rightarrow> world \<Rightarrow> bool outcome \<times> mesh \<times> world" where
  "computeGroupsBoundingBoxes this w =
     (case map_of (vertexBuffers this) ''vertices'' of
        None \<Rightarrow> (Returns False, this, w)
      | Some vertices_buffer \<Rightarrow>
        (case data vertices_buffer of
           None \<Rightarrow> (Throws TypeError, this, w)
         | Some vd \<Rightarrow>
             if len vd = 0 then (Returns False, this, w)
             else
               (case groups_bounding vd (triangles_data this) (info_groups this) w of
                  (Throws e, gs, w') \<Rightarrow> (Throws e, this\<lparr>info_groups := gs\<rparr>, w')
                | (Returns u, gs, w') \<Rightarrow> (Returns True, this\<lparr>info_groups := gs\<rparr>, w'))))"

definition updateBoundingBox :: "mesh \<Rightarrow> world \<Rightarrow> unit outcome \<times> mesh \<times> world" where
  "updateBoundingBox this w =
     (case map_of (vertexBuffers this) ''vertices'' of
        None \<Rightarrow> (Returns (), this, w)
      | Some vertices \<Rightarrow>
        (case computeBoundingBox (data vertices) None w of
           (Throws e, w') \<Rightarrow> (Throws e, this, w')
         | (Returns r, w') \<Rightarrow>
           (let m = (case r of Some bb \<Rightarrow> this\<lparr>bounding := bb\<rparr> | None \<Rightarrow> this) in
            if info_groups m \<noteq> [] then
              (case computeGroupsBoundingBoxes m w' of
                 (Throws e, m', w'') \<Rightarrow> (Throws e, m', w'')
               | (Returns u, m', w'') \<Rightarrow> (Returns (), m', w''))
            else (Returns (), m, w'))))"

subsection \<open>The constructor of a mesh\<close>

text \<open>
  \<open>new GL.Mesh(vertexbuffers, indexbuffers, options, gl)\<close>. The options copied onto the
  mesh are the stream type, the groups and the bones.
\<close>

record mesh_options =
  o_stream_type :: "gl_usage option"
  o_groups :: "group list option"
  o_bones :: "(string \<times> jsnum list) list option"

definition Mesh ::
  "(string \<times> payload) list \<Rightarrow> (string \<times> payload) list \<Rightarrow> mesh_options option \<Rightarrow> gl_arg \<Rightarrow> world
     \<Rightarrow> unit outcome \<times> mesh \<times> world" where
  "Mesh vertexbuffers indexbuffers options g w =
     (let this = \<lparr>mesh_gl = resolve_gl g w, vertexBuffers = [], indexBuffers = [],
                   info_groups = [], bounding = zero_bbox, bones = None\<rparr>
      in case addBuffers vertexbuffers indexbuffers
                (case options of Some opts \<Rightarrow> o_stream_type opts | None \<Rightarrow> None) this w of
           (Throws e, m, w') \<Rightarrow> (Throws e, m, w')
         | (Returns u, m, w') \<Rightarrow>
             (Returns (),
              (case options of
                 None \<Rightarrow> m
               | Some opts \<Rightarrow>
                   m\<lparr>info_groups := (case o_groups opts of Some gs \<Rightarrow> gs | None \<Rightarrow> info_groups m),
                     bones := (case o_bones opts of Some bs \<Rightarrow> Some bs | None \<Rightarrow> bones m)\<rparr>),
              w'))"

subsection \<open>mergeMeshes\<close>

text \<open>
  An entry of the list to merge: the mesh, and the matrix \<open>mesh_info[j + "_matrix"]\<close>
  for the buffer names \<open>j\<close> that have one. The options give per buffer name \<open>null\<close>,
  nothing or a typed-array constructor, and the flag \<open>only_data\<close>.
\<close>

record mesh_info =
  mi_mesh :: mesh
  mi_matrix :: "string \<Rightarrow> jsnum list option"

datatype kind_opt = KNull | KUndefined | KGiven elem_kind

record merge_options =
  opt_datatype :: "string \<Rightarrow> kind_opt"
  only_data :: bool

text \<open>The sizes summed per buffer name: \<open>null\<close> data has no \<open>length\<close>.\<close>

fun add_sizes :: "(string \<times> gl_buffer) list \<Rightarrow> (string \<times> nat) list \<Rightarrow> (string \<times> nat) list outcome" where
  "add_sizes [] acc = Returns acc"
| "add_sizes ((j, b) # rest) acc =
     (case data b of
        None \<Rightarrow> Throws TypeError
      | Some d \<Rightarrow>
          add_sizes rest
            (AList.update j ((case map_of acc j of Some n \<Rightarrow> n | None \<Rightarrow> 0) + len d) acc))"

text \<open>
  The bones of one mesh are added to the merged list. A bone already listed under a
  position that is not 0 is not added again; \<open>prev\<close> maps the position in the mesh's
  list to the position in the merged one.
\<close>

fun add_bones ::
  "(string \<times> jsnum list) list \<Rightarrow> nat
     \<Rightarrow> (string \<times> jsnum list) list \<times> (string \<Rightarrow> nat option) \<times> (nat \<Rightarrow> nat option)
     \<Rightarrow> (string \<times> jsnum list) list \<times> (string \<Rightarrow> nat option) \<times> (nat \<Rightarrow> nat option)" where
  "add_bones [] j acc = acc"
| "add_bones (b # bs) j (merged, bones_by_index, prev) =
     (if (case bones_by_index (fst b) of None \<Rightarrow> True | Some n \<Rightarrow> n = 0)
      then add_bones bs (Suc j)
             (merged @ [b], bones_by_index(fst b \<mapsto> length merged), prev(j \<mapsto> length merged))
      else add_bones bs (Suc j)
             (merged, bones_by_index,
              prev(j \<mapsto> (case bones_by_index (fst b) of Some n \<Rightarrow> n | None \<Rightarrow> 0))))"

definition remap_bone :: "(nat \<Rightarrow> nat option) \<Rightarrow> jsnum \<Rightarrow> jsnum" where
  "remap_bone prev x =
     (case x of
        Fin r \<Rightarrow>
          if 0 \<le> r \<and> r = real (nat \<lfloor>r\<rfloor>)
          then (case prev (nat \<lfloor>r\<rfloor>) of Some n \<Rightarrow> Fin (real n) | None \<Rightarrow> NaN)
          else NaN
      | _ \<Rightarrow> NaN)"

definition remap_data :: "(nat \<Rightarrow> nat option) \<Rightarrow> jsdata \<Rightarrow> jsdata" where
  "remap_data prev d =
     (case d of
        Typed k xs \<Rightarrow> Typed k (map (\<lambda>x. to_kind k (remap_bone prev x)) xs)
      | Plain xs \<Rightarrow> Plain (map (remap_bone prev) xs))"

record merge_state =
  vertex_sizes :: "(string \<times> nat) list"
  index_sizes :: "(string \<times> nat) list"
  vertex_offsets :: "real list"
  current_vertex_offset :: real
  groups :: "group list"
  merged_bones :: "(string \<times> jsnum list) list"
  bones_by_index :: "string \<Rightarrow> nat option"

text \<open>
  One round of the first loop, for the mesh at position \<open>i\<close>. It gives the new state
  and the mesh, whose "bone_indices" data the remapping overwrites in place.
\<close>

definition measure_mesh :: "nat \<Rightarrow> mesh \<Rightarrow> merge_state \<Rightarrow> (merge_state \<times> mesh) outcome" where
  "measure_mesh i m st =
     (case buffer_data (vertexBuffers m) ''vertices'' of
        None \<Rightarrow> Throws TypeError
      | Some vd \<Rightarrow>
        (let offset = current_vertex_offset st;
             l = real (len vd) / 3
         in case add_sizes (vertexBuffers m) (vertex_sizes st) of
              Throws e \<Rightarrow> Throws e
            | Returns vsz \<Rightarrow>
              (case add_sizes (indexBuffers m) (index_sizes st) of
                 Throws e \<Rightarrow> Throws e
               | Returns isz \<Rightarrow>
                 (let g = \<lparr>g_name = ''mesh_'' @ dec_string i, g_start = offset, g_length = l,
                           g_material = [], g_bounding = None\<rparr>;
                      st1 = st\<lparr>vertex_sizes := vsz, index_sizes := isz,
                               vertex_offsets := vertex_offsets st @ [offset],
                               current_vertex_offset := offset + l\<rparr>
                  in case bones m of
                       Some bs \<Rightarrow>
                         (case add_bones bs 0 (merged_bones st1, bones_by_index st1, Map.empty) of
                            (merged, by_index, prev) \<Rightarrow>
                              (case map_of (vertexBuffers m) ''bone_indices'' of
                                 None \<Rightarrow> Throws TypeError
                               | Some bb \<Rightarrow>
                                 (case data bb of
                                    None \<Rightarrow> Throws TypeError
                                  | Some bd \<Rightarrow>
                                      Returns
                                        (st1\<lparr>merged_bones := merged, bones_by_index := by_index,
                                             groups := groups st1 @ [g]\<rparr>,
                                         m\<lparr>vertexBuffers :=
                                             AList.update ''bone_indices''
                                               (bb\<lparr>data := Some (remap_data prev bd)\<rparr>)
                                               (vertexBuffers m)\<rparr>))))
                     | None \<Rightarrow>
                         if merged_bones st1 \<noteq> [] then
                           Throws (Thrown ''cannot merge meshes, one contains bones, the other doesnt'')
                         else Returns (st1\<lparr>groups := groups st1 @ [g]\<rparr>, m)))))"

text \<open>
  The first loop. The list returned holds the meshes as the loop leaves them, also when
  it throws. (A mesh listed twice is two meshes for the model.)
\<close>

fun measure_meshes ::
  "nat \<Rightarrow> mesh_info list \<Rightarrow> merge_state \<Rightarrow> merge_state outcome \<times> mesh_info list" where
  "measure_meshes i [] st = (Returns st, [])"
| "measure_meshes i (mi # rest) st =
     (case measure_mesh i (mi_mesh mi) st of
        Throws e \<Rightarrow> (Throws e, mi # rest)
      | Returns (st', m') \<Rightarrow>
        (case measure_meshes (Suc i) rest st' of
           (r, rest') \<Rightarrow> (r, mi\<lparr>mi_mesh := m'\<rparr> # rest')))"

text \<open>
  The kind of a merged vertex buffer, \<open>None\<close> when the options delete it: the kind the
  options give, else the kind of the buffer of that name in the last mesh of the list
  (the variable \<open>mesh\<close> still holds it), else \<open>Float32Array\<close>.
\<close>

definition merged_kind :: "merge_options \<Rightarrow> mesh \<Rightarrow> string \<Rightarrow> elem_kind option" where
  "merged_kind options last_mesh j =
     (case opt_datatype options j of
        KNull \<Rightarrow> None
      | KGiven k \<Rightarrow> Some k
      | KUndefined \<Rightarrow>
          Some (case buffer_data (vertexBuffers last_mesh) j of
                  Some (Typed k xs) \<Rightarrow> k
                | _ \<Rightarrow> Float32Array))"

fun allocate_vertex ::
  "merge_options \<Rightarrow> mesh \<Rightarrow> (string \<times> nat) list \<Rightarrow> (string \<times> jsdata) list" where
  "allocate_vertex options last_mesh [] = []"
| "allocate_vertex options last_mesh ((j, n) # rest) =
     (case merged_kind options last_mesh j of
        None \<Rightarrow> allocate_vertex options last_mesh rest
      | Some k \<Rightarrow> (j, Typed k (replicate n (Fin 0))) # allocate_vertex options last_mesh rest)"

text \<open>The width of every merged index buffer, from the total number of vertices.\<close>

definition merged_index_kind :: "real \<Rightarrow> elem_kind" where
  "merged_index_kind n = (if n < 256 * 256 then Uint16Array else Uint32Array)"

definition allocate_index :: "real \<Rightarrow> (string \<times> nat) list \<Rightarrow> (string \<times> jsdata) list" where
  "allocate_index vertex_total sizes =
     map (\<lambda>(j, n). (j, Typed (merged_index_kind vertex_total) (replicate n (Fin 0)))) sizes"

text \<open>
  Modelled from the spec: \<open>vec3.transformMat4\<close> and \<open>vec2.transformMat3\<close> belong to
  gl-matrix, not to \<open>mesh.js\<close>; a "4x4 (or 3x3 for 2D attribute) transform matrix is
  applied" to a point, in column-major order, with the division by \<open>w\<close> for the 4x4.
\<close>

definition transformMat4 :: "vec3 \<Rightarrow> jsnum list \<Rightarrow> vec3" where
  "transformMat4 a m =
     (case a of (x, y, z) \<Rightarrow>
       (let e = elem_at m;
            row = (\<lambda>r. js_add (js_add (js_add (js_mul (e r) x) (js_mul (e (r + 4)) y))
                                  (js_mul (e (r + 8)) z)) (e (r + 12)));
            w = js_or (row 3) (Fin 1)
        in (js_div (row 0) w, js_div (row 1) w, js_div (row 2) w)))"

definition transformMat3 :: "vec2 \<Rightarrow> jsnum list \<Rightarrow> vec2" where
  "transformMat3 a m =
     (case a of (x, y) \<Rightarrow>
       (let e = elem_at m
        in (js_add (js_add (js_mul (e 0) x) (js_mul (e 3) y)) (e 6),
            js_add (js_add (js_mul (e 1) x) (js_mul (e 4) y)) (e 7))))"

function apply_transform :: "elem_kind \<Rightarrow> jsnum list \<Rightarrow> nat \<Rightarrow> nat \<Rightarrow> jsnum list \<Rightarrow> jsnum list" where
  "apply_transform k matrix l i array =
     (if i < l then
        (let v = subarray array (Fin (real i)) (Fin (real (i + 3)))
         in apply_transform k matrix l (i + 3)
              (vwrite3 k array v (transformMat4 (vread3 array v) matrix)))
      else array)"
  by pat_completeness auto
termination
  by (relation "measure (\<lambda>(k, matrix, l, i, array). l - i)") auto

declare apply_transform.simps [simp del]

function apply_transform2D :: "elem_kind \<Rightarrow> jsnum list \<Rightarrow> nat \<Rightarrow> nat \<Rightarrow> jsnum list \<Rightarrow> jsnum list" where
  "apply_transform2D k matrix l i array =
     (if i < l then
        (let v = subarray array (Fin (real i)) (Fin (real (i + 2)));
             r = transformMat3 (vread2 array v) matrix
         in apply_transform2D k matrix l (i + 2)
              (vwrite k (vwrite k array v 0 (fst r)) v 1 (snd r)))
      else array)"
  by pat_completeness auto
termination
  by (relation "measure (\<lambda>(k, matrix, l, i, array). l - i)") auto

declare apply_transform2D.simps [simp del]

text \<open>\<open>array[i] += offset\<close> over a range; nothing is done when the offset is 0.\<close>

definition apply_offset :: "elem_kind \<Rightarrow> nat \<Rightarrow> nat \<Rightarrow> real \<Rightarrow> jsnum list \<Rightarrow> jsnum list" where
  "apply_offset k start n offset array =
     (if offset = 0 then array
      else take start array
           @ map (\<lambda>x. to_kind k (js_add x (Fin offset))) (take n (drop start array))
           @ drop (start + n) array)"

text \<open>\<open>dst.set(src, off)\<close> on a typed array: a RangeError when the source does not fit.\<close>

definition typed_set :: "jsdata \<Rightarrow> jsnum list \<Rightarrow> nat \<Rightarrow> jsdata outcome" where
  "typed_set dst src off =
     (case dst of
        Plain xs \<Rightarrow> Throws TypeError
      | Typed k xs \<Rightarrow>
          if length xs < off + length src then Throws RangeError
          else Returns (Typed k (patch xs off (map (to_kind k) src))))"

text \<open>
  The storing loops. \<open>offsets\<close> is one table for the vertex and the index names.
\<close>

record store_state =
  vertex_buffers :: "(string \<times> jsdata) list"
  index_buffers :: "(string \<times> jsdata) list"
  offsets :: "string \<Rightarrow> nat option"

definition offset_of :: "store_state \<Rightarrow> string \<Rightarrow> nat" where
  "offset_of st j = (case offsets st j of Some n \<Rightarrow> n | None \<Rightarrow> 0)"

definition transformed :: "jsnum list option \<Rightarrow> nat \<Rightarrow> nat \<Rightarrow> jsdata \<Rightarrow> jsdata" where
  "transformed matrix start n d =
     (case d of
        Plain xs \<Rightarrow> d
      | Typed k xs \<Rightarrow>
        (case matrix of
           None \<Rightarrow> d
         | Some m \<Rightarrow>
             if length m = 16 then Typed k (apply_transform k m (start + n) start xs)
             else if length m = 9 then Typed k (apply_transform2D k m (start + n) start xs)
             else d))"

fun store_vertex ::
  "(string \<Rightarrow> jsnum list option) \<Rightarrow> (string \<times> gl_buffer) list \<Rightarrow> store_state \<Rightarrow> store_state outcome" where
  "store_vertex matrices [] st = Returns st"
| "store_vertex matrices ((j, b) # rest) st =
     (case map_of (vertex_buffers st) j of
        None \<Rightarrow> store_vertex matrices rest st
      | Some dst \<Rightarrow>
        (case data b of
           None \<Rightarrow> Throws TypeError
         | Some src \<Rightarrow>
           (case typed_set dst (elems src) (offset_of st j) of
              Throws e \<Rightarrow> Throws e
            | Returns dst' \<Rightarrow>
                store_vertex matrices rest
                  (st\<lparr>vertex_buffers :=
                        AList.update j (transformed (matrices j) (offset_of st j) (len src) dst')
                          (vertex_buffers st),
                      offsets := (offsets st)(j \<mapsto> offset_of st j + len src)\<rparr>))))"

fun store_index :: "real \<Rightarrow> (string \<times> gl_buffer) list \<Rightarrow> store_state \<Rightarrow> store_state outcome" where
  "store_index vertex_offset [] st = Returns st"
| "store_index vertex_offset ((j, b) # rest) st =
     (case map_of (index_buffers st) j of
        None \<Rightarrow> Throws TypeError
      | Some dst \<Rightarrow>
        (case data b of
           None \<Rightarrow> Throws TypeError
         | Some src \<Rightarrow>
           (case typed_set dst (elems src) (offset_of st j) of
              Throws e \<Rightarrow> Throws e
            | Returns (Plain xs) \<Rightarrow> Throws TypeError
            | Returns (Typed k xs) \<Rightarrow>
                store_index vertex_offset rest
                  (st\<lparr>index_buffers :=
                        AList.update j
                          (Typed k (apply_offset k (offset_of st j) (len src) vertex_offset xs))
                          (index_buffers st),
                      offsets := (offsets st)(j \<mapsto> offset_of st j + len src)\<rparr>))))"

fun store_meshes :: "mesh_info list \<Rightarrow> real list \<Rightarrow> store_state \<Rightarrow> store_state outcome" where
  "store_meshes [] vos st = Returns st"
| "store_meshes (mi # rest) vos st =
     (case store_vertex (mi_matrix mi) (vertexBuffers (mi_mesh mi)) st of
        Throws e \<Rightarrow> Throws e
      | Returns st1 \<Rightarrow>
        (case store_index (case vos of [] \<Rightarrow> 0 | vo # _ \<Rightarrow> vo) (indexBuffers (mi_mesh mi)) st1 of
           Throws e \<Rightarrow> Throws e
         | Returns st2 \<Rightarrow> store_meshes rest (tl vos) st2))"

text \<open>
  What \<open>mergeMeshes\<close> has built when it reaches its \<open>return\<close>: the merged arrays, the
  groups and the bones.
\<close>

record merged =
  m_vertexBuffers :: "(string \<times> jsdata) list"
  m_indexBuffers :: "(string \<times> jsdata) list"
  m_groups :: "group list"
  m_bones :: "(string \<times> jsnum list) list"

definition merge_data :: "mesh_info list \<Rightarrow> merge_options \<Rightarrow> merged outcome \<times> mesh_info list" where
  "merge_data meshes options =
     (case measure_meshes 0 meshes
             \<lparr>vertex_sizes = [], index_sizes = [], vertex_offsets = [], current_vertex_offset = 0,
              groups = [], merged_bones = [], bones_by_index = Map.empty\<rparr> of
        (Throws e, meshes') \<Rightarrow> (Throws e, meshes')
      | (Returns st, meshes') \<Rightarrow>
        (let vbs = (case meshes' of
                      [] \<Rightarrow> []
                    | _ \<Rightarrow> allocate_vertex options (mi_mesh (last meshes')) (vertex_sizes st));
             ibs = allocate_index (current_vertex_offset st) (index_sizes st)
         in case store_meshes meshes' (vertex_offsets st)
                   \<lparr>vertex_buffers = vbs, index_buffers = ibs,
                    offsets = map_of (map (\<lambda>(j, d). (j, 0)) (vbs @ ibs))\<rparr> of
              Throws e \<Rightarrow> (Throws e, meshes')
            | Returns sst \<Rightarrow>
                (Returns \<lparr>m_vertexBuffers = vertex_buffers sst, m_indexBuffers = index_buffers sst,
                          m_groups = groups st, m_bones = merged_bones st\<rparr>,
                 meshes')))"

datatype merge_result = MergedMesh mesh | MergedData merged

text \<open>\<open>Mesh.mergeMeshes\<close>.\<close>

definition mergeMeshes ::
  "mesh_info list \<Rightarrow> merge_options \<Rightarrow> world \<Rightarrow> merge_result outcome \<times> mesh_info list \<times> world" where
  "mergeMeshes meshes options w =
     (case merge_data meshes options of
        (Throws e, meshes') \<Rightarrow> (Throws e, meshes', w)
      | (Returns r, meshes') \<Rightarrow>
          if only_data options then (Returns (MergedData r), meshes', w)
          else
            (case Mesh (map (\<lambda>(j, d). (j, PData d)) (m_vertexBuffers r))
                       (map (\<lambda>(j, d). (j, PData d)) (m_indexBuffers r))
                       (Some \<lparr>o_stream_type = None, o_groups = Some (m_groups r),
                              o_bones = (if m_bones r \<noteq> [] then Some (m_bones r) else None)\<rparr>)
                       GlUndefined w of
               (Throws e, m, w') \<Rightarrow> (Throws e, meshes', w')
             | (Returns u, m, w') \<Rightarrow>
               (case updateBoundingBox m w' of
                  (Throws e, m', w'') \<Rightarrow> (Throws e, meshes', w'')
                | (Returns u', m', w'') \<Rightarrow> (Returns (MergedMesh m'), meshes', w''))))"

section \<open>Reference definitions for the properties\<close>

subsection \<open>Normals over the reals\<close>

text \<open>
  Positions and normals as lists of real triples, and the flat arrays that hold them.
  \<open>unit3\<close> is normalization to unit length (the zero vector stays); \<open>accumulate\<close>
  adds the unit normal of a triangle to its three corners, \<open>accumulate_cross\<close> the
  cross product itself, as an area-weighted average would.
\<close>

type_synonym rvec = "real \<times> real \<times> real"

definition fin3 :: "rvec \<Rightarrow> vec3" where
  "fin3 v = (case v of (x, y, z) \<Rightarrow> (Fin x, Fin y, Fin z))"

definition flat3 :: "rvec list \<Rightarrow> jsnum list" where
  "flat3 ps = concat (map (\<lambda>(x, y, z). [Fin x, Fin y, Fin z]) ps)"

definition flat_idx :: "(nat \<times> nat \<times> nat) list \<Rightarrow> jsnum list" where
  "flat_idx ts = flat3 (map (\<lambda>(a, b, c). (real a, real b, real c)) ts)"



definition zeros :: "nat \<Rightarrow> rvec list" where
  "zeros n = replicate n (0, 0, 0)"

definition sub3 :: "rvec \<Rightarrow> rvec \<Rightarrow> rvec" where
  "sub3 a b = (case a of (ax, ay, az) \<Rightarrow> case b of (bx, by, bz) \<Rightarrow> (ax - bx, ay - by, az - bz))"

definition add3 :: "rvec \<Rightarrow> rvec \<Rightarrow> rvec" where
  "add3 a b = (case a of (ax, ay, az) \<Rightarrow> case b of (bx, by, bz) \<Rightarrow> (ax + bx, ay + by, az + bz))"

definition dot3 :: "rvec \<Rightarrow> rvec \<Rightarrow> real" where
  "dot3 a b = (case a of (ax, ay, az) \<Rightarrow> case b of (bx, by, bz) \<Rightarrow> ax * bx + ay * by + az * bz)"

definition cross3 :: "rvec \<Rightarrow> rvec \<Rightarrow> rvec" where
  "cross3 a b = (case a of (ax, ay, az) \<Rightarrow> case b of (bx, by, bz) \<Rightarrow>
     (ay * bz - az * by, az * bx - ax * bz, ax * by - ay * bx))"

definition unit3 :: "rvec \<Rightarrow> rvec" where
  "unit3 a = (case a of (x, y, z) \<Rightarrow>
     if 0 < dot3 a a then (x / sqrt (dot3 a a), y / sqrt (dot3 a a), z / sqrt (dot3 a a)) else a)"

definition add_at :: "rvec list \<Rightarrow> nat \<Rightarrow> rvec \<Rightarrow> rvec list" where
  "add_at ns i u = ns[i := add3 (ns ! i) u]"

definition face_cross :: "rvec list \<Rightarrow> nat \<times> nat \<times> nat \<Rightarrow> rvec" where
  "face_cross ps t = (case t of (i1, i2, i3) \<Rightarrow>
     cross3 (sub3 (ps ! i2) (ps ! i1)) (sub3 (ps ! i3) (ps ! i1)))"

definition face_unit :: "rvec list \<Rightarrow> nat \<times> nat \<times> nat \<Rightarrow> rvec" where
  "face_unit ps t = unit3 (face_cross ps t)"

definition accumulate :: "rvec list \<Rightarrow> rvec list \<Rightarrow> nat \<times> nat \<times> nat \<Rightarrow> rvec list" where
  "accumulate ps ns t = (case t of (i1, i2, i3) \<Rightarrow>
     add_at (add_at (add_at ns i1 (face_unit ps t)) i2 (face_unit ps t)) i3 (face_unit ps t))"




subsection \<open>Counts and kinds\<close>

definition vertex_count :: "mesh \<Rightarrow> real" where
  "vertex_count m =
     (case buffer_data (vertexBuffers m) ''vertices'' of Some d \<Rightarrow> real (len d) / 3 | None \<Rightarrow> 0)"




subsection \<open>Rounding to a double\<close>

text \<open>
  What is used of the rounding of a real to a 64-bit float: the result is a number, the
  rounding is monotone, and a number that is a double (an integer below \<open>2 ^ 53\<close> in
  absolute value times a power of two the format has) is left as it is. \<open>at_least\<close>
  and \<open>at_most\<close> bound a rounded result, which may be an infinity.
\<close>

definition double_rounding :: "rounding \<Rightarrow> bool" where
  "double_rounding fl \<longleftrightarrow>
     (\<forall>x. fl x \<noteq> NaN)
     \<and> (\<forall>x y. x \<le> y \<longrightarrow> \<not> js_lt (fl y) (fl x))
     \<and> (\<forall>m e. \<bar>m\<bar> < 2 ^ 53 \<and> - 1074 \<le> e \<and> e \<le> 971
            \<longrightarrow> fl (of_int m * 2 powr of_int e) = Fin (of_int m * 2 powr of_int e))"



text \<open>
  A \<open>data\<close> field that is missing or holds a typed array, as every buffer made by
  \<open>createVertexBuffer\<close> does.
\<close>

definition typed_or_absent :: "jsdata option \<Rightarrow> bool" where
  "typed_or_absent d = (case d of None \<Rightarrow> True | Some a \<Rightarrow> \<not> is_plain a)"

text \<open>Every buffer of a table holds a typed array of kind \<open>k\<close>.\<close>

definition buffers_of_kind :: "elem_kind \<Rightarrow> (string \<times> gl_buffer) list \<Rightarrow> bool" where
  "buffers_of_kind k bs = list_all (\<lambda>(j, b). \<exists>xs. data b = Some (Typed k xs)) bs"

text \<open>
  A payload of \<open>addBuffers\<close> that is skipped or has at least one number, and one that
  is skipped or is not a typed array with elements (a plain array of numbers, an array
  of arrays, or an empty array).
\<close>

definition not_empty_payload :: "payload \<Rightarrow> bool" where
  "not_empty_payload p =
     (case p of
        PNull \<Rightarrow> True
      | PBuffer b \<Rightarrow> (case data b of Some d \<Rightarrow> 0 < len d | None \<Rightarrow> True)
      | PData d \<Rightarrow> 0 < len d
      | PNested xss \<Rightarrow> concat xss \<noteq> [])"

definition untyped_payload :: "payload \<Rightarrow> bool" where
  "untyped_payload p =
     (case p of
        PNull \<Rightarrow> True
      | PBuffer b \<Rightarrow> (case data b of Some d \<Rightarrow> is_plain d \<or> elems d = [] | None \<Rightarrow> True)
      | PData d \<Rightarrow> is_plain d \<or> elems d = []
      | PNested xss \<Rightarrow> True)"

subsection \<open>Inputs\<close>

text \<open>A world with an empty console and no context, and objects without a context.\<close>

definition quiet :: world where
  "quiet = \<lparr>console = [], gl_calls = [], global_gl = None\<rparr>"

definition host_buffer :: "gl_target \<Rightarrow> jsnum \<Rightarrow> jsdata \<Rightarrow> gl_buffer" where
  "host_buffer t sp d =
     \<lparr>gl = None, buffer = None, target = Some t, attribute = None, normalize = False,
      data = Some d, spacing = sp, name = None, stream_type = None\<rparr>"

definition host_mesh ::
  "(string \<times> gl_buffer) list \<Rightarrow> (string \<times> gl_buffer) list
     \<Rightarrow> (string \<times> jsnum list) list option \<Rightarrow> mesh" where
  "host_mesh vbs ibs bs =
     \<lparr>mesh_gl = None, vertexBuffers = vbs, indexBuffers = ibs, info_groups = [],
      bounding = zero_bbox, bones = bs\<rparr>"




text \<open>One triangle, not indexed.\<close>

definition one_face :: "rvec list" where
  "one_face = [(0, 0, 0), (2, 0, 0), (0, 2, 0)]"

definition one_face_mesh :: mesh where
  "one_face_mesh =
     host_mesh [(''vertices'', host_buffer ARRAY_BUFFER (Fin 3) (Typed Float32Array (flat3 one_face)))]
       [] None"

text \<open>A mesh of one vertex without bones, and one with a bone list.\<close>

definition unskinned :: mesh where
  "unskinned =
     host_mesh [(''vertices'', host_buffer ARRAY_BUFFER (Fin 3) (Typed Float32Array [Fin 0, Fin 0, Fin 0]))]
       [] None"

definition skinned :: mesh where
  "skinned =
     host_mesh
       [(''vertices'', host_buffer ARRAY_BUFFER (Fin 3) (Typed Float32Array [Fin 1, Fin 1, Fin 1])),
        (''bone_indices'', host_buffer ARRAY_BUFFER (Fin 4) (Typed Uint8Array [Fin 0, Fin 0, Fin 0, Fin 0]))]
       [] (Some [(''root'', [])])"

definition data_only :: merge_options where
  "data_only = \<lparr>opt_datatype = (\<lambda>j. KUndefined), only_data = True\<rparr>"

definition entry :: "mesh \<Rightarrow> mesh_info" where
  "entry m = \<lparr>mi_mesh = m, mi_matrix = (\<lambda>j. None)\<rparr>"






text \<open>
  Two vertices with the coordinates of 32-bit floats, at a squared distance of at least
  1/100, none of whose coordinates differs by 0.1.
\<close>

definition threshold_mesh :: mesh where
  "threshold_mesh =
     host_mesh [(''vertices'', host_buffer ARRAY_BUFFER (Fin 3)
                   (Typed Float32Array [Fin 0, Fin 0, Fin 0,
                      Fin (9490623 / 2 ^ 38), Fin (3355443 / 2 ^ 25), Fin (16503237 / 2 ^ 49)]))]
       [] None"

text \<open>A mesh of 65537 vertices.\<close>

definition big_mesh :: mesh where
  "big_mesh =
     host_mesh [(''vertices'', host_buffer ARRAY_BUFFER (Fin 3)
                   (Typed Float32Array (replicate 196611 (Fin 0))))] [] None"



section \<open>Properties\<close>

subsection \<open>Buffers\<close>

lemma map_to_kind_wf: "wf_data (Typed k xs) \<Longrightarrow> map (to_kind k) xs = xs"
  by (induction xs) (auto simp: wf_data_def)

lemma global_typed_getClassName: "global_typed (getClassName (Typed k xs)) = Some k"
  by (cases k) (simp_all add: global_typed_def)

lemma upload_supported_returns:
  assumes "data this = Some (Typed k xs)" and "k \<noteq> Float64Array"
  shows "\<exists>b' w'. upload st this w = (Returns (), this\<lparr>buffer := b'\<rparr>, w')"
proof -
  obtain t where t: "gl_type_of k = Some t" using assms(2) by (cases k) auto
  have triv: "\<exists>b'. this = this\<lparr>buffer := b'\<rparr>"
    by (rule exI [of _ "buffer this"]) simp
  show ?thesis
  proof (cases "gl this")
    case None
    then show ?thesis using triv by (simp add: upload_def)
  next
    case (Some ctx)
    then show ?thesis
      using assms(1) t triv unfolding upload_def Let_def
      by (auto split: option.splits)
  qed
qed

text \<open>
  C4. When the buffer already has storage and the typed-array payload is strictly
  longer than it, \<open>setData\<close> throws, and the buffer (storage, length and every other
  field) and the world are exactly as before the call.
\<close>

theorem setData_longer_payload_fails:
  assumes "data this = Some cur" and "len cur < len (Typed k ys)"
  shows "setData to_bytes of_bytes same_object (Typed k ys) offset this w =
           (Throws (Thrown ''buffer is not big enough, you cannot set data to a smaller buffer''),
            this, w)"
  using assms by (simp add: setData_def)

theorem setData_longer_payload_fails_witness:
  "len (Typed Float32Array [Fin 1, Fin 2, Fin 3]) < len (Typed Float32Array [Fin 4, Fin 5, Fin 6, Fin 7])
   \<and> setData (\<lambda>d. []) (\<lambda>k bs. []) False (Typed Float32Array [Fin 4, Fin 5, Fin 6, Fin 7]) 0
         \<lparr>gl = None, buffer = None, target = Some ARRAY_BUFFER, attribute = Some ''a_vertex'',
          normalize = False, data = Some (Typed Float32Array [Fin 1, Fin 2, Fin 3]),
          spacing = Fin 3, name = None, stream_type = None\<rparr>
         \<lparr>console = [], gl_calls = [], global_gl = None\<rparr>
       = (Throws (Thrown ''buffer is not big enough, you cannot set data to a smaller buffer''),
          \<lparr>gl = None, buffer = None, target = Some ARRAY_BUFFER, attribute = Some ''a_vertex'',
           normalize = False, data = Some (Typed Float32Array [Fin 1, Fin 2, Fin 3]),
           spacing = Fin 3, name = None, stream_type = None\<rparr>,
          \<lparr>console = [], gl_calls = [], global_gl = None\<rparr>)"
proof -
  have h: "len (Typed Float32Array [Fin 1, Fin 2, Fin 3])
             < len (Typed Float32Array [Fin 4, Fin 5, Fin 6, Fin 7])"
    by (simp add: len_def)
  show ?thesis
    using h setData_longer_payload_fails
      [of "\<lparr>gl = None, buffer = None, target = Some ARRAY_BUFFER, attribute = Some ''a_vertex'',
            normalize = False, data = Some (Typed Float32Array [Fin 1, Fin 2, Fin 3]),
            spacing = Fin 3, name = None, stream_type = None\<rparr>"
          "Typed Float32Array [Fin 1, Fin 2, Fin 3]" Float32Array "[Fin 4, Fin 5, Fin 6, Fin 7]"
          "\<lambda>d. []" "\<lambda>k bs. []" False 0 "\<lparr>console = [], gl_calls = [], global_gl = None\<rparr>"]
    by simp
qed

text \<open>
  C5. For a buffer whose storage is a typed array of a kind \<open>upload\<close> supports (the
  8, 16 and 32-bit integers, signed or not, and the 32-bit float), holding values of
  that kind, and whose stride is a usable one (not zero, as in the data model's 1 to 4),
  \<open>toJSON\<close> gives an object from which \<open>fromJSON\<close>, run on any buffer, returns
  normally and leaves the same stride, attribute name, target, kind and contents.
\<close>

theorem toJSON_fromJSON_roundtrip:
  assumes "data b = Some (Typed k xs)" and "k \<noteq> Float64Array"
      and "wf_data (Typed k xs)" and "truthy (spacing b)"
  shows "\<exists>j r b' w'. toJSON b w = (Returns (Some j), b, w)
           \<and> fromJSON j that w = (r, b', w')
           \<and> r = Returns ()
           \<and> spacing b' = spacing b \<and> attribute b' = attribute b
           \<and> target b' = target b \<and> data b' = Some (Typed k xs)"
proof -
  let ?j = "\<lparr>j_data_type = getClassName (Typed k xs), j_data = xs,
              j_target = target b, j_attribute = attribute b, j_spacing = spacing b\<rparr>"
  let ?that = "that\<lparr>data := Some (Typed k xs), target := target b,
                    spacing := spacing b, attribute := attribute b\<rparr>"
  have enc: "toJSON b w = (Returns (Some ?j), b, w)"
    using assms(1) by (simp add: toJSON_def)
  have dec: "fromJSON ?j that w = upload (Some STATIC_DRAW) ?that w"
    using assms(3,4)
    by (simp add: fromJSON_def global_typed_getClassName new_typed_def map_to_kind_wf js_or_def)
  obtain b'' w' where up: "upload (Some STATIC_DRAW) ?that w = (Returns (), ?that\<lparr>buffer := b''\<rparr>, w')"
    using upload_supported_returns [of ?that k xs "Some STATIC_DRAW" w] assms(2) by auto
  show ?thesis
    using enc dec up by auto
qed

theorem toJSON_fromJSON_roundtrip_witness:
  "\<exists>j r b' w'.
     toJSON \<lparr>gl = None, buffer = None, target = Some ELEMENT_ARRAY_BUFFER, attribute = Some ''a_index'',
             normalize = False, data = Some (Typed Uint16Array [Fin 0, Fin 1, Fin 2]),
             spacing = Fin 3, name = None, stream_type = None\<rparr>
            \<lparr>console = [], gl_calls = [], global_gl = None\<rparr>
       = (Returns (Some j),
          \<lparr>gl = None, buffer = None, target = Some ELEMENT_ARRAY_BUFFER, attribute = Some ''a_index'',
           normalize = False, data = Some (Typed Uint16Array [Fin 0, Fin 1, Fin 2]),
           spacing = Fin 3, name = None, stream_type = None\<rparr>,
          \<lparr>console = [], gl_calls = [], global_gl = None\<rparr>)
     \<and> fromJSON j
           \<lparr>gl = None, buffer = None, target = None, attribute = None, normalize = False,
            data = None, spacing = Fin 3, name = None, stream_type = None\<rparr>
           \<lparr>console = [], gl_calls = [], global_gl = None\<rparr> = (r, b', w')
     \<and> r = Returns () \<and> spacing b' = Fin 3 \<and> attribute b' = Some ''a_index''
     \<and> target b' = Some ELEMENT_ARRAY_BUFFER
     \<and> data b' = Some (Typed Uint16Array [Fin 0, Fin 1, Fin 2])"
proof -
  have wf: "wf_data (Typed Uint16Array [Fin 0, Fin 1, Fin 2])"
    by (simp add: wf_data_def int_elem_def wrap_unsigned_def trunc_def)
  have tr: "truthy (Fin 3)" by (simp add: truthy_def)
  show ?thesis
    using toJSON_fromJSON_roundtrip
      [of "\<lparr>gl = None, buffer = None, target = Some ELEMENT_ARRAY_BUFFER, attribute = Some ''a_index'',
            normalize = False, data = Some (Typed Uint16Array [Fin 0, Fin 1, Fin 2]),
            spacing = Fin 3, name = None, stream_type = None\<rparr>"
          Uint16Array "[Fin 0, Fin 1, Fin 2]"
          "\<lparr>console = [], gl_calls = [], global_gl = None\<rparr>"
          "\<lparr>gl = None, buffer = None, target = None, attribute = None, normalize = False,
            data = None, spacing = Fin 3, name = None, stream_type = None\<rparr>"]
      wf tr
    by simp
qed

lemma float32_ulp_small: "n < 2 ^ 24 \<Longrightarrow> float32_ulp n = 1"
  by (subst float32_ulp.simps) simp

lemma float32_ulp_step: "2 ^ 24 \<le> n \<Longrightarrow> float32_ulp n = 2 * float32_ulp (n div 2)"
  by (subst float32_ulp.simps) simp

text \<open>
  C8. When \<open>upload\<close> reaches the device (the buffer has a context, and a WebGL buffer
  exists or can be created) with storage of a supported kind: for a vertex-attribute
  buffer (target \<open>ARRAY_BUFFER\<close>) holding an \<open>Int32Array\<close> or a \<open>Uint32Array\<close> the
  device receives the \<open>Float32Array\<close> conversion of the storage (every integer rounded
  to the nearest 32-bit float), the recorded element type is \<open>FLOAT\<close> and one warning is
  written; in every other case the device receives the storage itself, the recorded
  type is the one of its kind and nothing is written to the console.
\<close>

theorem upload_widens_int32:
  assumes "gl this = Some ctx" and "buffer this \<noteq> None \<or> \<not> context_lost ctx"
      and "data this = Some (Typed k xs)" and "gl_type_of k = Some t"
  shows "\<exists>b'. upload st this w =
           (Returns (), this\<lparr>buffer := Some b'\<rparr>,
            if target this = Some ARRAY_BUFFER \<and> (k = Int32Array \<or> k = Uint32Array)
            then w\<lparr>console := console w @
                     [Warn ''WebGL does not support UINT32 or INT32 as vertex buffer types, converting to FLOAT''],
                   gl_calls := gl_calls w @
                     [BindBuffer (target this),
                      BufferData (target this) (Typed Float32Array (map to_float32 xs))
                        (usage_or st (stream_type this))]\<rparr>
            else w\<lparr>gl_calls := gl_calls w @
                     [BindBuffer (target this),
                      BufferData (target this) (Typed k xs) (usage_or st (stream_type this))]\<rparr>)
         \<and> gl_type b' =
             Some (if target this = Some ARRAY_BUFFER \<and> (k = Int32Array \<or> k = Uint32Array)
                   then GL_FLOAT else t)"
proof -
  obtain b0 where b0: "(case buffer this of Some b \<Rightarrow> Some b | None \<Rightarrow> createBuffer ctx) = Some b0"
    using assms(2) by (cases "buffer this") (auto simp: createBuffer_def)
  have int: "(t = GL_INT \<or> t = GL_UNSIGNED_INT) = (k = Int32Array \<or> k = Uint32Array)"
    using assms(4) by (cases k) auto
  show ?thesis
    using assms(1,3,4) b0 int unfolding upload_def Let_def
    by (auto split: option.splits)
qed

theorem upload_widens_int32_witness:
  "\<exists>b'. upload None
           \<lparr>gl = Some \<lparr>context_lost = False\<rparr>, buffer = None, target = Some ARRAY_BUFFER,
            attribute = Some ''a_extra'', normalize = False,
            data = Some (Typed Uint32Array [Fin 4294967295, Fin 16777217, Fin 7]),
            spacing = Fin 1, name = None, stream_type = None\<rparr>
           \<lparr>console = [], gl_calls = [], global_gl = None\<rparr>
         = (Returns (),
            \<lparr>gl = Some \<lparr>context_lost = False\<rparr>, buffer = Some b', target = Some ARRAY_BUFFER,
             attribute = Some ''a_extra'', normalize = False,
             data = Some (Typed Uint32Array [Fin 4294967295, Fin 16777217, Fin 7]),
             spacing = Fin 1, name = None, stream_type = None\<rparr>,
            \<lparr>console =
               [Warn ''WebGL does not support UINT32 or INT32 as vertex buffer types, converting to FLOAT''],
             gl_calls =
               [BindBuffer (Some ARRAY_BUFFER),
                BufferData (Some ARRAY_BUFFER)
                  (Typed Float32Array [Fin 4294967296, Fin 16777216, Fin 7]) STATIC_DRAW],
             global_gl = None\<rparr>)
       \<and> gl_type b' = Some GL_FLOAT"
  using upload_widens_int32
    [of "\<lparr>gl = Some \<lparr>context_lost = False\<rparr>, buffer = None, target = Some ARRAY_BUFFER,
          attribute = Some ''a_extra'', normalize = False,
          data = Some (Typed Uint32Array [Fin 4294967295, Fin 16777217, Fin 7]),
          spacing = Fin 1, name = None, stream_type = None\<rparr>"
        "\<lparr>context_lost = False\<rparr>" Uint32Array "[Fin 4294967295, Fin 16777217, Fin 7]"
        GL_UNSIGNED_INT None
        "\<lparr>console = [], gl_calls = [], global_gl = None\<rparr>"]
  by (simp add: usage_or_def trunc_def float32_of_int_def float32_ulp_small float32_ulp_step Let_def)

subsection \<open>Bounding boxes\<close>

lemmas view_simps = subarray_def vread3_def vread_def elem_at_def trunc_def
lemmas vec3_simps = vec3_min_def vec3_max_def vec3_add_def vec3_sub_def vec3_scale_def
  vec3_dot_def js_min_def js_max_def js_sub_def

lemma first_marked_end: "first_marked m i = i + length m \<Longrightarrow> m = []"
  by (induction m i rule: first_marked.induct) (auto split: if_splits)

text \<open>
  C6, as amended. When a component of the reduced minimum or maximum is \<open>NaN\<close> (the
  mask, if there is one, is not empty), \<open>computeBoundingBox\<close> returns normally the
  zero-sized box at the origin (center, half-size, minimum and maximum all zero) and
  writes one warning. The reset is tied to \<open>NaN\<close> alone, not to infinite components.
\<close>

theorem computeBoundingBox_NaN_reset:
  assumes "has_NaN (fst (bbox_reduce vs msk (mask_start msk)))
           \<or> has_NaN (snd (bbox_reduce vs msk (mask_start msk)))"
      and "msk \<noteq> Some []"
  shows "computeBoundingBox (Some (Typed k vs)) msk w =
           (Returns (Some \<lparr>center = (Fin 0, Fin 0, Fin 0), halfsize = (Fin 0, Fin 0, Fin 0),
                            bb_min = (Fin 0, Fin 0, Fin 0), bb_max = (Fin 0, Fin 0, Fin 0),
                            radius = Fin 0\<rparr>),
            w\<lparr>console := console w @ [Warn ''Warning: GL.Mesh has NaN values in vertices'']\<rparr>)"
proof -
  have nostop: "\<not> (case msk of None \<Rightarrow> False | Some m \<Rightarrow> mask_start msk = length m)"
    using assms(2) first_marked_end [of _ 0] by (auto simp: mask_start_def split: option.splits)
  show ?thesis
    using assms(1) nostop
    by (simp add: computeBoundingBox_def Let_def setCenterHalfsize_def vec3_simps)
qed

theorem computeBoundingBox_NaN_reset_witness:
  "has_NaN (fst (bbox_reduce [Fin 1, NaN, Fin 2, Fin 3, Fin 4, Fin 5] None (mask_start None)))
   \<and> computeBoundingBox (Some (Typed Float32Array [Fin 1, NaN, Fin 2, Fin 3, Fin 4, Fin 5])) None
         \<lparr>console = [], gl_calls = [], global_gl = None\<rparr>
       = (Returns (Some \<lparr>center = (Fin 0, Fin 0, Fin 0), halfsize = (Fin 0, Fin 0, Fin 0),
                        bb_min = (Fin 0, Fin 0, Fin 0), bb_max = (Fin 0, Fin 0, Fin 0),
                        radius = Fin 0\<rparr>),
          \<lparr>console = [Warn ''Warning: GL.Mesh has NaN values in vertices''], gl_calls = [],
           global_gl = None\<rparr>)"
proof -
  have h: "has_NaN (fst (bbox_reduce [Fin 1, NaN, Fin 2, Fin 3, Fin 4, Fin 5] None (mask_start None)))"
    by (simp add: bbox_reduce_def bbox_loop.simps view_simps vec3_simps has_NaN_def isNaN_def
         masked_out_def mask_start_def)
  show ?thesis
    using h computeBoundingBox_NaN_reset
      [of "[Fin 1, NaN, Fin 2, Fin 3, Fin 4, Fin 5]" None Float32Array
          "\<lparr>console = [], gl_calls = [], global_gl = None\<rparr>"]
    by simp
qed

text \<open>
  The claim as stated fails for an infinite component: for the single vertex
  \<open>(Infinity, 0, 0)\<close> the reduced minimum has an infinite component, yet the box
  returned is not the zero box (its center is infinite, its half-size \<open>NaN\<close>) and no
  warning is written.
\<close>

theorem computeBoundingBox_infinite_counterexample:
  "fst (bbox_reduce [PInf, Fin 0, Fin 0] None (mask_start None)) = (PInf, Fin 0, Fin 0)
   \<and> computeBoundingBox (Some (Typed Float32Array [PInf, Fin 0, Fin 0])) None
         \<lparr>console = [], gl_calls = [], global_gl = None\<rparr>
       = (Returns (Some \<lparr>center = (PInf, Fin 0, Fin 0), halfsize = (NaN, Fin 0, Fin 0),
                        bb_min = (NaN, Fin 0, Fin 0), bb_max = (NaN, Fin 0, Fin 0),
                        radius = NaN\<rparr>),
          \<lparr>console = [], gl_calls = [], global_gl = None\<rparr>)"
  by (simp add: computeBoundingBox_def Let_def setCenterHalfsize_def vec3_simps bbox_reduce_def
       bbox_loop.simps view_simps has_NaN_def isNaN_def masked_out_def mask_start_def)

subsection \<open>Creating buffers\<close>

lemma upload_data: "upload st b w = (r, b', w') \<Longrightarrow> data b' = data b"
  unfolding upload_def Let_def
  by (auto split: option.splits jsdata.splits if_splits)

lemma Buffer_supported_returns:
  assumes "k \<noteq> Float64Array"
  shows "\<exists>b w'. Buffer t (Some (Typed k xs)) sp st g w = (Returns (), b, w')
           \<and> data b = Some (Typed k xs)"
proof -
  let ?b = "\<lparr>gl = resolve_gl g w, buffer = None, target = t, attribute = None,
              normalize = False, data = Some (Typed k xs), spacing = js_or sp (Fin 3),
              name = None, stream_type = None\<rparr>"
  from upload_supported_returns [of ?b k xs st w] assms
  obtain b' w' where "upload st ?b w = (Returns (), ?b\<lparr>buffer := b'\<rparr>, w')" by auto
  then show ?thesis
    by (auto simp: Buffer_def Let_def)
qed

lemma createVertexBuffer_returns:
  assumes "k \<noteq> Float64Array" and "a \<noteq> []"
  shows "\<exists>b w'. createVertexBuffer nm (Some a) sp (Some (Typed k xs)) st this w
             = (Returns b, this\<lparr>vertexBuffers := AList.update nm b (vertexBuffers this)\<rparr>, w')
           \<and> data b = Some (Typed k xs)"
proof -
  have f: "\<not> falsy_str (Some a)" using assms(2) by (simp add: falsy_str_def)
  define bsp where "bsp =
     (case common_buffers nm of
        Some c \<Rightarrow> if \<not> truthy sp then (if c_spacing c \<noteq> 0 then Fin (real (c_spacing c)) else Fin 3)
                  else sp
      | None \<Rightarrow> sp)"
  from Buffer_supported_returns [OF assms(1), of "Some ARRAY_BUFFER" xs bsp st "this_gl this" w]
  obtain b w' where
    b: "Buffer (Some ARRAY_BUFFER) (Some (Typed k xs)) bsp st (this_gl this) w = (Returns (), b, w')"
    and d: "data b = Some (Typed k xs)" by auto
  show ?thesis
    unfolding createVertexBuffer_def Let_def bsp_def [symmetric]
    using f b d by (simp add: Let_def)
qed

lemma map_of_update_same: "map_of (AList.update k v al) k = Some v"
  by (simp add: update_conv')



subsection \<open>computeNormals on arrays of finite positions\<close>

lemma length_flat3 [simp]: "length (flat3 ps) = 3 * length ps"
  by (induction ps) (auto simp: flat3_def)










lemma vec3_sub_fin3 [simp]: "vec3_sub (fin3 a) (fin3 b) = fin3 (sub3 a b)"
  by (cases a; cases b) (simp add: vec3_sub_def fin3_def sub3_def js_sub_def)

lemma vec3_add_fin3 [simp]: "vec3_add (fin3 a) (fin3 b) = fin3 (add3 a b)"
  by (cases a; cases b) (simp add: vec3_add_def fin3_def add3_def)

lemma vec3_cross_fin3 [simp]: "vec3_cross (fin3 a) (fin3 b) = fin3 (cross3 a b)"
  by (cases a; cases b) (simp add: vec3_cross_def fin3_def cross3_def js_sub_def)

lemma vec3_normalize_fin3 [simp]: "vec3_normalize (fin3 a) = fin3 (unit3 a)"
proof (cases a)
  case (fields x y z)
  have d: "vec3_dot (fin3 a) (fin3 a) = Fin (dot3 a a)"
    by (simp add: fields vec3_dot_def fin3_def dot3_def)
  show ?thesis
  proof (cases "0 < dot3 a a")
    case True
    then have "sqrt (dot3 a a) \<noteq> 0" by simp
    with True d show ?thesis
      unfolding vec3_normalize_def Let_def d js_gt_def
      by (simp add: fields unit3_def vec3_scale_def fin3_def)
  next
    case False
    with d show ?thesis
      unfolding vec3_normalize_def Let_def d js_gt_def
      by (simp add: fields unit3_def)
  qed
qed



lemma length_add_at [simp]: "length (add_at ns i u) = length ns"
  by (simp add: add_at_def)

lemma length_accumulate [simp]: "length (accumulate ps ns t) = length ns"
  by (cases t) (simp add: accumulate_def)






lemma length_flat_idx [simp]: "length (flat_idx ts) = 3 * length ts"
  by (simp add: flat_idx_def)





lemma length_foldl_accumulate [simp]: "length (foldl (accumulate ps) ns ts) = length ns"
  by (induction ts arbitrary: ns) simp_all















subsection \<open>The positions are left alone\<close>

lemma map_of_update_other: "n \<noteq> k \<Longrightarrow> map_of (AList.update k v al) n = map_of al n"
  by (simp add: update_conv')

lemma createVertexBuffer_frame:
  assumes "createVertexBuffer nm a sp d st this w = (r, m, w')" and "n \<noteq> nm"
  shows "map_of (vertexBuffers m) n = map_of (vertexBuffers this) n
         \<and> indexBuffers m = indexBuffers this"
  using assms unfolding createVertexBuffer_def Let_def
  by (auto split: if_splits option.splits outcome.splits jsdata.splits prod.splits
           simp: map_of_update_other)



lemma length_tangent_of [simp]: "length (tangent_of n t t2) = 4"
  by (simp add: tangent_of_def split: prod.splits)


lemma trunc_real [simp]: "trunc (real k) = int k"
  by (simp add: trunc_def)

lemma trunc_real_numeral [simp]:
  "trunc (real k * numeral m) = int k * numeral m" "trunc (numeral m * real k) = numeral m * int k"
proof -
  have "real k * numeral m = real (k * numeral m)" by simp
  then show "trunc (real k * numeral m) = int k * numeral m"
    by (simp only: trunc_real) simp
  have "numeral m * real k = real (numeral m * k)" by simp
  then show "trunc (numeral m * real k) = numeral m * int k"
    by (simp only: trunc_real) simp
qed





subsection \<open>mergeMeshes\<close>






lemma typed_set_kind: "typed_set (Typed k xs) src off = Returns d \<Longrightarrow> \<exists>ys. d = Typed k ys"
  by (auto simp: typed_set_def split: if_splits)





lemma Buffer_data: "Buffer t d sp st g w = (r, b, w') \<Longrightarrow> data b = d"
  unfolding Buffer_def Let_def
  by (auto split: if_splits dest!: upload_data)


lemma createVertexBuffer_index:
  "createVertexBuffer nm a sp d st this w = (r, m, w') \<Longrightarrow> indexBuffers m = indexBuffers this"
  unfolding createVertexBuffer_def Let_def
  by (auto split: if_splits option.splits outcome.splits jsdata.splits prod.splits)

lemma updateVertexBuffer_index:
  "updateVertexBuffer nm a sp d st this w = (r, m, w') \<Longrightarrow> indexBuffers m = indexBuffers this"
  unfolding updateVertexBuffer_def
  by (auto split: if_splits option.splits prod.splits)

lemma addBuffers_vertex_index:
  "addBuffers_vertex i p st nv this w = (r, m, w') \<Longrightarrow> indexBuffers m = indexBuffers this"
  unfolding addBuffers_vertex_def Let_def
  by (auto split: if_splits option.splits outcome.splits prod.splits payload.splits
           dest: createVertexBuffer_index updateVertexBuffer_index)

lemma addBuffers_vertices_index:
  "addBuffers_vertices vbs st nv this w = (r, m, w') \<Longrightarrow> indexBuffers m = indexBuffers this"
proof (induction vbs arbitrary: nv this w)
  case Nil
  then show ?case by simp
next
  case (Cons p vbs)
  obtain i q where p: "p = (i, q)" by (cases p)
  show ?case
  proof (cases "addBuffers_vertex i q st nv this w")
    case (fields r1 m1 w1)
    with Cons p show ?thesis
      by (cases r1) (auto dest: addBuffers_vertex_index)
  qed
qed






















lemmas merge_simps = mergeMeshes_def merge_data_def measure_mesh_def buffer_data_def len_def
  merged_kind_def allocate_index_def typed_set_def patch_def offset_of_def transformed_def
  remap_data_def remap_bone_def apply_offset_def merged_index_kind_def Let_def











text \<open>
  C3. The check for a mix of skinned and unskinned meshes depends on the order: with
  the skinned mesh first the merge throws; with the unskinned mesh first it returns the
  merged data.
\<close>

theorem mergeMeshes_unskinned_first_returns:
  "fst (mergeMeshes [entry unskinned, entry skinned] data_only quiet)
     = Returns (MergedData
         \<lparr>m_vertexBuffers =
            [(''vertices'', Typed Float32Array [Fin 0, Fin 0, Fin 0, Fin 1, Fin 1, Fin 1]),
             (''bone_indices'', Typed Uint8Array [Fin 0, Fin 0, Fin 0, Fin 0])],
          m_indexBuffers = [],
          m_groups =
            [\<lparr>g_name = ''mesh_'' @ dec_string 0, g_start = 0, g_length = 1, g_material = [],
              g_bounding = None\<rparr>,
             \<lparr>g_name = ''mesh_'' @ dec_string 1, g_start = 1, g_length = 1, g_material = [],
              g_bounding = None\<rparr>],
          m_bones = [(''root'', [])]\<rparr>)
   \<and> fst (mergeMeshes [entry skinned, entry unskinned] data_only quiet)
     = Throws (Thrown ''cannot merge meshes, one contains bones, the other doesnt'')"
  by (simp add: merge_simps entry_def skinned_def unskinned_def host_mesh_def host_buffer_def
        data_only_def quiet_def int_elem_def wrap_unsigned_def trunc_def)

subsection \<open>The width of the indices\<close>

lemma index_kind_supported: "index_kind n \<noteq> Float64Array"
  by (simp add: index_kind_def)

lemma createIndexBuffer_plain_returns:
  assumes "buffer_data (vertexBuffers this) ''vertices'' = Some vd"
  shows "\<exists>b w'. createIndexBuffer nm (Plain xs) st this w
             = (Returns b, this\<lparr>indexBuffers := AList.update nm b (indexBuffers this)\<rparr>, w')
           \<and> data b = Some (new_typed (index_kind (Fin (real (len vd) / 3))) xs)"
proof -
  from assms obtain vb where
    vb: "map_of (vertexBuffers this) ''vertices'' = Some vb" and d: "data vb = Some vd"
    by (auto simp: buffer_data_def split: option.splits)
  define k where "k = index_kind (Fin (real (len vd) / 3))"
  have k: "k \<noteq> Float64Array" by (simp add: k_def index_kind_supported)
  from Buffer_supported_returns [OF k, of "Some ELEMENT_ARRAY_BUFFER" "map (to_kind k) xs" "Fin 0" st
         "this_gl this" w]
  obtain b w' where
    b: "Buffer (Some ELEMENT_ARRAY_BUFFER) (Some (Typed k (map (to_kind k) xs))) (Fin 0) st
          (this_gl this) w = (Returns (), b, w')"
    and bd: "data b = Some (Typed k (map (to_kind k) xs))" by auto
  show ?thesis
    unfolding createIndexBuffer_def Let_def
    using vb d b bd by (simp add: new_typed_def k_def [symmetric])
qed

lemma buffers_of_kind_update:
  "buffers_of_kind k bs \<Longrightarrow> data b = Some (Typed k xs) \<Longrightarrow> buffers_of_kind k (AList.update j b bs)"
  by (induction bs) (auto simp: buffers_of_kind_def)

lemma index_kind_fin:
  "index_kind (Fin r) = (if r \<le> 65536 then Uint16Array else Uint32Array)"
  by (auto simp: index_kind_def js_gt_def)

lemma updateVertexBuffer_frame:
  assumes "updateVertexBuffer nm a sp d st this w = (r, m, w')" and "n \<noteq> nm"
  shows "map_of (vertexBuffers m) n = map_of (vertexBuffers this) n"
  using assms unfolding updateVertexBuffer_def
  by (auto split: if_splits option.splits prod.splits simp: map_of_update_other)

lemma updateVertexBuffer_data:
  assumes "updateVertexBuffer nm a sp d st this w = (Returns u, m, w')"
      and "map_of (vertexBuffers this) nm \<noteq> None" and "0 < len d"
  shows "buffer_data (vertexBuffers m) nm = Some d"
  using assms unfolding updateVertexBuffer_def
  by (auto split: if_splits option.splits prod.splits
           simp: map_of_update_same buffer_data_def dest!: upload_data)

lemma createVertexBuffer_data:
  assumes "createVertexBuffer nm a sp (Some d) st this w = (Returns b, m, w')"
  shows "buffer_data (vertexBuffers m) nm = Some d"
  using assms unfolding createVertexBuffer_def Let_def
  by (auto split: if_splits option.splits outcome.splits jsdata.splits prod.splits
           simp: map_of_update_same buffer_data_def dest!: Buffer_data)

lemma linearized_untyped:
  "untyped_payload (PData d) \<Longrightarrow> \<exists>xs. linearized (PData d) = Plain xs"
  by (cases d) (auto simp: untyped_payload_def linearized_def)

lemma len_cast_plain: "len (cast_plain k d) = len d"
  by (cases d) (simp_all add: cast_plain_def new_typed_def len_def)

lemma vertex_count_frame:
  "map_of (vertexBuffers m) ''vertices'' = map_of (vertexBuffers this) ''vertices''
   \<Longrightarrow> vertex_count m = vertex_count this"
  by (simp add: vertex_count_def buffer_data_def)

lemma addBuffers_vertex_shape:
  assumes r: "addBuffers_vertex i p st nv this w = (Returns nv', m, w')" and p: "p \<noteq> PNull"
  obtains d0 k a sp where
    "(case p of PBuffer b \<Rightarrow> data b | _ \<Rightarrow> Some (linearized p)) = Some d0"
    and "nv' = (if i = ''vertices'' then js_div (Fin (real (len (cast_plain k d0)))) (Fin 3) else nv)"
    and "if map_of (vertexBuffers this) i \<noteq> None
         then updateVertexBuffer i a sp (cast_plain k d0) st this w = (Returns (), m, w')
         else \<exists>b. createVertexBuffer i a sp (Some (cast_plain k d0)) st this w = (Returns b, m, w')"
proof -
  define k where "k =
     (case common_buffers i of
        Some c \<Rightarrow> (case c_type c of Some t \<Rightarrow> t | None \<Rightarrow> default_datatype)
      | None \<Rightarrow> default_datatype)"
  define a where "a =
     (case common_buffers i of
        Some c \<Rightarrow> if c_attribute c \<noteq> [] then c_attribute c else ''a_'' @ i
      | None \<Rightarrow> ''a_'' @ i)"
  define dopt where "dopt = (case p of PBuffer b \<Rightarrow> data b | _ \<Rightarrow> Some (linearized p))"
  have e: "addBuffers_vertex i p st nv this w =
     (case dopt of
        None \<Rightarrow> (Throws TypeError, this, w)
      | Some d0 \<Rightarrow>
        (let d = cast_plain k d0;
             nv1 = (if i = ''vertices'' then js_div (Fin (real (len d))) (Fin 3) else nv);
             sp = (case common_buffers i of
                     Some c \<Rightarrow>
                       if c_spacing c \<noteq> 0 then Fin (real (c_spacing c))
                       else js_div (Fin (real (len d))) nv1
                   | None \<Rightarrow> js_div (Fin (real (len d))) nv1)
         in if map_of (vertexBuffers this) i \<noteq> None then
              (case updateVertexBuffer i (Some a) sp d st this w of
                 (Throws e, m, w') \<Rightarrow> (Throws e, m, w')
               | (Returns u, m, w') \<Rightarrow> (Returns nv1, m, w'))
            else
              (case createVertexBuffer i (Some a) sp (Some d) st this w of
                 (Throws e, m, w') \<Rightarrow> (Throws e, m, w')
               | (Returns b, m, w') \<Rightarrow> (Returns nv1, m, w'))))"
    unfolding addBuffers_vertex_def Let_def k_def a_def dopt_def
    using p by (cases p) simp_all
  from r obtain d0 where d0: "dopt = Some d0"
    unfolding e by (cases dopt) auto
  define nv1 where
    "nv1 = (if i = ''vertices'' then js_div (Fin (real (len (cast_plain k d0)))) (Fin 3) else nv)"
  define sp where "sp =
     (case common_buffers i of
        Some c \<Rightarrow>
          if c_spacing c \<noteq> 0 then Fin (real (c_spacing c))
          else js_div (Fin (real (len (cast_plain k d0)))) nv1
      | None \<Rightarrow> js_div (Fin (real (len (cast_plain k d0)))) nv1)"
  show ?thesis
    using r unfolding e d0 Let_def option.case nv1_def [symmetric] sp_def [symmetric]
    by (intro that [of d0 k "Some a" sp])
       (auto simp: dopt_def [symmetric] d0 nv1_def split: if_splits prod.splits outcome.splits)
qed

lemma addBuffers_vertex_count:
  assumes r: "addBuffers_vertex i p st nv this w = (Returns nv', m, w')"
      and inv: "nv = Fin (vertex_count this)"
      and ne: "i = ''vertices'' \<longrightarrow> not_empty_payload p"
  shows "nv' = Fin (vertex_count m)"
proof (cases "p = PNull")
  case True
  with r have "nv' = nv" and "m = this" by (simp_all add: addBuffers_vertex_def)
  with inv show ?thesis by simp
next
  case False
  from addBuffers_vertex_shape [OF r False] obtain d0 k a sp where
    d0: "(case p of PBuffer b \<Rightarrow> data b | _ \<Rightarrow> Some (linearized p)) = Some d0"
    and nv': "nv' = (if i = ''vertices'' then js_div (Fin (real (len (cast_plain k d0)))) (Fin 3) else nv)"
    and s: "if map_of (vertexBuffers this) i \<noteq> None
         then updateVertexBuffer i a sp (cast_plain k d0) st this w = (Returns (), m, w')
         else \<exists>b. createVertexBuffer i a sp (Some (cast_plain k d0)) st this w = (Returns b, m, w')"
    by blast
  show ?thesis
  proof (cases "i = ''vertices''")
    case False
    with s have "map_of (vertexBuffers m) ''vertices'' = map_of (vertexBuffers this) ''vertices''"
      by (auto split: if_splits dest: updateVertexBuffer_frame createVertexBuffer_frame)
    then have "vertex_count m = vertex_count this" by (rule vertex_count_frame)
    with False nv' inv show ?thesis by simp
  next
    case True
    with ne d0 \<open>p \<noteq> PNull\<close> have "0 < len d0"
      by (cases p) (auto simp: not_empty_payload_def linearized_def len_def split: if_splits)
    then have l: "0 < len (cast_plain k d0)" by (simp add: len_cast_plain)
    from s have "buffer_data (vertexBuffers m) i = Some (cast_plain k d0)"
      by (auto split: if_splits dest: updateVertexBuffer_data [OF _ _ l] createVertexBuffer_data)
    with True nv' show ?thesis by (simp add: vertex_count_def)
  qed
qed

lemma addBuffers_vertices_count:
  assumes "addBuffers_vertices vbs st nv this w = (Returns nv', m, w')"
      and "nv = Fin (vertex_count this)"
      and "list_all (\<lambda>(i, p). i = ''vertices'' \<longrightarrow> not_empty_payload p) vbs"
  shows "nv' = Fin (vertex_count m)"
  using assms
proof (induction vbs arbitrary: nv this w)
  case Nil
  from Nil.prems(1) have "nv' = nv" and "m = this" by simp_all
  with Nil.prems(2) show ?case by simp
next
  case (Cons e vbs)
  obtain i p where e: "e = (i, p)" by (cases e)
  from Cons.prems(1) e obtain nv1 m1 w1 where
    one: "addBuffers_vertex i p st nv this w = (Returns nv1, m1, w1)"
    and more: "addBuffers_vertices vbs st nv1 m1 w1 = (Returns nv', m, w')"
    by (auto split: prod.splits outcome.splits)
  from Cons.prems(3) e have ne: "i = ''vertices'' \<longrightarrow> not_empty_payload p"
    and rest: "list_all (\<lambda>(i, p). i = ''vertices'' \<longrightarrow> not_empty_payload p) vbs"
    by simp_all
  from Cons.IH [OF more addBuffers_vertex_count [OF one Cons.prems(2) ne] rest] show ?case .
qed

lemma addBuffers_index_kind:
  assumes r: "addBuffers_index i p nv m w = (Returns u, m', w')"
      and u: "untyped_payload p"
      and b: "buffers_of_kind (index_kind nv) (indexBuffers m)"
  shows "buffers_of_kind (index_kind nv) (indexBuffers m') \<and> vertexBuffers m' = vertexBuffers m"
proof (cases "p = PNull")
  case True
  with r b show ?thesis by (simp add: addBuffers_index_def)
next
  case False
  define qopt where "qopt = (case p of PBuffer b \<Rightarrow> map_option PData (data b) | _ \<Rightarrow> Some p)"
  have e: "addBuffers_index i p nv m w =
     (case qopt of
        None \<Rightarrow> (Throws TypeError, m, w)
      | Some q \<Rightarrow>
          (case createIndexBuffer (if not_numbers q then dec_string (chunk_end (payload_length q)) else i)
                  (cast_plain (index_kind nv) (linearized q)) None m w of
             (Throws e, m, w') \<Rightarrow> (Throws e, m, w')
           | (Returns b, m, w') \<Rightarrow> (Returns (), m, w')))"
    unfolding addBuffers_index_def Let_def qopt_def using False by (cases p) simp_all
  from r obtain q where q: "qopt = Some q" unfolding e by (cases qopt) auto
  have "\<exists>xs. linearized q = Plain xs"
  proof (cases p)
    case PNull
    with False show ?thesis by simp
  next
    case (PBuffer bf)
    with q obtain d where "data bf = Some d" and "q = PData d"
      by (auto simp: qopt_def)
    with u PBuffer show ?thesis
      by (simp add: untyped_payload_def linearized_untyped)
  next
    case (PData d)
    with q have "q = PData d" by (simp add: qopt_def)
    with u PData show ?thesis by (simp add: linearized_untyped)
  next
    case (PNested xss)
    with q show ?thesis by (auto simp: qopt_def linearized_def)
  qed
  then obtain xs where "cast_plain (index_kind nv) (linearized q)
                          = Typed (index_kind nv) (map (to_kind (index_kind nv)) xs)"
    by (auto simp: cast_plain_def new_typed_def)
  with r obtain i' bf where
    "createIndexBuffer i' (Typed (index_kind nv) (map (to_kind (index_kind nv)) xs)) None m w
       = (Returns bf, m', w')"
    unfolding e q by (auto split: prod.splits outcome.splits)
  then have "data bf = Some (Typed (index_kind nv) (map (to_kind (index_kind nv)) xs))"
    and "indexBuffers m' = AList.update i' bf (indexBuffers m)"
    and "vertexBuffers m' = vertexBuffers m"
    unfolding createIndexBuffer_def Let_def
    by (auto split: prod.splits outcome.splits dest!: Buffer_data)
  with b show ?thesis by (simp add: buffers_of_kind_update)
qed

lemma addBuffers_indices_kind:
  assumes "addBuffers_indices ibs nv m w = (Returns u, m', w')"
      and "list_all (\<lambda>(i, p). untyped_payload p) ibs"
      and "buffers_of_kind (index_kind nv) (indexBuffers m)"
  shows "buffers_of_kind (index_kind nv) (indexBuffers m') \<and> vertexBuffers m' = vertexBuffers m"
  using assms
proof (induction ibs arbitrary: m w)
  case Nil
  then show ?case by simp
next
  case (Cons e ibs)
  obtain i p where e: "e = (i, p)" by (cases e)
  from Cons.prems(1) e obtain m1 w1 where
    one: "addBuffers_index i p nv m w = (Returns (), m1, w1)"
    and more: "addBuffers_indices ibs nv m1 w1 = (Returns u, m', w')"
    by (auto split: prod.splits outcome.splits)
  from Cons.prems(2) e have up: "untyped_payload p"
    and rest: "list_all (\<lambda>(i, p). untyped_payload p) ibs" by simp_all
  from addBuffers_index_kind [OF one up Cons.prems(3)] have
    k1: "buffers_of_kind (index_kind nv) (indexBuffers m1)"
    and v1: "vertexBuffers m1 = vertexBuffers m" by simp_all
  from Cons.IH [OF more rest k1] v1 show ?case by simp
qed

lemma createIndexBuffer_vertex:
  "createIndexBuffer nm d st m w = (r, m', w') \<Longrightarrow> vertexBuffers m' = vertexBuffers m"
  unfolding createIndexBuffer_def Let_def
  by (auto split: prod.splits outcome.splits jsdata.splits option.splits)

lemma addBuffers_index_vertex:
  "addBuffers_index i p nv m w = (r, m', w') \<Longrightarrow> vertexBuffers m' = vertexBuffers m"
  unfolding addBuffers_index_def Let_def
  by (auto split: prod.splits outcome.splits payload.splits option.splits
           dest: createIndexBuffer_vertex)

lemma addBuffers_indices_vertex:
  "addBuffers_indices ibs nv m w = (r, m', w') \<Longrightarrow> vertexBuffers m' = vertexBuffers m"
proof (induction ibs arbitrary: m w)
  case Nil
  then show ?case by simp
next
  case (Cons e ibs)
  obtain i p where e: "e = (i, p)" by (cases e)
  show ?case
  proof (cases "addBuffers_index i p nv m w")
    case (fields r1 m1 w1)
    then have v: "vertexBuffers m1 = vertexBuffers m" by (rule addBuffers_index_vertex)
    show ?thesis
    proof (cases r1)
      case (Throws x)
      with Cons.prems e fields v show ?thesis by simp
    next
      case (Returns u)
      with Cons.prems e fields have "addBuffers_indices ibs nv m1 w1 = (r, m', w')" by simp
      from Cons.IH [OF this] v show ?thesis by simp
    qed
  qed
qed

lemma addBuffers_kind:
  assumes r: "addBuffers vbs ibs st this w = (Returns (), m, w')"
      and ne: "list_all (\<lambda>(i, p). i = ''vertices'' \<longrightarrow> not_empty_payload p) vbs"
      and un: "list_all (\<lambda>(i, p). untyped_payload p) ibs"
      and b: "buffers_of_kind (if vertex_count m \<le> 65536 then Uint16Array else Uint32Array)
                (indexBuffers this)"
  shows "buffers_of_kind (if vertex_count m \<le> 65536 then Uint16Array else Uint32Array)
           (indexBuffers m)"
proof -
  from r obtain nv0 nv m1 w1 where
    n0: "nv0 = Fin (vertex_count this)"
    and vs: "addBuffers_vertices vbs st nv0 this w = (Returns nv, m1, w1)"
    and ix: "addBuffers_indices ibs nv m1 w1 = (Returns (), m, w')"
    unfolding addBuffers_def
    by (auto simp: vertex_count_def buffer_data_def
             split: option.splits outcome.splits prod.splits)
  from addBuffers_vertices_count [OF vs n0 ne] have nv: "nv = Fin (vertex_count m1)" .
  have i1: "indexBuffers m1 = indexBuffers this"
    using vs by (rule addBuffers_vertices_index)
  have "vertexBuffers m = vertexBuffers m1"
    using ix by (rule addBuffers_indices_vertex)
  then have c: "vertex_count m = vertex_count m1"
    by (simp add: vertex_count_def)
  have k: "index_kind nv = (if vertex_count m \<le> 65536 then Uint16Array else Uint32Array)"
    unfolding nv c by (rule index_kind_fin)
  from b have "buffers_of_kind (index_kind nv) (indexBuffers m1)"
    unfolding k i1 .
  from addBuffers_indices_kind [OF ix un this] show ?thesis
    unfolding k by simp
qed

lemma addBuffers_plain_indices:
  assumes vd: "buffer_data (vertexBuffers this) ''vertices'' = Some vd" and xs: "xs \<noteq> []"
  shows "\<exists>b w'. addBuffers [] [(nm, PData (Plain xs))] st this w
             = (Returns (), this\<lparr>indexBuffers := AList.update nm b (indexBuffers this)\<rparr>, w')
           \<and> data b = Some (new_typed (index_kind (Fin (real (len vd) / 3))) xs)"
proof -
  from vd obtain vb where
    vb: "map_of (vertexBuffers this) ''vertices'' = Some vb" and d: "data vb = Some vd"
    by (auto simp: buffer_data_def split: option.splits)
  define k where "k = index_kind (Fin (real (len vd) / 3))"
  have k: "k \<noteq> Float64Array" by (simp add: k_def index_kind_supported)
  from Buffer_supported_returns [OF k, of "Some ELEMENT_ARRAY_BUFFER" "map (to_kind k) xs" "Fin 0" None
         "this_gl this" w]
  obtain b w' where
    b: "Buffer (Some ELEMENT_ARRAY_BUFFER) (Some (Typed k (map (to_kind k) xs))) (Fin 0) None
          (this_gl this) w = (Returns (), b, w')"
    and bd: "data b = Some (Typed k (map (to_kind k) xs))" by auto
  have c: "createIndexBuffer nm (Typed k (map (to_kind k) xs)) None this w
             = (Returns b, this\<lparr>indexBuffers := AList.update nm b (indexBuffers this)\<rparr>, w')"
    unfolding createIndexBuffer_def Let_def using b by simp
  have "addBuffers_index nm (PData (Plain xs)) (Fin (real (len vd) / 3)) this w
          = (Returns (), this\<lparr>indexBuffers := AList.update nm b (indexBuffers this)\<rparr>, w')"
    unfolding addBuffers_index_def Let_def k_def [symmetric]
    using xs c by (simp add: linearized_def cast_plain_def new_typed_def)
  then have "addBuffers [] [(nm, PData (Plain xs))] st this w
          = (Returns (), this\<lparr>indexBuffers := AList.update nm b (indexBuffers this)\<rparr>, w')"
    unfolding addBuffers_def using vb d by simp
  with bd show ?thesis by (auto simp: new_typed_def k_def)
qed

text \<open>
  C7, as amended. On a mesh with a "vertices" buffer of \<open>n / 3\<close> vertices,
  \<open>createIndexBuffer\<close> on a plain array, and \<open>addBuffers\<close> on a plain array of indices
  that is not empty, return and store the indices in a \<open>Uint16Array\<close> when the vertex
  count is at most 65536 and in a \<open>Uint32Array\<close> when it is more. And whenever
  \<open>addBuffers\<close> returns, with no empty "vertices" payload and index payloads that are
  not typed arrays, every index buffer it stored has the width that the vertex count of
  the resulting mesh selects.
\<close>

theorem index_width_follows_vertex_count:
  "(buffer_data (vertexBuffers this) ''vertices'' = Some vd
      \<longrightarrow> (\<exists>b w'. createIndexBuffer nm (Plain xs) st this w
                   = (Returns b, this\<lparr>indexBuffers := AList.update nm b (indexBuffers this)\<rparr>, w')
                 \<and> data b = Some (new_typed (if real (len vd) / 3 \<le> 65536 then Uint16Array
                                               else Uint32Array) xs))
        \<and> (xs \<noteq> []
            \<longrightarrow> (\<exists>b w'. addBuffers [] [(nm, PData (Plain xs))] st this w
                   = (Returns (), this\<lparr>indexBuffers := AList.update nm b (indexBuffers this)\<rparr>, w')
                 \<and> data b = Some (new_typed (if real (len vd) / 3 \<le> 65536 then Uint16Array
                                               else Uint32Array) xs))))
   \<and> (addBuffers vbs ibs st' mesh w0 = (Returns (), m, w1)
      \<longrightarrow> list_all (\<lambda>(i, p). i = ''vertices'' \<longrightarrow> not_empty_payload p) vbs
      \<longrightarrow> list_all (\<lambda>(i, p). untyped_payload p) ibs
      \<longrightarrow> buffers_of_kind (if vertex_count m \<le> 65536 then Uint16Array else Uint32Array)
            (indexBuffers mesh)
      \<longrightarrow> buffers_of_kind (if vertex_count m \<le> 65536 then Uint16Array else Uint32Array)
            (indexBuffers m))"
proof (intro conjI impI)
  assume "buffer_data (vertexBuffers this) ''vertices'' = Some vd"
  from createIndexBuffer_plain_returns [OF this, of nm xs st w]
  show "\<exists>b w'. createIndexBuffer nm (Plain xs) st this w
                   = (Returns b, this\<lparr>indexBuffers := AList.update nm b (indexBuffers this)\<rparr>, w')
                 \<and> data b = Some (new_typed (if real (len vd) / 3 \<le> 65536 then Uint16Array
                                               else Uint32Array) xs)"
    unfolding index_kind_fin .
next
  assume "buffer_data (vertexBuffers this) ''vertices'' = Some vd" and "xs \<noteq> []"
  from addBuffers_plain_indices [OF this, of nm st w]
  show "\<exists>b w'. addBuffers [] [(nm, PData (Plain xs))] st this w
                   = (Returns (), this\<lparr>indexBuffers := AList.update nm b (indexBuffers this)\<rparr>, w')
                 \<and> data b = Some (new_typed (if real (len vd) / 3 \<le> 65536 then Uint16Array
                                               else Uint32Array) xs)"
    unfolding index_kind_fin .
next
  assume "addBuffers vbs ibs st' mesh w0 = (Returns (), m, w1)"
    and "list_all (\<lambda>(i, p). i = ''vertices'' \<longrightarrow> not_empty_payload p) vbs"
    and "list_all (\<lambda>(i, p). untyped_payload p) ibs"
    and "buffers_of_kind (if vertex_count m \<le> 65536 then Uint16Array else Uint32Array)
            (indexBuffers mesh)"
  then show "buffers_of_kind (if vertex_count m \<le> 65536 then Uint16Array else Uint32Array)
            (indexBuffers m)"
    by (rule addBuffers_kind)
qed

lemma addBuffers_fresh_mesh:
  "\<exists>m. addBuffers [(''vertices'', PData (Plain [Fin 0, Fin 0, Fin 0, Fin 1, Fin 0, Fin 0, Fin 0, Fin 1, Fin 0]))]
          [(''triangles'', PData (Plain [Fin 0, Fin 1, Fin 2]))] None (host_mesh [] [] None) quiet
        = (Returns (), m, quiet)
      \<and> buffer_data (vertexBuffers m) ''vertices''
          = Some (Typed Float32Array [Fin 0, Fin 0, Fin 0, Fin 1, Fin 0, Fin 0, Fin 0, Fin 1, Fin 0])
      \<and> buffer_data (indexBuffers m) ''triangles'' = Some (Typed Uint16Array [Fin 0, Fin 1, Fin 2])"
  by (simp add: addBuffers_def addBuffers_vertex_def addBuffers_index_def createVertexBuffer_def
        createIndexBuffer_def Buffer_def upload_def Let_def host_mesh_def quiet_def linearized_def
        cast_plain_def new_typed_def common_buffers_def default_datatype_def this_gl_def
        resolve_gl_def falsy_str_def truthy_def js_or_def index_kind_def js_gt_def len_def
        int_kind_def buffer_data_def int_elem_def wrap_unsigned_def trunc_def)

lemma index_words_three:
  "new_typed Uint16Array [Fin 0, Fin 1, Fin 2] = Typed Uint16Array [Fin 0, Fin 1, Fin 2]"
  "new_typed Uint32Array [Fin 0, Fin 1, Fin 2] = Typed Uint32Array [Fin 0, Fin 1, Fin 2]"
  by (simp_all add: new_typed_def int_elem_def wrap_unsigned_def trunc_def)

theorem index_width_follows_vertex_count_witness:
  "(\<exists>b w'. createIndexBuffer ''triangles'' (Plain [Fin 0, Fin 1, Fin 2]) None one_face_mesh quiet
        = (Returns b,
           one_face_mesh\<lparr>indexBuffers := AList.update ''triangles'' b (indexBuffers one_face_mesh)\<rparr>,
           w')
      \<and> data b = Some (Typed Uint16Array [Fin 0, Fin 1, Fin 2]))
   \<and> (\<exists>b w'. addBuffers [] [(''triangles'', PData (Plain [Fin 0, Fin 1, Fin 2]))] None big_mesh quiet
        = (Returns (),
           big_mesh\<lparr>indexBuffers := AList.update ''triangles'' b (indexBuffers big_mesh)\<rparr>, w')
      \<and> data b = Some (Typed Uint32Array [Fin 0, Fin 1, Fin 2]))
   \<and> (\<exists>m. addBuffers
             [(''vertices'',
               PData (Plain [Fin 0, Fin 0, Fin 0, Fin 1, Fin 0, Fin 0, Fin 0, Fin 1, Fin 0]))]
             [(''triangles'', PData (Plain [Fin 0, Fin 1, Fin 2]))] None (host_mesh [] [] None) quiet
           = (Returns (), m, quiet)
         \<and> vertex_count m = 3
         \<and> buffers_of_kind Uint16Array (indexBuffers m))"
proof (intro conjI)
  have v: "buffer_data (vertexBuffers one_face_mesh) ''vertices''
             = Some (Typed Float32Array (flat3 one_face))"
    by (simp add: one_face_mesh_def host_mesh_def host_buffer_def buffer_data_def)
  have l: "real (len (Typed Float32Array (flat3 one_face))) / 3 \<le> 65536"
    by (simp add: len_def length_flat3 one_face_def)
  from index_width_follows_vertex_count
         [where this = one_face_mesh and vd = "Typed Float32Array (flat3 one_face)"
            and nm = "''triangles''" and xs = "[Fin 0, Fin 1, Fin 2]" and st = None and w = quiet]
       v l
  show "\<exists>b w'. createIndexBuffer ''triangles'' (Plain [Fin 0, Fin 1, Fin 2]) None one_face_mesh quiet
        = (Returns b,
           one_face_mesh\<lparr>indexBuffers := AList.update ''triangles'' b (indexBuffers one_face_mesh)\<rparr>,
           w')
      \<and> data b = Some (Typed Uint16Array [Fin 0, Fin 1, Fin 2])"
    by (simp add: index_words_three)
next
  have v: "buffer_data (vertexBuffers big_mesh) ''vertices''
             = Some (Typed Float32Array (replicate 196611 (Fin 0)))"
    by (simp add: big_mesh_def host_mesh_def host_buffer_def buffer_data_def)
  have l: "\<not> real (len (Typed Float32Array (replicate 196611 (Fin 0)))) / 3 \<le> 65536"
    by (simp add: len_def)
  from index_width_follows_vertex_count
         [where this = big_mesh and vd = "Typed Float32Array (replicate 196611 (Fin 0))"
            and nm = "''triangles''" and xs = "[Fin 0, Fin 1, Fin 2]" and st = None and w = quiet]
       v l
  show "\<exists>b w'. addBuffers [] [(''triangles'', PData (Plain [Fin 0, Fin 1, Fin 2]))] None big_mesh quiet
        = (Returns (),
           big_mesh\<lparr>indexBuffers := AList.update ''triangles'' b (indexBuffers big_mesh)\<rparr>, w')
      \<and> data b = Some (Typed Uint32Array [Fin 0, Fin 1, Fin 2])"
    by (simp add: index_words_three)
next
  from addBuffers_fresh_mesh obtain m where
    r: "addBuffers
             [(''vertices'',
               PData (Plain [Fin 0, Fin 0, Fin 0, Fin 1, Fin 0, Fin 0, Fin 0, Fin 1, Fin 0]))]
             [(''triangles'', PData (Plain [Fin 0, Fin 1, Fin 2]))] None (host_mesh [] [] None) quiet
           = (Returns (), m, quiet)"
    and v: "buffer_data (vertexBuffers m) ''vertices''
          = Some (Typed Float32Array [Fin 0, Fin 0, Fin 0, Fin 1, Fin 0, Fin 0, Fin 0, Fin 1, Fin 0])"
    by blast
  have c: "vertex_count m = 3" by (simp add: vertex_count_def v len_def)
  have a: "list_all (\<lambda>(i, p). i = ''vertices'' \<longrightarrow> not_empty_payload p)
             [(''vertices'',
               PData (Plain [Fin 0, Fin 0, Fin 0, Fin 1, Fin 0, Fin 0, Fin 0, Fin 1, Fin 0]))]"
    by (simp add: not_empty_payload_def len_def)
  have b: "list_all (\<lambda>(i, p). untyped_payload p) [(''triangles'', PData (Plain [Fin 0, Fin 1, Fin 2]))]"
    by (simp add: untyped_payload_def)
  have e: "buffers_of_kind (if vertex_count m \<le> 65536 then Uint16Array else Uint32Array)
             (indexBuffers (host_mesh [] [] None))"
    by (simp add: buffers_of_kind_def host_mesh_def)
  from index_width_follows_vertex_count
         [where vbs = "[(''vertices'',
               PData (Plain [Fin 0, Fin 0, Fin 0, Fin 1, Fin 0, Fin 0, Fin 0, Fin 1, Fin 0]))]"
            and ibs = "[(''triangles'', PData (Plain [Fin 0, Fin 1, Fin 2]))]"
            and st' = None and mesh = "host_mesh [] [] None" and ?w0.0 = quiet and m = m
            and ?w1.0 = quiet]
       r a b e
  have "buffers_of_kind (if vertex_count m \<le> 65536 then Uint16Array else Uint32Array)
          (indexBuffers m)"
    by blast
  with r c show "\<exists>m. addBuffers
             [(''vertices'',
               PData (Plain [Fin 0, Fin 0, Fin 0, Fin 1, Fin 0, Fin 0, Fin 0, Fin 1, Fin 0]))]
             [(''triangles'', PData (Plain [Fin 0, Fin 1, Fin 2]))] None (host_mesh [] [] None) quiet
           = (Returns (), m, quiet)
         \<and> vertex_count m = 3
         \<and> buffers_of_kind Uint16Array (indexBuffers m)"
    by auto
qed

text \<open>
  The claim as stated fails for \<open>addBuffers\<close> in two ways. An empty "vertices" payload
  sets the count to 0 and leaves the buffer of the mesh as it is: on \<open>big_mesh\<close>, of
  65537 vertices, a plain array of indices is then stored as a \<open>Uint16Array\<close>. And an
  index payload that is a typed array is stored as it is, whatever the vertex count.
\<close>

theorem addBuffers_index_width_counterexample:
  "buffer_data (indexBuffers (fst (snd (addBuffers [(''vertices'', PData (Plain []))]
       [(''triangles'', PData (Plain [Fin 0, Fin 1, Fin 2]))] None big_mesh quiet)))) ''triangles''
     = Some (Typed Uint16Array [Fin 0, Fin 1, Fin 2])
   \<and> vertex_count (fst (snd (addBuffers [(''vertices'', PData (Plain []))]
       [(''triangles'', PData (Plain [Fin 0, Fin 1, Fin 2]))] None big_mesh quiet))) = 65537
   \<and> fst (addBuffers [(''vertices'', PData (Plain []))]
       [(''triangles'', PData (Plain [Fin 0, Fin 1, Fin 2]))] None big_mesh quiet) = Returns ()
   \<and> buffer_data (indexBuffers (fst (snd (addBuffers []
       [(''triangles'', PData (Typed Uint16Array [Fin 0, Fin 1, Fin 2]))] None big_mesh quiet)))) ''triangles''
     = Some (Typed Uint16Array [Fin 0, Fin 1, Fin 2])
   \<and> vertex_count (fst (snd (addBuffers []
       [(''triangles'', PData (Typed Uint16Array [Fin 0, Fin 1, Fin 2]))] None big_mesh quiet))) = 65537"
  by (simp add: addBuffers_def addBuffers_vertex_def addBuffers_index_def updateVertexBuffer_def
        createIndexBuffer_def Buffer_def Let_def big_mesh_def host_mesh_def host_buffer_def quiet_def
        linearized_def cast_plain_def new_typed_def common_buffers_def default_datatype_def
        this_gl_def resolve_gl_def js_or_def truthy_def index_kind_def js_gt_def len_def
        buffer_data_def vertex_count_def int_elem_def wrap_unsigned_def trunc_def)

subsection \<open>Rounding to the nearest double\<close>

lemma round_even_int: "round_even (of_int n) = n"
  by (simp add: round_even_def)

lemma round_even_near: "\<bar>of_int (round_even y) - y\<bar> \<le> 1 / 2"
  unfolding round_even_def Let_def by (auto simp: abs_if) linarith+

lemma round_even_mono:
  assumes "a \<le> b"
  shows "round_even a \<le> round_even b"
proof (cases "\<lfloor>a\<rfloor> = \<lfloor>b\<rfloor>")
  case True
  with assms show ?thesis by (auto simp: round_even_def Let_def)
next
  case False
  with assms have fl: "\<lfloor>a\<rfloor> + 1 \<le> \<lfloor>b\<rfloor>" using floor_mono [of a b] by linarith
  have "round_even a \<le> \<lfloor>a\<rfloor> + 1" by (auto simp: round_even_def Let_def)
  moreover have "\<lfloor>b\<rfloor> \<le> round_even b" by (auto simp: round_even_def Let_def)
  ultimately show ?thesis using fl by linarith
qed

lemma round_even_ge: "of_int n \<le> a \<Longrightarrow> n \<le> round_even a"
  using round_even_mono [of "of_int n" a] by (simp add: round_even_int)

lemma round_even_le: "a \<le> of_int n \<Longrightarrow> round_even a \<le> n"
  using round_even_mono [of a "of_int n"] by (simp add: round_even_int)

lemma round_even_minus: "round_even (- a) = - round_even a"
proof (cases "a = of_int \<lfloor>a\<rfloor>")
  case True
  then obtain n where "a = of_int n" ..
  then have "- a = of_int (- n)" by simp
  then show ?thesis using \<open>a = of_int n\<close> round_even_int by metis
next
  case False
  then have f: "\<lfloor>- a\<rfloor> = - \<lfloor>a\<rfloor> - 1"
    by (metis ceiling_altdef ceiling_def minus_diff_eq minus_minus uminus_add_conv_diff add.commute)
  have lt: "of_int \<lfloor>a\<rfloor> < a" using False by (metis of_int_floor_le order_less_le)
  show ?thesis
    unfolding round_even_def Let_def f using lt by (auto simp: algebra_simps)
qed


lemma binade_log:
  assumes "0 < x"
  shows "binade x = \<lfloor>log 2 x\<rfloor>"
  using assms
proof (induction x rule: binade.induct)
  case (1 x)
  show ?case
  proof (cases "2 \<le> x")
    case True
    with 1 have "binade (x / 2) = \<lfloor>log 2 (x / 2)\<rfloor>" by simp
    moreover have "log 2 (x / 2) = log 2 x - 1" using True by (simp add: log_divide)
    ultimately show ?thesis using True by (subst binade.simps) simp
  next
    case False
    show ?thesis
    proof (cases "x < 1")
      case True
      with 1 False have "binade (2 * x) = \<lfloor>log 2 (2 * x)\<rfloor>" by simp
      moreover have "log 2 (2 * x) = 1 + log 2 x" using 1(3) by (simp add: log_mult)
      ultimately show ?thesis using True False 1(3) by (subst binade.simps) simp
    next
      case ge: False
      with False have "0 \<le> log 2 x" and "log 2 x < 1" by (simp_all add: log_less_iff)
      then have "\<lfloor>log 2 x\<rfloor> = 0" by linarith
      with ge False show ?thesis by (subst binade.simps) simp
    qed
  qed
qed

lemma pow2_powr: "(2::real) powi e = 2 powr of_int e"
  by (simp add: powr_real_of_int power_int_def power_divide inverse_eq_divide)

lemma double_exp_log: "x \<noteq> 0 \<Longrightarrow> double_exp x = max (\<lfloor>log 2 \<bar>x\<bar>\<rfloor> - 52) (- 1074)"
  by (simp add: double_exp_def binade_log)

lemma double_near_alt:
  "double_near x =
     (if x = 0 then 0
      else of_int (round_even (x / 2 powr of_int (double_exp x))) * 2 powr of_int (double_exp x))"
  by (simp add: double_near_def pow2_powr)

lemma double_exp_minus: "double_exp (- x) = double_exp x"
  by (simp add: double_exp_def)

lemma double_near_minus: "double_near (- x) = - double_near x"
  by (simp add: double_near_alt double_exp_minus round_even_minus)

lemma double_exp_mono:
  assumes "0 < x" and "x \<le> y"
  shows "double_exp x \<le> double_exp y"
proof -
  from assms have "log 2 x \<le> log 2 y" by simp
  then have "\<lfloor>log 2 x\<rfloor> \<le> \<lfloor>log 2 y\<rfloor>" by (rule floor_mono)
  with assms show ?thesis by (simp add: double_exp_log)
qed

lemma double_near_nonneg:
  assumes "0 < x"
  shows "0 \<le> double_near x"
proof -
  from assms have "of_int 0 \<le> x / 2 powr of_int (double_exp x)" by simp
  then have "0 \<le> round_even (x / 2 powr of_int (double_exp x))" by (rule round_even_ge)
  with assms show ?thesis by (simp add: double_near_alt)
qed

lemma double_near_upper:
  assumes "0 < x"
  shows "double_near x \<le> 2 powr of_int (double_exp x + 53)"
proof -
  define e where "e = double_exp x"
  have "\<lfloor>log 2 x\<rfloor> - 52 \<le> e" using assms by (simp add: e_def double_exp_log)
  then have "log 2 x < of_int (e + 53)" by linarith
  then have "x < 2 powr of_int (e + 53)" using assms by (simp add: log_less_iff)
  also have "2 powr of_int (e + 53) = (2::real) powr of_int e * 2 ^ 53"
    by (simp add: powr_add)
  finally have "x / 2 powr of_int e \<le> of_int (2 ^ 53)"
    by (simp add: divide_le_eq mult.commute)
  then have "round_even (x / 2 powr of_int e) \<le> 2 ^ 53" by (rule round_even_le)
  then have "of_int (round_even (x / 2 powr of_int e)) \<le> (2 ^ 53 :: real)"
    by (metis of_int_le_iff of_int_numeral of_int_power)
  then have "of_int (round_even (x / 2 powr of_int e)) * 2 powr of_int e
               \<le> 2 ^ 53 * (2::real) powr of_int e"
    by (intro mult_right_mono) simp_all
  also have "\<dots> = 2 powr of_int (e + 53)" by (simp add: powr_add)
  finally show ?thesis using assms by (simp add: double_near_alt e_def)
qed

lemma double_near_lower:
  assumes "0 < y" and "- 1074 < double_exp y"
  shows "2 powr of_int (double_exp y + 52) \<le> double_near y"
proof -
  define e where "e = double_exp y"
  have "e = \<lfloor>log 2 y\<rfloor> - 52" using assms by (simp add: e_def double_exp_log max_def split: if_splits)
  then have "of_int (e + 52) \<le> log 2 y" by simp
  then have "2 powr of_int (e + 52) \<le> y" using assms by (simp add: le_log_iff)
  moreover have "2 powr of_int (e + 52) = (2::real) powr of_int e * 2 ^ 52"
    by (simp add: powr_add)
  ultimately have "of_int (2 ^ 52) \<le> y / 2 powr of_int e"
    by (simp add: le_divide_eq mult.commute)
  then have "2 ^ 52 \<le> round_even (y / 2 powr of_int e)" by (rule round_even_ge)
  then have "(2 ^ 52 :: real) \<le> of_int (round_even (y / 2 powr of_int e))"
    by (metis of_int_le_iff of_int_numeral of_int_power)
  then have r: "2 ^ 52 * (2::real) powr of_int e
               \<le> of_int (round_even (y / 2 powr of_int e)) * 2 powr of_int e"
    by (intro mult_right_mono) simp_all
  have "(2::real) powr of_int (e + 52) = 2 ^ 52 * 2 powr of_int e" by (simp add: powr_add)
  also note r
  finally show ?thesis using assms by (simp add: double_near_alt e_def)
qed

lemma double_near_mono_pos:
  assumes "0 < x" and "x \<le> y"
  shows "double_near x \<le> double_near y"
proof (cases "double_exp x = double_exp y")
  case True
  from assms have "x / 2 powr of_int (double_exp y) \<le> y / 2 powr of_int (double_exp y)"
    by (simp add: divide_right_mono)
  then have "round_even (x / 2 powr of_int (double_exp y))
               \<le> round_even (y / 2 powr of_int (double_exp y))"
    by (rule round_even_mono)
  then have "of_int (round_even (x / 2 powr of_int (double_exp y)))
                 * (2::real) powr of_int (double_exp y)
               \<le> of_int (round_even (y / 2 powr of_int (double_exp y)))
                 * 2 powr of_int (double_exp y)"
    by (intro mult_right_mono) simp_all
  with assms True show ?thesis by (simp add: double_near_alt)
next
  case False
  with double_exp_mono [OF assms] have lt: "double_exp x + 1 \<le> double_exp y" by simp
  have "- 1074 \<le> double_exp x" by (simp add: double_exp_def)
  with lt have "- 1074 < double_exp y" by simp
  from assms have y: "0 < y" by simp
  have "double_near x \<le> 2 powr of_int (double_exp x + 53)" by (rule double_near_upper [OF assms(1)])
  also have "\<dots> \<le> 2 powr of_int (double_exp y + 52)"
    using lt by (intro powr_mono) simp_all
  also have "\<dots> \<le> double_near y" by (rule double_near_lower [OF y \<open>- 1074 < double_exp y\<close>])
  finally show ?thesis .
qed

lemma double_near_mono:
  assumes "x \<le> y"
  shows "double_near x \<le> double_near y"
proof -
  consider "0 < x" | "x \<le> 0" "0 \<le> y" | "y < 0" by linarith
  then show ?thesis
  proof cases
    case 1
    then show ?thesis using assms by (rule double_near_mono_pos)
  next
    case 2
    have "double_near x \<le> 0"
    proof (cases "x = 0")
      case True
      then show ?thesis by (simp add: double_near_alt)
    next
      case False
      with 2 have "0 < - x" by simp
      from double_near_nonneg [OF this] show ?thesis by (simp add: double_near_minus)
    qed
    moreover have "0 \<le> double_near y"
    proof (cases "y = 0")
      case True
      then show ?thesis by (simp add: double_near_alt)
    next
      case False
      with 2 have "0 < y" by simp
      then show ?thesis by (rule double_near_nonneg)
    qed
    ultimately show ?thesis by simp
  next
    case 3
    with assms have "0 < - y" and "- y \<le> - x" by simp_all
    from double_near_mono_pos [OF this] show ?thesis by (simp add: double_near_minus)
  qed
qed

lemma double_near_sign: "0 < x \<Longrightarrow> 0 \<le> double_near x" "x \<le> 0 \<Longrightarrow> double_near x \<le> 0"
proof -
  show "0 < x \<Longrightarrow> 0 \<le> double_near x" by (rule double_near_nonneg)
  assume "x \<le> 0"
  from double_near_mono [OF this] show "double_near x \<le> 0" by (simp add: double_near_alt)
qed

lemma to_double_mono:
  assumes "x \<le> y"
  shows "\<not> js_lt (to_double y) (to_double x)"
proof -
  note m = double_near_mono [OF assms]
  show ?thesis
  proof (cases "2 ^ 1024 \<le> \<bar>double_near x\<bar>")
    case bx: True
    show ?thesis
    proof (cases "0 < x")
      case True
      with double_near_sign(1) [of x] bx have "2 ^ 1024 \<le> double_near x" by simp
      with m have "2 ^ 1024 \<le> \<bar>double_near y\<bar>" by simp
      moreover from True assms have "0 < y" by simp
      ultimately show ?thesis by (simp add: to_double_def)
    next
      case False
      with bx show ?thesis by (simp add: to_double_def)
    qed
  next
    case sx: False
    show ?thesis
    proof (cases "2 ^ 1024 \<le> \<bar>double_near y\<bar>")
      case hy: True
      show ?thesis
      proof (cases "0 < y")
        case True
        with hy show ?thesis by (simp add: to_double_def)
      next
        case False
        then have "double_near y \<le> 0" using double_near_sign(2) [of y] by simp
        with hy have "double_near y \<le> - (2 ^ 1024)" by simp
        with m have "double_near x \<le> - (2 ^ 1024)" by simp
        then have "2 ^ 1024 \<le> \<bar>double_near x\<bar>" by simp
        with sx show ?thesis by simp
      qed
    next
      case False
      with sx m show ?thesis by (simp add: to_double_def)
    qed
  qed
qed

lemma to_double_exact:
  assumes m: "\<bar>m\<bar> < 2 ^ 53" and lo: "- 1074 \<le> e" and hi: "e \<le> 971"
  shows "to_double (of_int m * 2 powr of_int e) = Fin (of_int m * 2 powr of_int e)"
proof (cases "m = 0")
  case True
  then show ?thesis by (simp add: to_double_def double_near_alt)
next
  case False
  define x :: real where "x = of_int m * 2 powr of_int e"
  have x0: "x \<noteq> 0" using False by (simp add: x_def)
  have am: "\<bar>x\<bar> = of_int \<bar>m\<bar> * 2 powr of_int e" by (simp add: x_def abs_mult)
  have m1: "(1::real) \<le> of_int \<bar>m\<bar>" using False by (simp add: of_int_1_le_iff [symmetric] del: of_int_1_le_iff)
  from m have "(of_int \<bar>m\<bar> :: real) < 2 ^ 53"
    by (metis of_int_less_iff of_int_numeral of_int_power)
  then have ltx: "\<bar>x\<bar> < 2 powr of_int (e + 53)"
    unfolding am by (simp add: powr_add mult.commute)
  then have "log 2 \<bar>x\<bar> < of_int (e + 53)" using x0 by (simp add: log_less_iff)
  then have "\<lfloor>log 2 \<bar>x\<bar>\<rfloor> - 52 \<le> e" by linarith
  define d where "d = double_exp x"
  from \<open>\<lfloor>log 2 \<bar>x\<bar>\<rfloor> - 52 \<le> e\<close> lo have le: "d \<le> e" using x0 by (simp add: d_def double_exp_log)
  define k where "k = nat (e - d)"
  have ek: "e = d + int k" using le by (simp add: k_def)
  have pk: "(2::real) powr of_int e = 2 powr of_int d * 2 ^ k"
    by (subst ek) (simp add: powr_add powr_realpow)
  have "x / 2 powr of_int d = of_int m * (2 powr of_int e / 2 powr of_int d)"
    by (simp add: x_def)
  also have "2 powr of_int e / 2 powr of_int d = (2::real) ^ k"
    unfolding pk by simp
  also have "of_int m * (2::real) ^ k = of_int (m * 2 ^ k)" by simp
  finally have "round_even (x / 2 powr of_int d) = m * 2 ^ k"
    by (simp only: round_even_int)
  then have "double_near x = of_int (m * 2 ^ k) * 2 powr of_int d"
    using x0 by (simp add: double_near_alt d_def)
  also have "\<dots> = of_int m * (2 powr of_int d * 2 ^ k)" by simp
  also have "\<dots> = x" unfolding pk [symmetric] by (simp add: x_def)
  finally have dn: "double_near x = x" .
  have "(2::real) powr of_int (e + 53) \<le> 2 powr of_int 1024"
    using hi by (intro powr_mono) simp_all
  also have "\<dots> = 2 ^ 1024" by (simp add: powr_realpow [symmetric] del: powr_realpow)
  finally have "\<bar>x\<bar> < 2 ^ 1024" using ltx by simp
  with dn show ?thesis by (simp add: to_double_def x_def)
qed

lemma double_rounding_to_double: "double_rounding to_double"
  unfolding double_rounding_def
proof (intro conjI allI impI)
  fix x
  show "to_double x \<noteq> NaN" by (simp add: to_double_def)
next
  fix x y :: real
  assume "x \<le> y"
  then show "\<not> js_lt (to_double y) (to_double x)" by (rule to_double_mono)
next
  fix m e :: int
  assume "\<bar>m\<bar> < 2 ^ 53 \<and> - 1074 \<le> e \<and> e \<le> 971"
  then show "to_double (of_int m * 2 powr of_int e) = Fin (of_int m * 2 powr of_int e)"
    by (simp add: to_double_exact)
qed


lemma round_even_eqI:
  assumes "\<bar>y - of_int n\<bar> < 1 / 2"
  shows "round_even y = n"
proof -
  from round_even_near [of y] assms have "\<bar>(of_int (round_even y) :: real) - of_int n\<bar> < 1" by linarith
  then have "\<bar>(of_int (round_even y - n) :: real)\<bar> < of_int 1" by simp
  then have "\<bar>round_even y - n\<bar> < 1" by (simp only: of_int_abs [symmetric] of_int_less_iff)
  then show ?thesis by linarith
qed

lemma to_double_in_binade:
  assumes lo: "2 powr of_int k \<le> \<bar>x\<bar>" and hi: "\<bar>x\<bar> < 2 powr of_int (k + 1)"
      and k: "- 1022 \<le> k" "k \<le> 1022"
      and r: "\<bar>x / 2 powr of_int (k - 52) - of_int n\<bar> < 1 / 2"
  shows "to_double x = Fin (of_int n * 2 powr of_int (k - 52))"
proof -
  have p: "(0::real) < 2 powr of_int k" by simp
  with lo have x0: "x \<noteq> 0" by auto
  then have ax: "0 < \<bar>x\<bar>" by simp
  from lo ax have "of_int k \<le> log 2 \<bar>x\<bar>" by (simp add: le_log_iff)
  moreover from hi ax have "log 2 \<bar>x\<bar> < of_int (k + 1)" by (simp add: log_less_iff)
  ultimately have "\<lfloor>log 2 \<bar>x\<bar>\<rfloor> = k" by linarith
  with x0 k have e: "double_exp x = k - 52" by (simp add: double_exp_log)
  from r have "round_even (x / 2 powr of_int (k - 52)) = n" by (rule round_even_eqI)
  with x0 e have dn: "double_near x = of_int n * 2 powr of_int (k - 52)"
    by (simp add: double_near_alt)
  define q where "q = x / 2 powr of_int (k - 52)"
  have "\<bar>q\<bar> = \<bar>x\<bar> / 2 powr of_int (k - 52)" by (simp add: q_def)
  also have "\<dots> < 2 powr of_int (k + 1) / 2 powr of_int (k - 52)"
    using hi by (simp add: divide_strict_right_mono)
  also have "\<dots> = 2 ^ 53" by (simp add: powr_diff [symmetric])
  finally have q: "\<bar>q\<bar> < 2 ^ 53" .
  from r have "\<bar>q - of_int n\<bar> < 1 / 2" by (simp only: q_def)
  with q have "\<bar>(of_int n :: real)\<bar> < 2 ^ 53 + 1" by linarith
  then have "\<bar>(of_int n :: real)\<bar> < of_int (2 ^ 53 + 1)" by simp
  then have "\<bar>n\<bar> < 2 ^ 53 + 1" by (simp only: of_int_abs [symmetric] of_int_less_iff)
  then have "\<bar>(of_int n :: real)\<bar> \<le> 2 ^ 53"
    by (metis of_int_abs of_int_le_iff of_int_numeral of_int_power zle_add1_eq_le zless_add1_eq order_le_less)
  then have "\<bar>of_int n * 2 powr of_int (k - 52)\<bar> \<le> 2 ^ 53 * (2::real) powr of_int (k - 52)"
    by (simp add: abs_mult mult_right_mono)
  also have "\<dots> = 2 powr of_int (k + 1)" by (simp add: powr_diff powr_add)
  also have "\<dots> \<le> 2 powr of_int 1023" using k by (intro powr_mono) simp_all
  also have "\<dots> < 2 powr of_int 1024" by (intro powr_less_mono) simp_all
  also have "\<dots> = 2 ^ 1024" by (simp add: powr_realpow [symmetric] del: powr_realpow)
  finally show ?thesis using dn by (simp add: to_double_def)
qed

lemma to_double_frac:
  assumes "\<bar>m\<bar> < 2 ^ 53" and "n \<le> 1074"
  shows "to_double (of_int m / 2 ^ n) = Fin (of_int m / 2 ^ n)"
proof -
  have "(2::real) powr of_int (- int n) = 1 / 2 ^ n"
    by (simp add: powr_minus_divide powr_realpow)
  with to_double_exact [of m "- int n"] assms show ?thesis by simp
qed

lemma to_double_small:
  assumes lo: "1 / 2 ^ j \<le> \<bar>x\<bar>" and hi: "\<bar>x\<bar> < 2 / 2 ^ j" and j: "j \<le> 1022"
      and r: "\<bar>x * 2 ^ (j + 52) - of_int n\<bar> < 1 / 2"
  shows "to_double x = Fin (of_int n / 2 ^ (j + 52))"
proof -
  have a: "(2::real) powr of_int (- int j) = 1 / 2 ^ j"
    by (simp add: powr_minus_divide powr_realpow)
  have b: "(2::real) powr of_int (- int j + 1) = 2 / 2 ^ j"
    by (simp add: powr_diff powr_realpow)
  have "- int j - 52 = - int (j + 52)" by simp
  then have c: "(2::real) powr of_int (- int j - 52) = 1 / 2 ^ (j + 52)"
    by (simp only: powr_minus_divide powr_realpow of_int_minus of_int_of_nat_eq)
  have "to_double x = Fin (of_int n * 2 powr of_int (- int j - 52))"
  proof (rule to_double_in_binade)
    show "2 powr of_int (- int j) \<le> \<bar>x\<bar>" using lo by (simp only: a)
    show "\<bar>x\<bar> < 2 powr of_int (- int j + 1)" using hi by (simp only: b)
    show "- 1022 \<le> - int j" "- int j \<le> 1022" using j by simp_all
    show "\<bar>x / 2 powr of_int (- int j - 52) - of_int n\<bar> < 1 / 2" using r by (simp only: c) simp
  qed
  then show ?thesis by (simp only: c) simp
qed


lemma to_double_hundredth: "to_double (1 / 100) = Fin (5764607523034235 / 2 ^ 59)"
proof -
  have "to_double (1 / 100) = Fin (of_int 5764607523034235 / 2 ^ (7 + 52))"
    by (rule to_double_small) simp_all
  then show ?thesis by simp
qed




subsection \<open>computeIndices on two vertices\<close>

lemma dr_exact:
  assumes "double_rounding fl"
  shows "fl 0 = Fin 0" and "fl (1 / 128) = Fin (1 / 128)"
proof -
  have e: "\<bar>m\<bar> < 2 ^ 53 \<Longrightarrow> - 1074 \<le> e \<Longrightarrow> e \<le> 971
           \<Longrightarrow> fl (of_int m * 2 powr of_int e) = Fin (of_int m * 2 powr of_int e)" for m e
    using assms by (simp add: double_rounding_def)
  have p7: "(2::real) powr of_int (- 7) = 1 / 128" by (simp add: powr_minus_divide)
  from e [of 0 0] show "fl 0 = Fin 0" by simp
  from e [of 1 "- 7"] show "fl (1 / 128) = Fin (1 / 128)" unfolding p7 by simp
qed



lemma rounded_fin: "rounded fl (Fin r) = fl r"
  by (simp add: rounded_def)

lemma js_sub_fin: "js_sub (Fin a) (Fin b) = Fin (a - b)"
  by (simp add: js_sub_def)






lemma view_first:
  "view_elems [a, b, c, d, e, f] (subarray [a, b, c, d, e, f] (Fin (real (0 * 3))) (Fin (real ((0 + 1) * 3))))
     = [a, b, c]"
  by (simp add: view_elems_def subarray_def trunc_def)

lemma view_second:
  "view_elems [a, b, c, d, e, f] (subarray [a, b, c, d, e, f] (Fin (real (1 * 3))) (Fin (real ((1 + 1) * 3))))
     = [d, e, f]"
  by (simp add: view_elems_def subarray_def trunc_def)

lemma vec_of_three: "vec_of [a, b, c] = (a, b, c)"
  by (simp add: vec_of_def elem_at_def)

lemma weld_step_new:
  assumes "typed_or_absent nd" and "typed_or_absent cd"
      and "v = view_elems vs (subarray vs (Fin (real (i * 3))) (Fin (real ((i + 1) * 3))))"
      and "key = to_int32 (rounded fl (js_mul (elem_at v 0) (Fin 1000)))"
      and "indexer st key = None"
  shows "\<exists>st'. weld_step fl vs nd cd i st = Returns st'
           \<and> new_vertices st' = new_vertices st @ [v]
           \<and> indices st' = indices st @ [0]
           \<and> indexer st' = (indexer st)(key \<mapsto> [0])
           \<and> (nd \<noteq> None \<longrightarrow> new_normals st' \<noteq> [])
           \<and> (cd \<noteq> None \<longrightarrow> new_coords st' \<noteq> [])"
  using assms(1,2,5) unfolding weld_step_def Let_def assms(3) [symmetric] assms(4) [symmetric]
  by (simp add: typed_or_absent_def split: option.splits)

lemma weld_step_found:
  assumes "v = view_elems vs (subarray vs (Fin (real (i * 3))) (Fin (real ((i + 1) * 3))))"
      and "key = to_int32 (rounded fl (js_mul (elem_at v 0) (Fin 1000)))"
      and "indexer st key = Some [0]" and "new_vertices st = [u]"
      and "js_lt (vec3_sqrDist fl (vec_of v) (vec_of u)) (fl (1 / 100))"
  shows "weld_step fl vs nd cd i st = Returns (st\<lparr>indices := indices st @ [0]\<rparr>)"
  using assms(3,4,5) unfolding weld_step_def Let_def assms(1) [symmetric] assms(2) [symmetric]
  by simp

lemma weld_step_far:
  assumes "typed_or_absent nd" and "typed_or_absent cd"
      and "v = view_elems vs (subarray vs (Fin (real (i * 3))) (Fin (real ((i + 1) * 3))))"
      and "key = to_int32 (rounded fl (js_mul (elem_at v 0) (Fin 1000)))"
      and "indexer st key = Some [0]" and "new_vertices st = [u]"
      and "\<not> js_lt (vec3_sqrDist fl (vec_of v) (vec_of u)) (fl (1 / 100))"
  shows "\<exists>st'. weld_step fl vs nd cd i st = Returns st'
           \<and> new_vertices st' = [u, v]
           \<and> indices st' = indices st @ [1]
           \<and> (nd \<noteq> None \<longrightarrow> new_normals st' \<noteq> [])
           \<and> (cd \<noteq> None \<longrightarrow> new_coords st' \<noteq> [])"
  using assms(1,2,5,6,7) unfolding weld_step_def Let_def assms(3) [symmetric] assms(4) [symmetric]
  by (simp add: typed_or_absent_def split: option.splits)

lemma weld_loop_two_vertices:
  fixes fl :: rounding and a1 a2 a3 b1 b2 b3 :: jsnum
  defines "vs \<equiv> [a1, a2, a3, b1, b2, b3]"
  defines "same_key \<equiv> to_int32 (rounded fl (js_mul a1 (Fin 1000)))
                        = to_int32 (rounded fl (js_mul b1 (Fin 1000)))"
  defines "near \<equiv> js_lt (vec3_sqrDist fl (b1, b2, b3) (a1, a2, a3)) (fl (1 / 100))"
  assumes nd: "typed_or_absent nd" and cd: "typed_or_absent cd"
  shows "\<exists>st. weld_loop fl vs nd cd 0
                 \<lparr>new_vertices = [], new_normals = [], new_coords = [], indices = [],
                  indexer = Map.empty\<rparr> = Returns st
           \<and> new_vertices st = (if same_key \<and> near then [[a1, a2, a3]]
                                else [[a1, a2, a3], [b1, b2, b3]])
           \<and> indices st = [0, if same_key \<and> \<not> near then 1 else 0]
           \<and> (nd \<noteq> None \<longrightarrow> new_normals st \<noteq> [])
           \<and> (cd \<noteq> None \<longrightarrow> new_coords st \<noteq> [])"
proof -
  let ?init = "\<lparr>new_vertices = [], new_normals = [], new_coords = [], indices = [],
                 indexer = Map.empty\<rparr>"
  have v0: "[a1, a2, a3] = view_elems vs (subarray vs (Fin (real (0 * 3))) (Fin (real ((0 + 1) * 3))))"
    unfolding vs_def view_first ..
  have v1: "[b1, b2, b3] = view_elems vs (subarray vs (Fin (real (1 * 3))) (Fin (real ((1 + 1) * 3))))"
    unfolding vs_def view_second ..
  have k0: "to_int32 (rounded fl (js_mul a1 (Fin 1000)))
              = to_int32 (rounded fl (js_mul (elem_at [a1, a2, a3] 0) (Fin 1000)))"
    by (simp add: elem_at_def)
  have k1: "to_int32 (rounded fl (js_mul b1 (Fin 1000)))
              = to_int32 (rounded fl (js_mul (elem_at [b1, b2, b3] 0) (Fin 1000)))"
    by (simp add: elem_at_def)
  from weld_step_new [OF nd cd v0 k0, of ?init] obtain st1 where
    s1: "weld_step fl vs nd cd 0 ?init = Returns st1"
    and n1: "new_vertices st1 = [[a1, a2, a3]]" and i1: "indices st1 = [0]"
    and x1: "indexer st1 = [to_int32 (rounded fl (js_mul a1 (Fin 1000))) \<mapsto> [0]]"
    and nn1: "nd \<noteq> None \<longrightarrow> new_normals st1 \<noteq> []"
    and nc1: "cd \<noteq> None \<longrightarrow> new_coords st1 \<noteq> []"
    by auto
  have l: "length vs = 6" by (simp add: vs_def)
  have stop: "weld_loop fl vs nd cd 2 st = Returns st" for st
    by (subst weld_loop.simps) (simp add: l)
  have loop: "weld_loop fl vs nd cd 0 ?init
        = (case weld_step fl vs nd cd 1 st1 of Throws e \<Rightarrow> Throws e | Returns st' \<Rightarrow> Returns st')"
  proof -
    have "weld_loop fl vs nd cd 0 ?init = weld_loop fl vs nd cd 1 st1"
      by (subst weld_loop.simps) (simp add: l s1)
    also have "\<dots> = (case weld_step fl vs nd cd 1 st1 of Throws e \<Rightarrow> Throws e
                        | Returns st' \<Rightarrow> weld_loop fl vs nd cd 2 st')"
      by (subst weld_loop.simps) (simp add: l numeral_2_eq_2 cong: outcome.case_cong)
    finally show ?thesis by (simp add: stop cong: outcome.case_cong)
  qed
  show ?thesis
  proof (cases same_key)
    case False
    then have "indexer st1 (to_int32 (rounded fl (js_mul b1 (Fin 1000)))) = None"
      by (simp add: x1 same_key_def)
    from weld_step_new [OF nd cd v1 k1 this] obtain st2 where
      "weld_step fl vs nd cd 1 st1 = Returns st2"
      and "new_vertices st2 = [[a1, a2, a3], [b1, b2, b3]]" and "indices st2 = [0, 0]"
      and "nd \<noteq> None \<longrightarrow> new_normals st2 \<noteq> []" and "cd \<noteq> None \<longrightarrow> new_coords st2 \<noteq> []"
      by (auto simp: n1 i1)
    with False show ?thesis by (simp add: loop)
  next
    case True
    then have x: "indexer st1 (to_int32 (rounded fl (js_mul b1 (Fin 1000)))) = Some [0]"
      by (simp add: x1 same_key_def)
    show ?thesis
    proof (cases near)
      case True
      then have "js_lt (vec3_sqrDist fl (vec_of [b1, b2, b3]) (vec_of [a1, a2, a3])) (fl (1 / 100))"
        by (simp add: near_def vec_of_three)
      from weld_step_found [OF v1 k1 x n1 this, of nd cd]
      show ?thesis using True \<open>same_key\<close> nn1 nc1 by (simp add: loop n1 i1)
    next
      case False
      then have "\<not> js_lt (vec3_sqrDist fl (vec_of [b1, b2, b3]) (vec_of [a1, a2, a3])) (fl (1 / 100))"
        by (simp add: near_def vec_of_three)
      from weld_step_far [OF nd cd v1 k1 x n1 this] obtain st2 where
        "weld_step fl vs nd cd 1 st1 = Returns st2"
        and "new_vertices st2 = [[a1, a2, a3], [b1, b2, b3]]" and "indices st2 = [0, 1]"
        and "nd \<noteq> None \<longrightarrow> new_normals st2 \<noteq> []" and "cd \<noteq> None \<longrightarrow> new_coords st2 \<noteq> []"
        by (auto simp: i1)
      with False \<open>same_key\<close> show ?thesis by (simp add: loop)
    qed
  qed
qed

lemma linearizeArray_returns:
  "xss \<noteq> [] \<Longrightarrow> \<exists>ys. linearizeArray xss = Returns (Typed Float32Array ys)"
  by (cases xss) (simp_all add: linearizeArray_def new_typed_def)

lemma linearizeArray_triples:
  "linearizeArray [[a, b, c]] = Returns (Typed Float32Array [a, b, c])"
  "linearizeArray [[a, b, c], [d, e, f]] = Returns (Typed Float32Array [a, b, c, d, e, f])"
  by (simp_all add: linearizeArray_def new_typed_def elem_at_def upt_rec numeral_eq_Suc)

lemma computeIndices_welded:
  assumes vd: "buffer_data (vertexBuffers this) ''vertices'' = Some (Typed k vs)"
      and st: "weld_loop fl vs (buffer_data (vertexBuffers this) ''normals'')
                 (buffer_data (vertexBuffers this) ''coords'') 0
                 \<lparr>new_vertices = [], new_normals = [], new_coords = [], indices = [],
                  indexer = Map.empty\<rparr> = Returns st"
      and lv: "linearizeArray (new_vertices st) = Returns (Typed Float32Array ys)"
      and nn: "buffer_data (vertexBuffers this) ''normals'' \<noteq> None \<longrightarrow> new_normals st \<noteq> []"
      and nc: "buffer_data (vertexBuffers this) ''coords'' \<noteq> None \<longrightarrow> new_coords st \<noteq> []"
  shows "\<exists>m w'. computeIndices fl this w = (Returns (), m, w')
           \<and> buffer_data (vertexBuffers m) ''vertices'' = Some (Typed Float32Array ys)
           \<and> buffer_data (indexBuffers m) ''triangles''
               = Some (new_typed (index_kind (Fin (real (length ys) / 3)))
                         (map (\<lambda>j. Fin (real j)) (indices st)))"
proof -
  let ?nd = "buffer_data (vertexBuffers this) ''normals''"
  let ?cd = "buffer_data (vertexBuffers this) ''coords''"
  let ?m0 = "this\<lparr>vertexBuffers := []\<rparr>"
  have f32: "Float32Array \<noteq> Float64Array" by simp
  from createVertexBuffer_returns [OF f32, of "''a_vertex''" "''vertices''" "Fin 3" ys None ?m0 w]
  obtain b1 w1 where
    c1: "createVertexBuffer ''vertices'' (Some ''a_vertex'') (Fin 3)
           (Some (Typed Float32Array ys)) None ?m0 w
         = (Returns b1, ?m0\<lparr>vertexBuffers := AList.update ''vertices'' b1 (vertexBuffers ?m0)\<rparr>, w1)"
    and d1: "data b1 = Some (Typed Float32Array ys)"
    by auto
  define m1 where "m1 = ?m0\<lparr>vertexBuffers := AList.update ''vertices'' b1 (vertexBuffers ?m0)\<rparr>"
  have v1: "buffer_data (vertexBuffers m1) ''vertices'' = Some (Typed Float32Array ys)"
    by (simp add: m1_def buffer_data_def d1)
  obtain b2 m2 w2 where
    c2: "(if ?nd \<noteq> None
          then (case linearizeArray (new_normals st) of
                  Throws e \<Rightarrow> (Throws e, m1, w1)
                | Returns normals \<Rightarrow>
                    createVertexBuffer ''normals'' (Some ''a_normal'') (Fin 3)
                      (Some normals) None m1 w1)
          else (Returns b1, m1, w1)) = (Returns b2, m2, w2)"
    and v2: "buffer_data (vertexBuffers m2) ''vertices'' = Some (Typed Float32Array ys)"
  proof (cases "?nd = None")
    case True
    then show ?thesis using that [of b1 m1 w1] v1 by simp
  next
    case False
    with nn linearizeArray_returns obtain ns where
      ln: "linearizeArray (new_normals st) = Returns (Typed Float32Array ns)" by blast
    from createVertexBuffer_returns [OF f32, of "''a_normal''" "''normals''" "Fin 3" ns None m1 w1]
    obtain b w' where
      "createVertexBuffer ''normals'' (Some ''a_normal'') (Fin 3)
           (Some (Typed Float32Array ns)) None m1 w1
         = (Returns b, m1\<lparr>vertexBuffers := AList.update ''normals'' b (vertexBuffers m1)\<rparr>, w')"
      by auto
    with False ln show ?thesis
      using that [of b "m1\<lparr>vertexBuffers := AList.update ''normals'' b (vertexBuffers m1)\<rparr>" w'] v1
      by (simp add: buffer_data_def update_conv')
  qed
  obtain b3 m3 w3 where
    c3: "(if ?cd \<noteq> None
          then (case linearizeArray (new_coords st) of
                  Throws e \<Rightarrow> (Throws e, m2, w2)
                | Returns coords \<Rightarrow>
                    createVertexBuffer ''coords'' (Some ''a_coord'') (Fin 2)
                      (Some coords) None m2 w2)
          else (Returns b2, m2, w2)) = (Returns b3, m3, w3)"
    and v3: "buffer_data (vertexBuffers m3) ''vertices'' = Some (Typed Float32Array ys)"
  proof (cases "?cd = None")
    case True
    then show ?thesis using that [of b2 m2 w2] v2 by simp
  next
    case False
    with nc linearizeArray_returns obtain cs where
      lc: "linearizeArray (new_coords st) = Returns (Typed Float32Array cs)" by blast
    from createVertexBuffer_returns [OF f32, of "''a_coord''" "''coords''" "Fin 2" cs None m2 w2]
    obtain b w' where
      "createVertexBuffer ''coords'' (Some ''a_coord'') (Fin 2)
           (Some (Typed Float32Array cs)) None m2 w2
         = (Returns b, m2\<lparr>vertexBuffers := AList.update ''coords'' b (vertexBuffers m2)\<rparr>, w')"
      by auto
    with False lc show ?thesis
      using that [of b "m2\<lparr>vertexBuffers := AList.update ''coords'' b (vertexBuffers m2)\<rparr>" w'] v2
      by (simp add: buffer_data_def update_conv')
  qed
  from createIndexBuffer_plain_returns [OF v3, of "''triangles''"
         "map (\<lambda>j. Fin (real j)) (indices st)" None w3]
  obtain b4 w4 where
    c4: "createIndexBuffer ''triangles'' (Plain (map (\<lambda>j. Fin (real j)) (indices st))) None m3 w3
          = (Returns b4, m3\<lparr>indexBuffers := AList.update ''triangles'' b4 (indexBuffers m3)\<rparr>, w4)"
    and d4: "data b4 = Some (new_typed (index_kind (Fin (real (length ys) / 3)))
                         (map (\<lambda>j. Fin (real j)) (indices st)))"
    by (auto simp: len_def)
  have "computeIndices fl this w
          = (Returns (), m3\<lparr>indexBuffers := AList.update ''triangles'' b4 (indexBuffers m3)\<rparr>, w4)"
    unfolding computeIndices_def Let_def
    using vd st lv c1 [folded m1_def] c2 c3 c4 by simp
  moreover have "buffer_data (vertexBuffers (m3\<lparr>indexBuffers := AList.update ''triangles'' b4 (indexBuffers m3)\<rparr>)) ''vertices''
      = Some (Typed Float32Array ys)"
    using v3 by simp
  moreover have "buffer_data (indexBuffers (m3\<lparr>indexBuffers := AList.update ''triangles'' b4 (indexBuffers m3)\<rparr>)) ''triangles''
      = Some (new_typed (index_kind (Fin (real (length ys) / 3)))
                         (map (\<lambda>j. Fin (real j)) (indices st)))"
    using d4 by (simp add: buffer_data_def update_conv')
  ultimately show ?thesis by blast
qed

lemma index_words:
  "new_typed Uint16Array [Fin 0, Fin 0] = Typed Uint16Array [Fin 0, Fin 0]"
  "new_typed Uint16Array [Fin 0, Fin 1] = Typed Uint16Array [Fin 0, Fin 1]"
  by (simp_all add: new_typed_def int_elem_def wrap_unsigned_def trunc_def)

lemma computeIndices_two:
  fixes fl :: rounding and a1 a2 a3 b1 b2 b3 :: jsnum
  defines "same_key \<equiv> to_int32 (rounded fl (js_mul a1 (Fin 1000)))
                        = to_int32 (rounded fl (js_mul b1 (Fin 1000)))"
  defines "near \<equiv> js_lt (vec3_sqrDist fl (b1, b2, b3) (a1, a2, a3)) (fl (1 / 100))"
  assumes vd: "buffer_data (vertexBuffers this) ''vertices''
                 = Some (Typed k [a1, a2, a3, b1, b2, b3])"
      and nd: "typed_or_absent (buffer_data (vertexBuffers this) ''normals'')"
      and cd: "typed_or_absent (buffer_data (vertexBuffers this) ''coords'')"
  shows "\<exists>m w'. computeIndices fl this w = (Returns (), m, w')
           \<and> buffer_data (vertexBuffers m) ''vertices''
               = Some (Typed Float32Array
                        (if same_key \<and> near then [a1, a2, a3] else [a1, a2, a3, b1, b2, b3]))
           \<and> buffer_data (indexBuffers m) ''triangles''
               = Some (Typed Uint16Array [Fin 0, Fin (if same_key \<and> \<not> near then 1 else 0)])"
proof -
  from weld_loop_two_vertices [OF nd cd, of fl a1 a2 a3 b1 b2 b3] obtain st where
    st: "weld_loop fl [a1, a2, a3, b1, b2, b3] (buffer_data (vertexBuffers this) ''normals'')
           (buffer_data (vertexBuffers this) ''coords'') 0
           \<lparr>new_vertices = [], new_normals = [], new_coords = [], indices = [],
            indexer = Map.empty\<rparr> = Returns st"
    and nv: "new_vertices st = (if same_key \<and> near then [[a1, a2, a3]]
                                else [[a1, a2, a3], [b1, b2, b3]])"
    and ix: "indices st = [0, if same_key \<and> \<not> near then 1 else 0]"
    and nn: "buffer_data (vertexBuffers this) ''normals'' \<noteq> None \<longrightarrow> new_normals st \<noteq> []"
    and nc: "buffer_data (vertexBuffers this) ''coords'' \<noteq> None \<longrightarrow> new_coords st \<noteq> []"
    unfolding same_key_def near_def by blast
  define ys where "ys = (if same_key \<and> near then [a1, a2, a3] else [a1, a2, a3, b1, b2, b3])"
  have lv: "linearizeArray (new_vertices st) = Returns (Typed Float32Array ys)"
    by (simp add: nv ys_def linearizeArray_triples)
  from computeIndices_welded [OF vd st lv nn nc, of w] obtain m w' where
    r: "computeIndices fl this w = (Returns (), m, w')"
    and v: "buffer_data (vertexBuffers m) ''vertices'' = Some (Typed Float32Array ys)"
    and t: "buffer_data (indexBuffers m) ''triangles''
              = Some (new_typed (index_kind (Fin (real (length ys) / 3)))
                        (map (\<lambda>j. Fin (real j)) (indices st)))"
    by blast
  have "index_kind (Fin (real (length ys) / 3)) = Uint16Array"
    by (simp add: ys_def index_kind_def js_gt_def)
  with t have "buffer_data (indexBuffers m) ''triangles''
      = Some (Typed Uint16Array [Fin 0, Fin (if same_key \<and> \<not> near then 1 else 0)])"
    by (simp add: ix index_words)
  with r v show ?thesis by (auto simp: ys_def)
qed




lemma sqrDist_threshold:
  "vec3_sqrDist to_double
     (Fin (9490623 / 2 ^ 38), Fin (3355443 / 2 ^ 25), Fin (16503237 / 2 ^ 49)) (Fin 0, Fin 0, Fin 0)
     = Fin (5764607523034234 / 2 ^ 59)"
proof -
  have x: "to_double (0 - 9490623 / 2 ^ 38) = Fin (0 - 9490623 / 2 ^ 38)"
    using to_double_frac [of "- 9490623" 38] by simp
  have y: "to_double (0 - 3355443 / 2 ^ 25) = Fin (0 - 3355443 / 2 ^ 25)"
    using to_double_frac [of "- 3355443" 25] by simp
  have z: "to_double (0 - 16503237 / 2 ^ 49) = Fin (0 - 16503237 / 2 ^ 49)"
    using to_double_frac [of "- 16503237" 49] by simp
  have xx: "to_double ((0 - 9490623 / 2 ^ 38) * (0 - 9490623 / 2 ^ 38))
              = Fin (90071924928129 / 2 ^ 76)"
    using to_double_frac [of 90071924928129 76] by simp
  have yy: "to_double ((0 - 3355443 / 2 ^ 25) * (0 - 3355443 / 2 ^ 25))
              = Fin (11258997726249 / 2 ^ 50)"
    using to_double_frac [of 11258997726249 50] by simp
  have zz: "to_double ((0 - 16503237 / 2 ^ 49) * (0 - 16503237 / 2 ^ 49))
              = Fin (272356831478169 / 2 ^ 98)"
    using to_double_frac [of 272356831478169 98] by simp
  have "to_double (90071924928129 / 2 ^ 76 + 11258997726249 / 2 ^ 50)
          = Fin (of_int 5764607523033739 / 2 ^ (7 + 52))"
    by (rule to_double_small) simp_all
  then have s1: "to_double (90071924928129 / 2 ^ 76 + 11258997726249 / 2 ^ 50)
                   = Fin (5764607523033739 / 2 ^ 59)"
    by simp
  have "to_double (5764607523033739 / 2 ^ 59 + 272356831478169 / 2 ^ 98)
          = Fin (of_int 5764607523034234 / 2 ^ (7 + 52))"
    by (rule to_double_small) simp_all
  then have s2: "to_double (5764607523033739 / 2 ^ 59 + 272356831478169 / 2 ^ 98)
                   = Fin (5764607523034234 / 2 ^ 59)"
    by simp
  show ?thesis
    by (simp only: vec3_sqrDist_def Let_def prod.case js_sub_fin rounded_fin js_mul.simps
          js_add.simps x y z xx yy zz s1 s2)
qed

text \<open>
  The claim also fails when the squared distance is at least 0.01 without any coordinate
  differing by 0.1: the second vertex of \<open>threshold_mesh\<close>, of coordinates that 32-bit
  floats have, is at a squared distance of at least 1/100 from the first, the origin,
  but the sum of the three squares as the doubles compute it is the double just below
  the double \<open>0.01\<close>, and the two vertices are welded.
\<close>

theorem computeIndices_threshold_counterexample:
  "buffer_data (vertexBuffers (fst (snd (computeIndices to_double threshold_mesh quiet))))
       ''vertices''
     = Some (Typed Float32Array [Fin 0, Fin 0, Fin 0])
   \<and> buffer_data (indexBuffers (fst (snd (computeIndices to_double threshold_mesh quiet))))
       ''triangles''
     = Some (Typed Uint16Array [Fin 0, Fin 0])
   \<and> (1 / 100 :: real)
       \<le> 9490623 / 2 ^ 38 * (9490623 / 2 ^ 38) + 3355443 / 2 ^ 25 * (3355443 / 2 ^ 25)
         + 16503237 / 2 ^ 49 * (16503237 / 2 ^ 49)"
proof -
  have a: "buffer_data (vertexBuffers threshold_mesh) ''vertices''
             = Some (Typed Float32Array [Fin 0, Fin 0, Fin 0,
                  Fin (9490623 / 2 ^ 38), Fin (3355443 / 2 ^ 25), Fin (16503237 / 2 ^ 49)])"
    and b: "typed_or_absent (buffer_data (vertexBuffers threshold_mesh) ''normals'')"
    and c: "typed_or_absent (buffer_data (vertexBuffers threshold_mesh) ''coords'')"
    by (simp_all add: threshold_mesh_def host_mesh_def host_buffer_def buffer_data_def
          typed_or_absent_def)
  have n: "js_lt (vec3_sqrDist to_double
              (Fin (9490623 / 2 ^ 38), Fin (3355443 / 2 ^ 25), Fin (16503237 / 2 ^ 49))
              (Fin 0, Fin 0, Fin 0)) (to_double (1 / 100))"
    unfolding sqrDist_threshold to_double_hundredth by simp
  have k0: "to_int32 (rounded to_double (js_mul (Fin 0) (Fin 1000))) = 0"
    using dr_exact(1) [OF double_rounding_to_double]
    by (simp add: rounded_fin trunc_def wrap_signed_def)
  have "to_double (9490623 / 2 ^ 38 * 1000) = Fin (1186327875 / 2 ^ 35)"
    using to_double_frac [of 1186327875 35] by simp
  then have k1: "to_int32 (rounded to_double (js_mul (Fin (9490623 / 2 ^ 38)) (Fin 1000))) = 0"
    by (simp add: rounded_fin trunc_def wrap_signed_def)
  from computeIndices_two [OF a b c, of to_double quiet] n k0 k1
  have "\<exists>m w'. computeIndices to_double threshold_mesh quiet = (Returns (), m, w')
          \<and> buffer_data (vertexBuffers m) ''vertices'' = Some (Typed Float32Array [Fin 0, Fin 0, Fin 0])
          \<and> buffer_data (indexBuffers m) ''triangles'' = Some (Typed Uint16Array [Fin 0, Fin 0])"
    by (simp del: to_int32.simps)
  moreover have "(1 / 100 :: real)
       \<le> 9490623 / 2 ^ 38 * (9490623 / 2 ^ 38) + 3355443 / 2 ^ 25 * (3355443 / 2 ^ 25)
         + 16503237 / 2 ^ 49 * (16503237 / 2 ^ 49)"
    by simp
  ultimately show ?thesis by auto
qed

end
